theory Spec2Isabelle
  imports Complex_Main "HOL-Library.Multiset" "HOL-Library.Signed_Division" "HOL-Library.Word"
begin

section \<open>Floating-point values\<close>

text \<open>
  The functions of \<^verbatim>\<open>rasterizeTools.h\<close> compute on C++ \<^verbatim>\<open>float\<close>s, and in two
  places on \<^verbatim>\<open>double\<close>s. A value is a finite number, one of the two infinities, or
  NaN. Every arithmetic operation computes the exact real result and rounds it to the
  nearest number of its format, ties to the even mantissa: 24 bits of mantissa and
  exponents from -126 to 127 for \<^verbatim>\<open>float\<close>, 53 bits and exponents from -1022 to 1023
  for \<^verbatim>\<open>double\<close>, with gradual underflow below the least exponent and overflow to
  an infinity above the greatest. The rules for infinities, NaN and division by zero
  are the ones of IEEE 754: no operation traps. The two zeros of IEEE 754, which compare
  equal in the source, are one value here, so the sign of an infinity that a division by
  zero produces is taken from the numerator alone. Each operation is rounded on its own:
  a compiler that fuses a product and a sum into one rounding is not modelled.
\<close>

datatype cfloat = Fin real | PInf | MInf | NaN

fun isfinite :: "cfloat \<Rightarrow> bool" where
  "isfinite (Fin r) = True"
| "isfinite _ = False"

fun negative :: "cfloat \<Rightarrow> bool" where
  "negative (Fin r) = (r < 0)"
| "negative MInf = True"
| "negative _ = False"

definition signed_inf :: "bool \<Rightarrow> cfloat" where
  "signed_inf neg = (if neg then MInf else PInf)"

fun fneg :: "cfloat \<Rightarrow> cfloat" where
  "fneg (Fin r) = Fin (- r)"
| "fneg PInf = MInf"
| "fneg MInf = PInf"
| "fneg NaN = NaN"

subsection \<open>Rounding\<close>

text \<open>The nearest integer, the even one of the two when \<open>x\<close> lies half way.\<close>

definition rne_int :: "real \<Rightarrow> int" where
  "rne_int x =
     (let f = \<lfloor>x\<rfloor>
      in if x - of_int f < 1 / 2 then f
         else if 1 / 2 < x - of_int f then f + 1
         else if even f then f else f + 1)"

text \<open>
  The exponent \<open>e\<close> of the binade of a number \<open>x \<ge> 0\<close>, that is \<open>2^e \<le> x < 2^(e+1)\<close>,
  found by halving or doubling; it stops at the least exponent \<open>1 - emax\<close> (the
  subnormal numbers share the quantum of the least binade) and at \<open>emax + 1\<close>.
\<close>

fun expo_up :: "nat \<Rightarrow> real \<Rightarrow> int" where
  "expo_up 0 x = 0"
| "expo_up (Suc n) x = (if x < 2 then 0 else expo_up n (x / 2) + 1)"

fun expo_down :: "nat \<Rightarrow> real \<Rightarrow> int" where
  "expo_down 0 x = 0"
| "expo_down (Suc n) x = (if 1 \<le> x then 0 else expo_down n (2 * x) - 1)"

definition binade :: "nat \<Rightarrow> real \<Rightarrow> int" where
  "binade emax x = (if 1 \<le> x then expo_up (Suc emax) x else expo_down (emax - 1) x)"

text \<open>
  Rounding a magnitude \<open>x \<ge> 0\<close> to \<open>p\<close> bits: the nearest multiple of the quantum
  \<open>2^(e - p + 1)\<close> of its binade, and infinity when that reaches \<open>2^(emax + 1)\<close>.
\<close>

definition round_mag :: "nat \<Rightarrow> nat \<Rightarrow> real \<Rightarrow> cfloat" where
  "round_mag p emax x =
     (let q = 2 powi (binade emax x - int p + 1);
          r = of_int (rne_int (x / q)) * q
      in if 2 powi (int emax + 1) \<le> r then PInf else Fin r)"

definition round_to :: "nat \<Rightarrow> nat \<Rightarrow> real \<Rightarrow> cfloat" where
  "round_to p emax x = (if x < 0 then fneg (round_mag p emax (- x)) else round_mag p emax x)"

definition round32 :: "real \<Rightarrow> cfloat" where
  "round32 = round_to 24 127"

definition round64 :: "real \<Rightarrow> cfloat" where
  "round64 = round_to 53 1023"

subsection \<open>Arithmetic and comparison\<close>

fun add_with :: "(real \<Rightarrow> cfloat) \<Rightarrow> cfloat \<Rightarrow> cfloat \<Rightarrow> cfloat" where
  "add_with rnd (Fin a) (Fin b) = rnd (a + b)"
| "add_with rnd NaN _ = NaN"
| "add_with rnd _ NaN = NaN"
| "add_with rnd PInf MInf = NaN"
| "add_with rnd MInf PInf = NaN"
| "add_with rnd PInf _ = PInf"
| "add_with rnd _ PInf = PInf"
| "add_with rnd MInf _ = MInf"
| "add_with rnd _ MInf = MInf"

fun mul_with :: "(real \<Rightarrow> cfloat) \<Rightarrow> cfloat \<Rightarrow> cfloat \<Rightarrow> cfloat" where
  "mul_with rnd (Fin a) (Fin b) = rnd (a * b)"
| "mul_with rnd NaN _ = NaN"
| "mul_with rnd _ NaN = NaN"
| "mul_with rnd a b =
     (if a = Fin 0 \<or> b = Fin 0 then NaN else signed_inf (negative a \<noteq> negative b))"

fun div_with :: "(real \<Rightarrow> cfloat) \<Rightarrow> cfloat \<Rightarrow> cfloat \<Rightarrow> cfloat" where
  "div_with rnd (Fin a) (Fin b) =
     (if b \<noteq> 0 then rnd (a / b) else if a = 0 then NaN else signed_inf (a < 0))"
| "div_with rnd NaN _ = NaN"
| "div_with rnd _ NaN = NaN"
| "div_with rnd (Fin a) _ = Fin 0"
| "div_with rnd a (Fin b) = signed_inf (negative a \<noteq> (b < 0))"
| "div_with rnd _ _ = NaN"

text \<open>The operations on \<^verbatim>\<open>float\<close>.\<close>

definition fadd :: "cfloat \<Rightarrow> cfloat \<Rightarrow> cfloat" where
  "fadd = add_with round32"

definition fsub :: "cfloat \<Rightarrow> cfloat \<Rightarrow> cfloat" where
  "fsub a b = fadd a (fneg b)"

definition fmul :: "cfloat \<Rightarrow> cfloat \<Rightarrow> cfloat" where
  "fmul = mul_with round32"

definition fdiv :: "cfloat \<Rightarrow> cfloat \<Rightarrow> cfloat" where
  "fdiv = div_with round32"

text \<open>
  The operations on \<^verbatim>\<open>double\<close> that the source reaches through the literals
  \<^verbatim>\<open>0.5\<close> and \<^verbatim>\<open>1.0\<close>. A \<^verbatim>\<open>float\<close> converts to \<^verbatim>\<open>double\<close> unchanged; a
  \<^verbatim>\<open>double\<close> converts to \<^verbatim>\<open>float\<close> by rounding.
\<close>

definition dadd :: "cfloat \<Rightarrow> cfloat \<Rightarrow> cfloat" where
  "dadd = add_with round64"

definition dsub :: "cfloat \<Rightarrow> cfloat \<Rightarrow> cfloat" where
  "dsub a b = dadd a (fneg b)"

definition dmul :: "cfloat \<Rightarrow> cfloat \<Rightarrow> cfloat" where
  "dmul = mul_with round64"

fun to_float :: "cfloat \<Rightarrow> cfloat" where
  "to_float (Fin r) = round32 r"
| "to_float a = a"

text \<open>The comparisons \<^verbatim>\<open><=\<close>, \<^verbatim>\<open>>=\<close> and \<^verbatim>\<open><\<close>: false as soon as one side is NaN.\<close>

fun fle :: "cfloat \<Rightarrow> cfloat \<Rightarrow> bool" where
  "fle (Fin a) (Fin b) = (a \<le> b)"
| "fle NaN _ = False"
| "fle _ NaN = False"
| "fle MInf _ = True"
| "fle _ PInf = True"
| "fle _ _ = False"

definition fge :: "cfloat \<Rightarrow> cfloat \<Rightarrow> bool" where
  "fge a b = fle b a"

fun flt :: "cfloat \<Rightarrow> cfloat \<Rightarrow> bool" where
  "flt (Fin a) (Fin b) = (a < b)"
| "flt NaN _ = False"
| "flt _ NaN = False"
| "flt PInf _ = False"
| "flt _ MInf = False"
| "flt _ _ = True"

text \<open>
  \<^verbatim>\<open>min\<close> and \<^verbatim>\<open>max\<close> on two \<^verbatim>\<open>float\<close>s are the overloads of the CUDA runtime
  headers, which call \<^verbatim>\<open>fminf\<close> and \<^verbatim>\<open>fmaxf\<close>: a NaN operand is skipped.
\<close>

fun fmin :: "cfloat \<Rightarrow> cfloat \<Rightarrow> cfloat" where
  "fmin NaN b = b"
| "fmin a NaN = a"
| "fmin a b = (if flt b a then b else a)"

fun fmax :: "cfloat \<Rightarrow> cfloat \<Rightarrow> cfloat" where
  "fmax NaN b = b"
| "fmax a NaN = a"
| "fmax a b = (if flt a b then b else a)"

section \<open>Vectors, triangles and boxes\<close>

text \<open>\<^verbatim>\<open>glm::vec2\<close> and \<^verbatim>\<open>glm::vec3\<close>, with the two operators the source uses on them.\<close>

record vec2 =
  px :: cfloat
  py :: cfloat

record vec3 =
  vx :: cfloat
  vy :: cfloat
  vz :: cfloat

definition vec3_of_vec2 :: "vec2 \<Rightarrow> cfloat \<Rightarrow> vec3" where
  "vec3_of_vec2 a c = \<lparr>vx = px a, vy = py a, vz = c\<rparr>"

definition vec2_of_xy :: "vec3 \<Rightarrow> vec2" where
  "vec2_of_xy v = \<lparr>px = vx v, py = vy v\<rparr>"

definition scale :: "cfloat \<Rightarrow> vec3 \<Rightarrow> vec3" where
  "scale s v = \<lparr>vx = fmul s (vx v), vy = fmul s (vy v), vz = fmul s (vz v)\<rparr>"

definition vadd :: "vec3 \<Rightarrow> vec3 \<Rightarrow> vec3" where
  "vadd a b = \<lparr>vx = fadd (vx a) (vx b), vy = fadd (vy a) (vy b), vz = fadd (vz a) (vz b)\<rparr>"

text \<open>An array of exactly three elements: \<^verbatim>\<open>tri[3]\<close>, \<^verbatim>\<open>normal[3]\<close>, \<^verbatim>\<open>color[3]\<close>.\<close>

datatype 'a array3 = Array3 (el0: 'a) (el1: 'a) (el2: 'a)

definition elems :: "'a array3 \<Rightarrow> 'a list" where
  "elems t = [el0 t, el1 t, el2 t]"

record AABB =
  aabb_min :: vec3
  aabb_max :: vec3

definition finite_vec2 :: "vec2 \<Rightarrow> bool" where
  "finite_vec2 p = (isfinite (px p) \<and> isfinite (py p))"

definition finite_vec3 :: "vec3 \<Rightarrow> bool" where
  "finite_vec3 v = (isfinite (vx v) \<and> isfinite (vy v) \<and> isfinite (vz v))"

definition finite_tri :: "vec3 array3 \<Rightarrow> bool" where
  "finite_tri t = (finite_vec3 (el0 t) \<and> finite_vec3 (el1 t) \<and> finite_vec3 (el2 t))"

section \<open>The functions of rasterizeTools.h\<close>

text \<open>
  Each function below is the function of the same name in the source, with the
  operators of C++ replaced by the operations above. The literals \<^verbatim>\<open>0.5\<close> and
  \<^verbatim>\<open>1.0\<close> are doubles, so the source computes the product by \<^verbatim>\<open>0.5\<close> and the two
  subtractions from \<^verbatim>\<open>1.0\<close> in double precision and converts the result to
  \<^verbatim>\<open>float\<close>. \<^verbatim>\<open>multiplyMV\<close>, a 4x4 matrix-vector product, is used by none of the
  properties below and is left out.
\<close>

definition getAABBForTriangle :: "vec3 array3 \<Rightarrow> AABB" where
  "getAABBForTriangle tri =
     \<lparr>aabb_min =
        \<lparr>vx = fmin (fmin (vx (el0 tri)) (vx (el1 tri))) (vx (el2 tri)),
         vy = fmin (fmin (vy (el0 tri)) (vy (el1 tri))) (vy (el2 tri)),
         vz = fmin (fmin (vz (el0 tri)) (vz (el1 tri))) (vz (el2 tri))\<rparr>,
      aabb_max =
        \<lparr>vx = fmax (fmax (vx (el0 tri)) (vx (el1 tri))) (vx (el2 tri)),
         vy = fmax (fmax (vy (el0 tri)) (vy (el1 tri))) (vy (el2 tri)),
         vz = fmax (fmax (vz (el0 tri)) (vz (el1 tri))) (vz (el2 tri))\<rparr>\<rparr>"

definition calculateSignedArea :: "vec3 array3 \<Rightarrow> cfloat" where
  "calculateSignedArea tri =
     to_float (dmul (Fin (1 / 2))
       (fsub (fmul (fsub (vx (el2 tri)) (vx (el0 tri))) (fsub (vy (el1 tri)) (vy (el0 tri))))
             (fmul (fsub (vx (el1 tri)) (vx (el0 tri))) (fsub (vy (el2 tri)) (vy (el0 tri))))))"

definition calculateBarycentricCoordinateValue ::
    "vec2 \<Rightarrow> vec2 \<Rightarrow> vec2 \<Rightarrow> vec3 array3 \<Rightarrow> cfloat" where
  "calculateBarycentricCoordinateValue a b c tri =
     (let baryTri = Array3 (vec3_of_vec2 a (Fin 0)) (vec3_of_vec2 b (Fin 0)) (vec3_of_vec2 c (Fin 0))
      in fdiv (calculateSignedArea baryTri) (calculateSignedArea tri))"

definition calculateBarycentricCoordinate :: "vec3 array3 \<Rightarrow> vec2 \<Rightarrow> vec3" where
  "calculateBarycentricCoordinate tri point =
     (let beta = calculateBarycentricCoordinateValue
                   \<lparr>px = vx (el0 tri), py = vy (el0 tri)\<rparr> point
                   \<lparr>px = vx (el2 tri), py = vy (el2 tri)\<rparr> tri;
          gamma = calculateBarycentricCoordinateValue
                   \<lparr>px = vx (el0 tri), py = vy (el0 tri)\<rparr>
                   \<lparr>px = vx (el1 tri), py = vy (el1 tri)\<rparr> point tri;
          alpha = to_float (dsub (dsub (Fin 1) beta) gamma)
      in \<lparr>vx = alpha, vy = beta, vz = gamma\<rparr>)"

definition isBarycentricCoordInBounds :: "vec3 \<Rightarrow> bool" where
  "isBarycentricCoordInBounds barycentricCoord =
     (fge (vx barycentricCoord) (Fin 0) \<and> fle (vx barycentricCoord) (Fin 1) \<and>
      fge (vy barycentricCoord) (Fin 0) \<and> fle (vy barycentricCoord) (Fin 1) \<and>
      fge (vz barycentricCoord) (Fin 0) \<and> fle (vz barycentricCoord) (Fin 1))"

definition getZAtCoordinate :: "vec3 \<Rightarrow> vec3 array3 \<Rightarrow> cfloat" where
  "getZAtCoordinate barycentricCoord tri =
     fadd (fadd (fmul (vx barycentricCoord) (vz (el0 tri)))
                (fmul (vy barycentricCoord) (vz (el1 tri))))
          (fmul (vz barycentricCoord) (vz (el2 tri)))"

definition getNormalAtCoordinate :: "vec3 \<Rightarrow> vec3 array3 \<Rightarrow> vec3" where
  "getNormalAtCoordinate barycentricCoord normal =
     vadd (vadd (scale (vx barycentricCoord) (el0 normal))
                (scale (vy barycentricCoord) (el1 normal)))
          (scale (vz barycentricCoord) (el2 normal))"

definition getColorAtCoordinate :: "vec3 \<Rightarrow> vec3 array3 \<Rightarrow> vec3" where
  "getColorAtCoordinate barycentricCoord color =
     vadd (vadd (scale (vx barycentricCoord) (el0 color))
                (scale (vy barycentricCoord) (el1 color)))
          (scale (vz barycentricCoord) (el2 color))"

subsection \<open>Texture lookup\<close>

text \<open>
  \<^verbatim>\<open>getColorFromTextureData\<close> computes on 32-bit \<^verbatim>\<open>int\<close>s and reads a byte buffer
  through a raw pointer. What C++ leaves undefined is a fault of the model: a
  \<^verbatim>\<open>float\<close> whose truncation does not fit an \<^verbatim>\<open>int\<close>, a remainder by zero, signed
  overflow, and a read outside the buffer.
\<close>

datatype fault = CastOutOfRange | DivideByZero | SignedOverflow | OutOfBoundsRead

definition INT_MIN :: int where
  "INT_MIN = - (2 ^ 31)"

definition INT_MAX :: int where
  "INT_MAX = 2 ^ 31 - 1"

fun and_then :: "fault + 'a \<Rightarrow> ('a \<Rightarrow> fault + 'b) \<Rightarrow> fault + 'b" where
  "and_then (Inl e) f = Inl e"
| "and_then (Inr v) f = f v"

definition in_int_range :: "int \<Rightarrow> fault + int" where
  "in_int_range k = (if INT_MIN \<le> k \<and> k \<le> INT_MAX then Inr k else Inl SignedOverflow)"

definition int_add :: "int \<Rightarrow> int \<Rightarrow> fault + int" where
  "int_add a b = in_int_range (a + b)"

definition int_mul :: "int \<Rightarrow> int \<Rightarrow> fault + int" where
  "int_mul a b = in_int_range (a * b)"

definition int_rem :: "int \<Rightarrow> int \<Rightarrow> fault + int" where
  "int_rem a b =
     (if b = 0 then Inl DivideByZero
      else if a = INT_MIN \<and> b = - 1 then Inl SignedOverflow
      else Inr (a smod b))"

definition int_to_float :: "int \<Rightarrow> cfloat" where
  "int_to_float k = round32 (of_int k)"

definition float_to_int :: "cfloat \<Rightarrow> fault + int" where
  "float_to_int f =
     (case f of
        Fin r \<Rightarrow>
          (let t = (if 0 \<le> r then \<lfloor>r\<rfloor> else \<lceil>r\<rceil>)
           in if INT_MIN \<le> t \<and> t \<le> INT_MAX then Inr t else Inl CastOutOfRange)
      | _ \<Rightarrow> Inl CastOutOfRange)"

definition uchar_to_float :: "8 word \<Rightarrow> cfloat" where
  "uchar_to_float b = int_to_float (uint b)"

definition read_byte :: "8 word list \<Rightarrow> int \<Rightarrow> fault + 8 word" where
  "read_byte buf i =
     (if 0 \<le> i \<and> nat i < length buf then Inr (buf ! nat i) else Inl OutOfBoundsRead)"

text \<open>The local \<^verbatim>\<open>x\<close> (and \<^verbatim>\<open>y\<close>): \<^verbatim>\<open>(int)(w * texcoord.x) % w\<close>.\<close>

definition pixelCoord :: "int \<Rightarrow> cfloat \<Rightarrow> fault + int" where
  "pixelCoord w t = and_then (float_to_int (fmul (int_to_float w) t)) (\<lambda>k. int_rem k w)"

text \<open>The local \<^verbatim>\<open>index\<close>: \<^verbatim>\<open>x + y * w\<close>.\<close>

definition pixelIndex :: "vec2 \<Rightarrow> int \<Rightarrow> int \<Rightarrow> fault + int" where
  "pixelIndex texcoord w h =
     and_then (pixelCoord w (px texcoord)) (\<lambda>x.
     and_then (pixelCoord h (py texcoord)) (\<lambda>y.
     and_then (int_mul y w) (\<lambda>yw. int_add x yw)))"

definition getColorFromTextureData ::
    "8 word list \<Rightarrow> vec2 \<Rightarrow> int \<Rightarrow> int \<Rightarrow> int \<Rightarrow> fault + vec3" where
  "getColorFromTextureData pTextureData texcoord w h stride =
     and_then (pixelIndex texcoord w h) (\<lambda>index.
     and_then (int_mul index stride) (\<lambda>base.
     and_then (read_byte pTextureData base) (\<lambda>r.
     and_then (int_add base 1) (\<lambda>i1.
     and_then (read_byte pTextureData i1) (\<lambda>g.
     and_then (int_add base 2) (\<lambda>i2.
     and_then (read_byte pTextureData i2) (\<lambda>b.
       Inr \<lparr>vx = fdiv (uchar_to_float r) (Fin 255),
            vy = fdiv (uchar_to_float g) (Fin 255),
            vz = fdiv (uchar_to_float b) (Fin 255)\<rparr>)))))))"

section \<open>Notions of the specification\<close>

text \<open>A vector whose three components are the finite numbers \<open>a\<close>, \<open>b\<close> and \<open>c\<close>.\<close>

definition point3 :: "real \<Rightarrow> real \<Rightarrow> real \<Rightarrow> vec3" where
  "point3 a b c = \<lparr>vx = Fin a, vy = Fin b, vz = Fin c\<rparr>"

text \<open>A weight lies in the closed interval from 0 to 1: it is a finite number there.\<close>

fun in_unit_interval :: "cfloat \<Rightarrow> bool" where
  "in_unit_interval (Fin r) = (0 \<le> r \<and> r \<le> 1)"
| "in_unit_interval _ = False"

text \<open>The magnitude of a value.\<close>

fun fabs :: "cfloat \<Rightarrow> cfloat" where
  "fabs (Fin r) = Fin \<bar>r\<bar>"
| "fabs PInf = PInf"
| "fabs MInf = PInf"
| "fabs NaN = NaN"

text \<open>
  The shoelace formula for the signed area of the plane triangle
  \<open>(x0, y0)\<close>, \<open>(x1, y1)\<close>, \<open>(x2, y2)\<close>.
\<close>

definition shoelace :: "real \<Rightarrow> real \<Rightarrow> real \<Rightarrow> real \<Rightarrow> real \<Rightarrow> real \<Rightarrow> real" where
  "shoelace x0 y0 x1 y1 x2 y2 = (x0 * (y1 - y2) + x1 * (y2 - y0) + x2 * (y0 - y1)) / 2"

text \<open>
  The \<open>(x, y)\<close> projections of the three vertices are collinear: they are finite and lie on
  one line \<open>a * x + b * y = c\<close> of the plane.
\<close>

definition on_line :: "real \<Rightarrow> real \<Rightarrow> real \<Rightarrow> vec3 \<Rightarrow> bool" where
  "on_line a b c v = (\<exists>x y. vx v = Fin x \<and> vy v = Fin y \<and> a * x + b * y = c)"

definition collinear_xy :: "vec3 array3 \<Rightarrow> bool" where
  "collinear_xy t =
     (\<exists>a b c. (a \<noteq> 0 \<or> b \<noteq> 0) \<and>
        on_line a b c (el0 t) \<and> on_line a b c (el1 t) \<and> on_line a b c (el2 t))"

text \<open>The least and the greatest of a list of values, and the component-wise order.\<close>

definition is_least :: "cfloat \<Rightarrow> cfloat list \<Rightarrow> bool" where
  "is_least m xs = (m \<in> set xs \<and> (\<forall>x\<in>set xs. fle m x))"

definition is_greatest :: "cfloat \<Rightarrow> cfloat list \<Rightarrow> bool" where
  "is_greatest m xs = (m \<in> set xs \<and> (\<forall>x\<in>set xs. fle x m))"

definition vec3_le :: "vec3 \<Rightarrow> vec3 \<Rightarrow> bool" where
  "vec3_le a b = (fle (vx a) (vx b) \<and> fle (vy a) (vy b) \<and> fle (vz a) (vz b))"

text \<open>
  Texture sampling in the words of the specification: the pixel indices are
  \<open>floor (width * u) mod width\<close> and \<open>floor (height * v) mod height\<close>, the flat index is
  \<open>x + y * width\<close>, and \<open>channelStride\<close> consecutive bytes are read from
  \<open>index * channelStride\<close> on, each divided by 255.
\<close>

definition sampleTexture_spec ::
    "8 word list \<Rightarrow> real \<Rightarrow> real \<Rightarrow> int \<Rightarrow> int \<Rightarrow> int \<Rightarrow> real list" where
  "sampleTexture_spec buf u v width height channelStride =
     (let x = \<lfloor>of_int width * u\<rfloor> mod width;
          y = \<lfloor>of_int height * v\<rfloor> mod height;
          index = x + y * width
      in map (\<lambda>b. real (unat b) / 255)
           (take (nat channelStride) (drop (nat (index * channelStride)) buf)))"

definition components :: "vec3 \<Rightarrow> cfloat list" where
  "components c = [vx c, vy c, vz c]"

text \<open>
  The polynomial that \<^verbatim>\<open>calculateSignedArea\<close> evaluates, on real numbers without
  rounding.
\<close>

definition area_xy :: "real \<Rightarrow> real \<Rightarrow> real \<Rightarrow> real \<Rightarrow> real \<Rightarrow> real \<Rightarrow> real" where
  "area_xy x0 y0 x1 y1 x2 y2 = ((x2 - x0) * (y1 - y0) - (x1 - x0) * (y2 - y0)) / 2"

text \<open>
  A real number is a \<^verbatim>\<open>float\<close> (a \<^verbatim>\<open>double\<close>) when rounding leaves it unchanged;
  an operation whose exact result is such a number is computed without rounding error.
\<close>

definition exact32 :: "real \<Rightarrow> bool" where
  "exact32 x = (round32 x = Fin x)"

definition exact64 :: "real \<Rightarrow> bool" where
  "exact64 x = (round64 x = Fin x)"

definition float_vec3 :: "vec3 \<Rightarrow> bool" where
  "float_vec3 v = (\<exists>a b c. v = point3 a b c \<and> exact32 a \<and> exact32 b \<and> exact32 c)"

definition float_tri :: "vec3 array3 \<Rightarrow> bool" where
  "float_tri t = (float_vec3 (el0 t) \<and> float_vec3 (el1 t) \<and> float_vec3 (el2 t))"

text \<open>
  The signed area of the plane triangle \<open>(x0, y0)\<close>, \<open>(x1, y1)\<close>, \<open>(x2, y2)\<close> is
  computed without rounding error: the exact result of each of the nine operations of
  \<^verbatim>\<open>calculateSignedArea\<close> is a \<^verbatim>\<open>float\<close> (a \<^verbatim>\<open>double\<close> for the product by
  \<^verbatim>\<open>0.5\<close>).
\<close>

definition area_exact :: "real \<Rightarrow> real \<Rightarrow> real \<Rightarrow> real \<Rightarrow> real \<Rightarrow> real \<Rightarrow> bool" where
  "area_exact x0 y0 x1 y1 x2 y2 =
     (exact32 (x2 - x0) \<and> exact32 (y1 - y0) \<and> exact32 (x1 - x0) \<and> exact32 (y2 - y0) \<and>
      exact32 ((x2 - x0) * (y1 - y0)) \<and> exact32 ((x1 - x0) * (y2 - y0)) \<and>
      exact32 ((x2 - x0) * (y1 - y0) - (x1 - x0) * (y2 - y0)) \<and>
      exact64 (1 / 2 * ((x2 - x0) * (y1 - y0) - (x1 - x0) * (y2 - y0))) \<and>
      exact32 (1 / 2 * ((x2 - x0) * (y1 - y0) - (x1 - x0) * (y2 - y0))))"

text \<open>
  The same for a triangle, whose x and y coordinates are then finite.
\<close>

definition computed_exactly :: "vec3 array3 \<Rightarrow> bool" where
  "computed_exactly t =
     (\<exists>x0 y0 x1 y1 x2 y2.
        vx (el0 t) = Fin x0 \<and> vy (el0 t) = Fin y0 \<and> vx (el1 t) = Fin x1 \<and> vy (el1 t) = Fin y1 \<and>
        vx (el2 t) = Fin x2 \<and> vy (el2 t) = Fin y2 \<and> area_exact x0 y0 x1 y1 x2 y2)"

text \<open>
  The products \<open>(x1 - x0) * (y1 - y0)\<close> and \<open>(x2 - x0) * (y2 - y0)\<close> of a triangle,
  computed on \<^verbatim>\<open>float\<close>s, are finite: the coordinates are finite and neither a
  difference nor a product overflows.
\<close>

definition products_finite :: "vec3 array3 \<Rightarrow> bool" where
  "products_finite t =
     (isfinite (fmul (fsub (vx (el1 t)) (vx (el0 t))) (fsub (vy (el1 t)) (vy (el0 t)))) \<and>
      isfinite (fmul (fsub (vx (el2 t)) (vx (el0 t))) (fsub (vy (el2 t)) (vy (el0 t)))))"

text \<open>
  The number a finite value stands for.
\<close>

fun fval :: "cfloat \<Rightarrow> real" where
  "fval (Fin r) = r"
| "fval _ = 0"

text \<open>
  The weighted sum of \<^verbatim>\<open>getZAtCoordinate\<close> is computed without rounding error: its
  three products and two sums are \<^verbatim>\<open>float\<close>s.
\<close>

definition depth_sum_exact :: "vec3 \<Rightarrow> vec3 array3 \<Rightarrow> bool" where
  "depth_sum_exact b tri =
     (let a0 = fval (vx b) * fval (vz (el0 tri));
          a1 = fval (vy b) * fval (vz (el1 tri));
          a2 = fval (vz b) * fval (vz (el2 tri))
      in exact32 a0 \<and> exact32 a1 \<and> exact32 a2 \<and> exact32 (a0 + a1) \<and> exact32 (a0 + a1 + a2))"

text \<open>
  The greatest magnitude of the three z components of a triangle, and the bound on the
  rounding error of \<^verbatim>\<open>getZAtCoordinate\<close> that the properties below use: three
  products and two sums, each rounded to 24 bits.
\<close>

definition depth_magnitude :: "vec3 array3 \<Rightarrow> real" where
  "depth_magnitude tri =
     max (max \<bar>fval (vz (el0 tri))\<bar> \<bar>fval (vz (el1 tri))\<bar>) \<bar>fval (vz (el2 tri))\<bar>"

definition depth_error :: "vec3 array3 \<Rightarrow> real" where
  "depth_error tri = 2 powi (- 22) * depth_magnitude tri + 2 powi (- 147)"

section \<open>Facts about rounding\<close>

lemma pow2_less_D: "(2::real) powi a < 2 powi b \<Longrightarrow> a < b"
proof (rule ccontr)
  assume "(2::real) powi a < 2 powi b" and "\<not> a < b"
  then have "b \<le> a" by simp
  then have "(2::real) powi b \<le> 2 powi a" by (intro power_int_increasing) simp_all
  with \<open>(2::real) powi a < 2 powi b\<close> show False by simp
qed

lemma pow2_le_D: "(2::real) powi a \<le> 2 powi b \<Longrightarrow> a \<le> b"
proof (rule ccontr)
  assume "(2::real) powi a \<le> 2 powi b" and "\<not> a \<le> b"
  then have "b < a" by simp
  then have "(2::real) powi b < 2 powi a" by (intro power_int_strict_increasing) simp_all
  with \<open>(2::real) powi a \<le> 2 powi b\<close> show False by simp
qed

lemma expo_up_eval:
  "2 powi e \<le> x \<Longrightarrow> x < 2 powi (e + 1) \<Longrightarrow> 0 \<le> e \<Longrightarrow> nat e < n \<Longrightarrow> expo_up n x = e"
proof (induction n arbitrary: x e)
  case 0
  then show ?case by simp
next
  case (Suc n)
  show ?case
  proof (cases "e = 0")
    case True
    with Suc.prems show ?thesis by simp
  next
    case False
    with Suc.prems have e: "0 \<le> e - 1" "nat (e - 1) < n" by simp_all
    have p: "(2::real) powi e = 2 * 2 powi (e - 1)" "(2::real) powi (e + 1) = 2 * 2 powi e"
      by (simp_all add: power_int_diff power_int_add)
    from False Suc.prems(3) have "1 \<le> e" by simp
    then have "(2::real) powi 1 \<le> 2 powi e" by (intro power_int_increasing) simp_all
    with Suc.prems(1) have x2: "\<not> x < 2" by simp
    have "expo_up n (x / 2) = e - 1"
      using Suc.prems(1,2) p by (intro Suc.IH e) simp_all
    with x2 show ?thesis by simp
  qed
qed

lemma expo_down_eval:
  "2 powi (- int k) \<le> x \<Longrightarrow> x < 2 powi (1 - int k) \<Longrightarrow> k \<le> n \<Longrightarrow> 0 < k \<Longrightarrow> expo_down n x = - int k"
proof (induction n arbitrary: x k)
  case 0
  then show ?case by simp
next
  case (Suc n)
  have "(2::real) powi (1 - int k) \<le> 2 powi 0"
    using Suc.prems(4) by (intro power_int_increasing) simp_all
  with Suc.prems(2) have x1: "\<not> 1 \<le> x" by simp
  show ?case
  proof (cases "k = 1")
    case True
    with Suc.prems have "1 \<le> 2 * x" by simp
    then have "expo_down n (2 * x) = 0" by (cases n) simp_all
    with x1 True show ?thesis by simp
  next
    case False
    with Suc.prems obtain j where k: "k = Suc j" and j: "0 < j" "j \<le> n"
      by (cases k) auto
    have p: "(2::real) powi (- int j) = 2 * 2 powi (- int k)" "(2::real) powi (1 - int j) = 2 * 2 powi (1 - int k)"
      unfolding k by (simp_all add: power_int_diff power_int_add power_int_minus field_simps)
    have "expo_down n (2 * x) = - int j"
      using Suc.prems(1,2) p j by (intro Suc.IH) simp_all
    with x1 show ?thesis by (simp add: k)
  qed
qed

lemma expo_down_clamp:
  "x < 2 powi (- int n) \<Longrightarrow> expo_down n x = - int n"
proof (induction n arbitrary: x)
  case 0
  then show ?case by simp
next
  case (Suc n)
  have "(2::real) powi (- int (Suc n)) \<le> 2 powi 0"
    by (intro power_int_increasing) simp_all
  with Suc.prems have x1: "\<not> 1 \<le> x" by simp
  have "(2::real) powi (- int n) = 2 * 2 powi (- int (Suc n))"
    by (simp add: power_int_diff power_int_add power_int_minus field_simps)
  with Suc.prems have "expo_down n (2 * x) = - int n" by (intro Suc.IH) simp
  with x1 show ?case by simp
qed

lemma binade_eval:
  assumes "2 powi e \<le> x" "x < 2 powi (e + 1)" "1 - int emax \<le> e" "e \<le> int emax"
  shows "binade emax x = e"
proof (cases "0 \<le> e")
  case True
  then have "(2::real) powi 0 \<le> 2 powi e" by (intro power_int_increasing) simp_all
  with assms(1) have "1 \<le> x" by simp
  moreover have "expo_up (Suc emax) x = e"
    using assms True by (intro expo_up_eval) simp_all
  ultimately show ?thesis by (simp add: binade_def)
next
  case False
  then have "(2::real) powi (e + 1) \<le> 2 powi 0" by (intro power_int_increasing) simp_all
  with assms(2) have x1: "\<not> 1 \<le> x" by simp
  define k where "k = nat (- e)"
  from False have k: "e = - int k" "0 < k" by (simp_all add: k_def)
  have "expo_down (emax - 1) x = - int k"
    using assms unfolding k by (intro expo_down_eval) (simp_all add: k(2))
  with x1 k show ?thesis by (simp add: binade_def)
qed

lemma binade_clamp:
  assumes "x < 2 powi (1 - int emax)" "0 < emax"
  shows "binade emax x = 1 - int emax"
proof -
  have "(2::real) powi (1 - int emax) \<le> 2 powi 0"
    using assms(2) by (intro power_int_increasing) simp_all
  with assms(1) have x1: "\<not> 1 \<le> x" by simp
  have "expo_down (emax - 1) x = - int (emax - 1)"
    using assms by (intro expo_down_clamp) (simp add: of_nat_diff)
  with x1 assms(2) show ?thesis by (simp add: binade_def of_nat_diff)
qed

lemma fneg_fneg [simp]: "fneg (fneg a) = a"
  by (cases a) simp_all

lemma rne_int_of_int [simp]: "rne_int (of_int k) = k"
  by (simp add: rne_int_def)

lemma rne_int_zero [simp]: "rne_int 0 = 0"
  using rne_int_of_int [of 0] by simp

lemma rne_int_le: "y \<le> of_int N \<Longrightarrow> rne_int y \<le> N"
proof -
  assume a: "y \<le> of_int N"
  then have f: "\<lfloor>y\<rfloor> \<le> N" by (simp add: floor_le_iff) 
  show ?thesis
  proof (cases "\<lfloor>y\<rfloor> = N")
    case True
    with a have "y = of_int N" by linarith
    then show ?thesis by simp
  next
    case False
    with f have "\<lfloor>y\<rfloor> + 1 \<le> N" by simp
    then show ?thesis by (simp add: rne_int_def Let_def)
  qed
qed

lemma rne_int_ge: "of_int N \<le> y \<Longrightarrow> N \<le> rne_int y"
proof -
  assume "of_int N \<le> y"
  then have "N \<le> \<lfloor>y\<rfloor>" by (simp add: le_floor_iff)
  then show ?thesis by (simp add: rne_int_def Let_def)
qed

lemma rne_int_error: "\<bar>of_int (rne_int y) - y\<bar> \<le> 1 / 2"
  unfolding rne_int_def Let_def by (auto simp: abs_if) linarith+

lemma expo_up_lower: "1 \<le> x \<Longrightarrow> 2 powi (expo_up n x) \<le> x"
proof (induction n arbitrary: x)
  case 0
  then show ?case by simp
next
  case (Suc n)
  show ?case
  proof (cases "x < 2")
    case True
    with Suc.prems show ?thesis by simp
  next
    case False
    then have "2 powi (expo_up n (x / 2)) \<le> x / 2" by (intro Suc.IH) simp
    with False show ?thesis by (simp add: power_int_add)
  qed
qed

lemma expo_down_lower: "x < 1 \<Longrightarrow> 2 powi (expo_down n x) \<le> x \<or> expo_down n x = - int n"
proof (induction n arbitrary: x)
  case 0
  then show ?case by simp
next
  case (Suc n)
  show ?case
  proof (cases "1 \<le> 2 * x")
    case True
    then have "expo_down n (2 * x) = 0" by (cases n) simp_all
    with Suc.prems True show ?thesis by simp
  next
    case False
    then have "2 powi (expo_down n (2 * x)) \<le> 2 * x \<or> expo_down n (2 * x) = - int n"
      by (intro Suc.IH) simp
    with Suc.prems show ?thesis by (auto simp: power_int_diff)
  qed
qed

lemma binade_lower:
  assumes "0 < emax"
  shows "2 powi (binade emax x) \<le> x \<or> binade emax x = 1 - int emax"
proof (cases "1 \<le> x")
  case True
  then show ?thesis by (simp add: binade_def expo_up_lower del: expo_up.simps)
next
  case False
  then have "x < 1" by simp
  from expo_down_lower [OF this, of "emax - 1"] False assms show ?thesis
    by (auto simp: binade_def of_nat_diff)
qed

lemma round_mag_zero: "round_mag p emax 0 = Fin 0"
proof -
  have "(0::real) < 2 powi (int emax + 1)" by simp
  then have "\<not> (2::real) powi (int emax + 1) \<le> 0" by (simp only: not_le)
  then show ?thesis by (simp add: round_mag_def Let_def)
qed

lemma round_to_zero: "round_to p emax 0 = Fin 0"
  by (simp add: round_to_def round_mag_zero)

lemma round_to_minus: "round_to p emax (- x) = fneg (round_to p emax x)"
  by (cases "x = 0") (auto simp: round_to_def round_mag_zero)

lemma round_mag_not_NaN: "round_mag p emax x \<noteq> NaN"
  by (simp add: round_mag_def Let_def)

lemma round_to_not_NaN: "round_to p emax x \<noteq> NaN"
  using round_mag_not_NaN [of p emax x] round_mag_not_NaN [of p emax "- x"]
  by (cases "round_mag p emax (- x)") (auto simp: round_to_def)

text \<open>A number with a short enough mantissa and an exponent in range is not changed.\<close>

lemma round_mag_dyadic:
  assumes m: "0 \<le> m" "m < 2 ^ p" and j: "2 - int emax - int p \<le> j" "j + int p \<le> int emax + 1"
    and emax: "0 < emax"
  shows "round_mag p emax (of_int m * 2 powi j) = Fin (of_int m * 2 powi j)"
proof -
  define x :: real where "x = of_int m * 2 powi j"
  define b where "b = binade emax x"
  have xlt: "x < 2 powi (int p + j)"
  proof -
    have "real_of_int m < 2 ^ p" using m(2) by (metis of_int_less_iff of_int_numeral of_int_power)
    then have "x < 2 ^ p * 2 powi j" unfolding x_def by (intro mult_strict_right_mono) simp_all
    then show ?thesis by (simp add: power_int_add)
  qed
  have bj: "b - int p + 1 \<le> j"
  proof -
    from binade_lower [OF emax, of x] consider "2 powi b \<le> x" | "b = 1 - int emax"
      unfolding b_def by blast
    then show ?thesis
    proof cases
      case 1
      with xlt have "(2::real) powi b < 2 powi (int p + j)" by simp
      then have "b < int p + j" by (rule pow2_less_D)
      then show ?thesis by simp
    next
      case 2
      with j show ?thesis by simp
    qed
  qed
  define d where "d = nat (j - (b - int p + 1))"
  have q: "(2::real) powi j = 2 ^ d * 2 powi (b - int p + 1)"
  proof -
    have "j = int d + (b - int p + 1)" using bj by (simp add: d_def)
    then have "(2::real) powi j = 2 powi (int d + (b - int p + 1))" by simp
    also have "\<dots> = 2 powi int d * 2 powi (b - int p + 1)" by (simp add: power_int_add)
    finally show ?thesis by simp
  qed
  have "x / 2 powi (b - int p + 1) = of_int (m * 2 ^ d)"
    unfolding x_def q by simp
  then have "rne_int (x / 2 powi (b - int p + 1)) = m * 2 ^ d"
    by (simp only: rne_int_of_int)
  then have r: "of_int (rne_int (x / 2 powi (b - int p + 1))) * 2 powi (b - int p + 1) = x"
    by (simp add: x_def q)
  have "(2::real) powi (int p + j) \<le> 2 powi (int emax + 1)"
    using j(2) by (intro power_int_increasing) simp_all
  with xlt have "\<not> 2 powi (int emax + 1) \<le> x" by simp
  with r show ?thesis
    unfolding x_def [symmetric] round_mag_def Let_def b_def [symmetric] by simp
qed

lemma round_to_dyadic:
  assumes m: "\<bar>m\<bar> < 2 ^ p" and j: "2 - int emax - int p \<le> j" "j + int p \<le> int emax + 1"
    and emax: "0 < emax"
  shows "round_to p emax (of_int m * 2 powi j) = Fin (of_int m * 2 powi j)"
proof (cases "0 \<le> m")
  case True
  have "(0::real) < 2 powi j" by simp
  with True have "0 \<le> of_int m * (2::real) powi j" by simp
  then have "\<not> (of_int m * (2::real) powi j < 0)" by (simp only: not_less)
  with round_mag_dyadic [OF True _ j emax] m True show ?thesis by (simp add: round_to_def)
next
  case False
  have "(0::real) < 2 powi j" by simp
  with False have neg: "of_int m * (2::real) powi j < 0" by (simp add: mult_less_0_iff)
  from False m have "0 \<le> - m" "- m < 2 ^ p" by simp_all
  from round_mag_dyadic [OF this j emax] neg show ?thesis by (simp add: round_to_def)
qed

text \<open>Rounding does not leave an interval that ends at a power of two.\<close>

lemma round_mag_bound:
  assumes x: "0 \<le> x" "x \<le> 2 powi k" and k: "1 - int emax \<le> k" "k \<le> int emax" and emax: "0 < emax"
    and p: "0 < p"
  shows "\<exists>r. round_mag p emax x = Fin r \<and> 0 \<le> r \<and> r \<le> 2 powi k"
proof -
  define b where "b = binade emax x"
  define q :: real where "q = 2 powi (b - int p + 1)"
  have q0: "0 < q" by (simp add: q_def)
  have bk: "b \<le> k"
  proof -
    from binade_lower [OF emax, of x] consider "2 powi b \<le> x" | "b = 1 - int emax"
      unfolding b_def by blast
    then show ?thesis
    proof cases
      case 1
      with x(2) have "(2::real) powi b \<le> 2 powi k" by simp
      then show ?thesis by (rule pow2_le_D)
    next
      case 2
      with k show ?thesis by simp
    qed
  qed
  define d where "d = nat (k - (b - int p + 1))"
  have kq: "(2::real) powi k = 2 ^ d * q"
  proof -
    have "k = int d + (b - int p + 1)" using bk p by (simp add: d_def)
    then have "(2::real) powi k = 2 powi (int d + (b - int p + 1))" by simp
    also have "\<dots> = 2 powi int d * 2 powi (b - int p + 1)" by (simp add: power_int_add)
    finally show ?thesis by (simp add: q_def)
  qed
  have "x / q \<le> of_int (2 ^ d)" using x(2) q0 by (simp add: kq field_simps)
  then have "rne_int (x / q) \<le> 2 ^ d" by (rule rne_int_le)
  then have "real_of_int (rne_int (x / q)) \<le> 2 ^ d"
    by (metis of_int_le_iff of_int_numeral of_int_power)
  then have hi: "of_int (rne_int (x / q)) * q \<le> 2 powi k"
    using q0 by (simp add: kq)
  have "of_int 0 \<le> x / q" using x(1) q0 by simp
  then have "0 \<le> rne_int (x / q)" by (rule rne_int_ge)
  then have lo: "0 \<le> of_int (rne_int (x / q)) * q" using q0 by simp
  have "(2::real) powi k < 2 powi (int emax + 1)"
    using k(2) by (intro power_int_strict_increasing) simp_all
  with hi have "\<not> 2 powi (int emax + 1) \<le> of_int (rne_int (x / q)) * q" by simp
  with lo hi show ?thesis
    unfolding round_mag_def Let_def b_def [symmetric] q_def [symmetric] by simp
qed

subsection \<open>Evaluating a rounding\<close>

lemma round_mag_eval:
  assumes "2 powi e \<le> x" "x < 2 powi (e + 1)" "1 - int emax \<le> e" "e \<le> int emax"
    and "rne_int (x / 2 powi (e - int p + 1)) = m"
    and "r = of_int m * 2 powi (e - int p + 1)" and "r < 2 powi (int emax + 1)"
  shows "round_mag p emax x = Fin r"
proof -
  have "binade emax x = e" using assms(1-4) by (rule binade_eval)
  with assms(5-7) show ?thesis by (simp add: round_mag_def Let_def)
qed

lemma round32_pos:
  assumes "2 powi e \<le> x" "x < 2 powi (e + 1)" "- 126 \<le> e" "e \<le> 127"
    and "rne_int (x / 2 powi (e - 23)) = m"
    and "r = of_int m * 2 powi (e - 23)" and "r < 2 powi 128"
  shows "round32 x = Fin r"
proof -
  have "0 < (2::real) powi e" by simp
  with assms(1) have "\<not> x < 0" by linarith
  moreover have "round_mag 24 127 x = Fin r"
    using assms by (intro round_mag_eval [where e = e and m = m]) simp_all
  ultimately show ?thesis by (simp add: round32_def round_to_def)
qed

lemma round32_neg:
  assumes "2 powi e \<le> - x" "- x < 2 powi (e + 1)" "- 126 \<le> e" "e \<le> 127"
    and "rne_int (- x / 2 powi (e - 23)) = m"
    and "r = - (of_int m * 2 powi (e - 23))" and "- r < 2 powi 128"
  shows "round32 x = Fin r"
proof -
  have "0 < (2::real) powi e" by simp
  with assms(1) have "x < 0" by linarith
  moreover have "round_mag 24 127 (- x) = Fin (- r)"
    using assms by (intro round_mag_eval [where e = e and m = m]) simp_all
  ultimately show ?thesis by (simp add: round32_def round_to_def)
qed

lemma round64_pos:
  assumes "2 powi e \<le> x" "x < 2 powi (e + 1)" "- 1022 \<le> e" "e \<le> 1023"
    and "rne_int (x / 2 powi (e - 52)) = m"
    and "r = of_int m * 2 powi (e - 52)" and "r < 2 powi 1024"
  shows "round64 x = Fin r"
proof -
  have "0 < (2::real) powi e" by simp
  with assms(1) have "\<not> x < 0" by linarith
  moreover have "round_mag 53 1023 x = Fin r"
    using assms by (intro round_mag_eval [where e = e and m = m]) simp_all
  ultimately show ?thesis by (simp add: round64_def round_to_def)
qed

lemma round64_neg:
  assumes "2 powi e \<le> - x" "- x < 2 powi (e + 1)" "- 1022 \<le> e" "e \<le> 1023"
    and "rne_int (- x / 2 powi (e - 52)) = m"
    and "r = - (of_int m * 2 powi (e - 52))" and "- r < 2 powi 1024"
  shows "round64 x = Fin r"
proof -
  have "0 < (2::real) powi e" by simp
  with assms(1) have "x < 0" by linarith
  moreover have "round_mag 53 1023 (- x) = Fin (- r)"
    using assms by (intro round_mag_eval [where e = e and m = m]) simp_all
  ultimately show ?thesis by (simp add: round64_def round_to_def)
qed

lemma round32_zero [simp]: "round32 0 = Fin 0"
  by (simp add: round32_def round_to_zero)

lemma round64_zero [simp]: "round64 0 = Fin 0"
  by (simp add: round64_def round_to_zero)

lemma round32_is_zero: "x = 0 \<Longrightarrow> round32 x = Fin 0"
  by simp

lemma round64_is_zero: "x = 0 \<Longrightarrow> round64 x = Fin 0"
  by simp

lemma expo_up_le: "expo_up n x \<le> int n"
  by (induction n arbitrary: x) simp_all

lemma expo_down_le: "expo_down n x \<le> 0"
proof (induction n arbitrary: x)
  case 0
  then show ?case by simp
next
  case (Suc n)
  from Suc.IH [of "2 * x"] show ?case by simp
qed

lemma binade_le: "binade emax x \<le> int emax + 1"
  using expo_up_le [of "Suc emax" x] expo_down_le [of "emax - 1" x] by (simp add: binade_def)

lemma round_mag_overflow:
  assumes "2 powi (int emax + 1) \<le> x" and "0 < p"
  shows "round_mag p emax x = PInf"
proof -
  define b where "b = binade emax x"
  define q :: real where "q = 2 powi (b - int p + 1)"
  have q0: "0 < q" by (simp add: q_def)
  define d where "d = nat (int emax + 1 - (b - int p + 1))"
  have "int emax + 1 = int d + (b - int p + 1)"
    using binade_le [of emax x] assms(2) by (simp add: d_def b_def)
  then have "(2::real) powi (int emax + 1) = 2 powi (int d + (b - int p + 1))"
    by (simp only:)
  also have "\<dots> = 2 powi int d * 2 powi (b - int p + 1)" by (simp add: power_int_add)
  finally have kq: "(2::real) powi (int emax + 1) = 2 ^ d * q" by (simp add: q_def)
  have "2 ^ d * q \<le> x" using assms(1) unfolding kq .
  then have "of_int (2 ^ d) \<le> x / q" using q0 by (simp add: field_simps)
  then have "2 ^ d \<le> rne_int (x / q)" by (rule rne_int_ge)
  then have "(2::real) ^ d \<le> real_of_int (rne_int (x / q))"
    by (metis of_int_le_iff of_int_numeral of_int_power)
  then have "2 powi (int emax + 1) \<le> of_int (rne_int (x / q)) * q"
    using q0 by (simp add: kq)
  then show ?thesis
    unfolding round_mag_def Let_def b_def [symmetric] q_def [symmetric] by simp
qed

lemma round32_overflow: "2 powi 128 \<le> x \<Longrightarrow> round32 x = PInf"
proof -
  assume a: "2 powi 128 \<le> x"
  have "0 < (2::real) powi 128" by simp
  with a have "\<not> x < 0" by linarith
  moreover have "round_mag 24 127 x = PInf" using a by (intro round_mag_overflow) simp_all
  ultimately show ?thesis by (simp add: round32_def round_to_def)
qed

lemma round32_minus: "round32 (- x) = fneg (round32 x)"
  by (simp add: round32_def round_to_minus)

lemma round64_minus: "round64 (- x) = fneg (round64 x)"
  by (simp add: round64_def round_to_minus)

lemma round32_not_NaN [simp]: "round32 x \<noteq> NaN"
  by (simp add: round32_def round_to_not_NaN)

lemma round64_not_NaN [simp]: "round64 x \<noteq> NaN"
  by (simp add: round64_def round_to_not_NaN)

lemma exact32_dyadic:
  "x = of_int m * 2 powi j \<Longrightarrow> \<bar>m\<bar> < 2 ^ 24 \<Longrightarrow> - 149 \<le> j \<Longrightarrow> j \<le> 104 \<Longrightarrow> exact32 x"
  unfolding exact32_def round32_def by (simp add: round_to_dyadic)

lemma exact64_dyadic:
  "x = of_int m * 2 powi j \<Longrightarrow> \<bar>m\<bar> < 2 ^ 53 \<Longrightarrow> - 1074 \<le> j \<Longrightarrow> j \<le> 971 \<Longrightarrow> exact64 x"
  unfolding exact64_def round64_def by (simp add: round_to_dyadic)

lemma exact32_int: "\<bar>k\<bar> \<le> 2 ^ 24 \<Longrightarrow> exact32 (of_int k)"
proof (cases "\<bar>k\<bar> = 2 ^ 24")
  case True
  then have "k = 2 ^ 24 \<or> k = - (2 ^ 24)" by linarith
  then show ?thesis
  proof
    assume "k = 2 ^ 24"
    then show ?thesis by (intro exact32_dyadic [where m = 1 and j = 24]) simp_all
  next
    assume "k = - (2 ^ 24)"
    then show ?thesis by (intro exact32_dyadic [where m = "- 1" and j = 24]) simp_all
  qed
next
  case False
  assume "\<bar>k\<bar> \<le> 2 ^ 24"
  with False have "\<bar>k\<bar> < 2 ^ 24" by simp
  then show ?thesis by (intro exact32_dyadic [where m = k and j = 0]) simp_all
qed

lemma exact32_0 [simp]: "exact32 0"
  by (simp add: exact32_def)

lemma exact32_1 [simp]: "exact32 1"
  using exact32_int [of 1] by simp

lemma round32_one [simp]: "round32 1 = Fin 1"
  using exact32_1 by (simp add: exact32_def)

lemma exact64_int: "\<bar>k\<bar> < 2 ^ 53 \<Longrightarrow> exact64 (of_int k)"
  by (intro exact64_dyadic [where m = k and j = 0]) simp_all

lemma round64_one [simp]: "round64 1 = Fin 1"
  using exact64_int [of 1] by (simp add: exact64_def)

lemma round32_bound:
  assumes "0 \<le> x" "x \<le> 2 powi k" "- 126 \<le> k" "k \<le> 127"
  shows "\<exists>r. round32 x = Fin r \<and> 0 \<le> r \<and> r \<le> 2 powi k"
  using round_mag_bound [of x k 127 24] assms by (simp add: round32_def round_to_def)

subsection \<open>Operations on finite values\<close>

lemma fadd_Fin: "round32 (a + b) = r \<Longrightarrow> fadd (Fin a) (Fin b) = r"
  by (simp add: fadd_def)

lemma fsub_Fin: "round32 (a - b) = r \<Longrightarrow> fsub (Fin a) (Fin b) = r"
  by (simp add: fsub_def fadd_def)

lemma fmul_Fin: "round32 (a * b) = r \<Longrightarrow> fmul (Fin a) (Fin b) = r"
  by (simp add: fmul_def)

lemma fdiv_Fin: "b \<noteq> 0 \<Longrightarrow> round32 (a / b) = r \<Longrightarrow> fdiv (Fin a) (Fin b) = r"
  by (simp add: fdiv_def)

lemma dsub_Fin: "round64 (a - b) = r \<Longrightarrow> dsub (Fin a) (Fin b) = r"
  by (simp add: dsub_def dadd_def)

lemma dmul_Fin: "round64 (a * b) = r \<Longrightarrow> dmul (Fin a) (Fin b) = r"
  by (simp add: dmul_def)

lemma to_float_Fin: "round32 a = r \<Longrightarrow> to_float (Fin a) = r"
  by simp

lemma fsub_self [simp]: "fsub (Fin a) (Fin a) = Fin 0"
  by (simp add: fsub_def fadd_def)

lemma fmul_zero [simp]: "fmul (Fin a) (Fin 0) = Fin 0" "fmul (Fin 0) (Fin a) = Fin 0"
  by (simp_all add: fmul_def)

lemma half_zero [simp]: "to_float (dmul (Fin (1 / 2)) (Fin 0)) = Fin 0"
  by (simp add: dmul_def)

text \<open>Exchanging the operands of a subtraction changes the sign of the result.\<close>

lemma add_with_fneg:
  assumes "\<And>x. rnd (- x) = fneg (rnd x)"
  shows "add_with rnd (fneg a) (fneg b) = fneg (add_with rnd a b)"
proof -
  have "rnd (- x - y) = fneg (rnd (x + y))" for x y
    using assms [of "x + y"] by simp
  then show ?thesis by (cases a; cases b) simp_all
qed

lemma fsub_swap: "fsub b a = fneg (fsub a b)"
proof -
  have "add_with round32 b (fneg a) = add_with round32 (fneg a) b"
    by (cases a; cases b) (simp_all add: add.commute)
  also have "\<dots> = fneg (add_with round32 a (fneg b))"
    using add_with_fneg [of round32 a "fneg b"] by (simp add: round32_minus)
  finally show ?thesis by (simp add: fsub_def fadd_def)
qed

lemma negative_fneg: "a \<noteq> NaN \<Longrightarrow> a \<noteq> Fin 0 \<Longrightarrow> negative (fneg a) = (\<not> negative a)"
  by (cases a) auto

lemma mul_with_fneg:
  assumes "\<And>x. rnd (- x) = fneg (rnd x)" and "0 < c"
  shows "mul_with rnd (Fin c) (fneg a) = fneg (mul_with rnd (Fin c) a)"
  using assms by (cases a) (simp_all add: signed_inf_def)

lemma to_float_fneg: "to_float (fneg a) = fneg (to_float a)"
  by (cases a) (simp_all add: round32_minus)

subsection \<open>Rounding error\<close>

lemma round_mag_error:
  assumes "round_mag p emax x = Fin r" and "0 < emax"
  shows "\<bar>r - x\<bar> \<le> 2 powi (- int p) * x \<or> \<bar>r - x\<bar> \<le> 2 powi (1 - int emax - int p)"
proof -
  define b where "b = binade emax x"
  define q :: real where "q = 2 powi (b - int p + 1)"
  have q0: "0 < q" by (simp add: q_def)
  from assms(1) have r: "r = of_int (rne_int (x / q)) * q"
    unfolding round_mag_def Let_def b_def [symmetric] q_def [symmetric] by (simp split: if_splits)
  have "r - x = (of_int (rne_int (x / q)) - x / q) * q" using q0 by (simp add: r field_simps)
  then have "\<bar>r - x\<bar> = \<bar>of_int (rne_int (x / q)) - x / q\<bar> * q" using q0 by (simp add: abs_mult)
  also have "\<dots> \<le> 1 / 2 * q" using rne_int_error [of "x / q"] q0 by (intro mult_right_mono) simp_all
  also have "1 / 2 * q = 2 powi (b - int p)" by (simp add: q_def power_int_add)
  finally have e: "\<bar>r - x\<bar> \<le> 2 powi (b - int p)" .
  from binade_lower [OF assms(2), of x] consider "2 powi b \<le> x" | "b = 1 - int emax"
    unfolding b_def by blast
  then show ?thesis
  proof cases
    case 1
    have "(2::real) powi (b - int p) = 2 powi (- int p) * 2 powi b"
      by (simp add: power_int_diff power_int_minus field_simps)
    also have "\<dots> \<le> 2 powi (- int p) * x" using 1 by (intro mult_left_mono) simp_all
    finally show ?thesis using e by simp
  next
    case 2
    with e show ?thesis by simp
  qed
qed

lemma round_to_error:
  assumes "round_to p emax x = Fin r" and "0 < emax"
  shows "\<bar>r - x\<bar> \<le> 2 powi (- int p) * \<bar>x\<bar> + 2 powi (1 - int emax - int p)"
proof (cases "x < 0")
  case False
  with assms have "round_mag p emax x = Fin r" by (simp add: round_to_def)
  have B: "0 \<le> (2::real) powi (1 - int emax - int p)" "0 \<le> (2::real) powi (- int p) * \<bar>x\<bar>"
    by simp_all
  from False have ax: "\<bar>x\<bar> = x" by simp
  from round_mag_error [OF \<open>round_mag p emax x = Fin r\<close> assms(2)] show ?thesis
  proof
    assume "\<bar>r - x\<bar> \<le> 2 powi (- int p) * x"
    with B(1) show ?thesis unfolding ax by linarith
  next
    assume "\<bar>r - x\<bar> \<le> 2 powi (1 - int emax - int p)"
    with B(2) show ?thesis by linarith
  qed
next
  case True
  with assms have "fneg (round_mag p emax (- x)) = Fin r" by (simp add: round_to_def)
  then have "round_mag p emax (- x) = Fin (- r)" by (cases "round_mag p emax (- x)") simp_all
  have B: "0 \<le> (2::real) powi (1 - int emax - int p)" "0 \<le> (2::real) powi (- int p) * \<bar>x\<bar>"
    by simp_all
  from True have ax: "\<bar>x\<bar> = - x" by simp
  have rx: "\<bar>- r - - x\<bar> = \<bar>r - x\<bar>" by linarith
  from round_mag_error [OF \<open>round_mag p emax (- x) = Fin (- r)\<close> assms(2)] show ?thesis
  proof
    assume "\<bar>- r - - x\<bar> \<le> 2 powi (- int p) * - x"
    with B(1) show ?thesis unfolding ax rx by linarith
  next
    assume "\<bar>- r - - x\<bar> \<le> 2 powi (1 - int emax - int p)"
    with B(2) show ?thesis unfolding rx by linarith
  qed
qed

lemma round64_error:
  assumes "round64 x = Fin r"
  shows "\<bar>r - x\<bar> \<le> 2 powi (- 53) * \<bar>x\<bar> + 2 powi (- 60)"
proof -
  from assms have "\<bar>r - x\<bar> \<le> 2 powi (- 53) * \<bar>x\<bar> + 2 powi (1 - 1023 - 53)"
    using round_to_error [of 53 1023 x r] by (simp add: round64_def)
  moreover have "(2::real) powi (1 - 1023 - 53) \<le> 2 powi (- 60)"
    by (intro power_int_increasing) simp_all
  ultimately show ?thesis by linarith
qed

lemma round32_error:
  assumes "round32 x = Fin r"
  shows "\<bar>r - x\<bar> \<le> 2 powi (- 24) * \<bar>x\<bar> + 2 powi (- 60)"
proof -
  from assms have "\<bar>r - x\<bar> \<le> 2 powi (- 24) * \<bar>x\<bar> + 2 powi (1 - 127 - 24)"
    using round_to_error [of 24 127 x r] by (simp add: round32_def)
  moreover have "(2::real) powi (1 - 127 - 24) \<le> 2 powi (- 60)"
    by (intro power_int_increasing) simp_all
  ultimately show ?thesis by linarith
qed

lemma round32_overflow_neg: "2 powi 128 \<le> - x \<Longrightarrow> round32 x = MInf"
  using round32_overflow [of "- x"] by (cases "round32 x") (simp_all add: round32_minus)

section \<open>Basic facts\<close>

lemma isfinite_conv: "isfinite a \<longleftrightarrow> (\<exists>r. a = Fin r)"
  by (cases a) simp_all

lemma finite_vec3_conv: "finite_vec3 v \<longleftrightarrow> (\<exists>a b c. v = point3 a b c)"
proof
  assume "finite_vec3 v"
  then obtain a b c where "vx v = Fin a" "vy v = Fin b" "vz v = Fin c"
    by (auto simp: finite_vec3_def isfinite_conv)
  then have "v = point3 a b c" by (simp add: point3_def)
  then show "\<exists>a b c. v = point3 a b c" by blast
next
  assume "\<exists>a b c. v = point3 a b c"
  then show "finite_vec3 v" by (auto simp: finite_vec3_def point3_def)
qed

lemma finite_vec2E:
  assumes "finite_vec2 p"
  obtains u v where "p = \<lparr>px = Fin u, py = Fin v\<rparr>"
proof -
  from assms obtain u v where "px p = Fin u" "py p = Fin v"
    by (auto simp: finite_vec2_def isfinite_conv)
  then have "p = \<lparr>px = Fin u, py = Fin v\<rparr>" by simp
  then show ?thesis by (rule that)
qed

lemma finite_triE:
  assumes "finite_tri t"
  obtains x0 y0 z0 x1 y1 z1 x2 y2 z2 where
    "t = Array3 (point3 x0 y0 z0) (point3 x1 y1 z1) (point3 x2 y2 z2)"
proof -
  from assms obtain x0 y0 z0 x1 y1 z1 x2 y2 z2 where
    "el0 t = point3 x0 y0 z0" "el1 t = point3 x1 y1 z1" "el2 t = point3 x2 y2 z2"
    unfolding finite_tri_def finite_vec3_conv by blast
  then have "t = Array3 (point3 x0 y0 z0) (point3 x1 y1 z1) (point3 x2 y2 z2)"
    by (cases t) simp
  then show ?thesis by (rule that)
qed

lemma finite_tri_point3:
  "finite_tri (Array3 (point3 x0 y0 z0) (point3 x1 y1 z1) (point3 x2 y2 z2))"
  by (simp add: finite_tri_def finite_vec3_def point3_def)

lemma vec2_of_xy_point3 [simp]: "vec2_of_xy (point3 a b c) = \<lparr>px = Fin a, py = Fin b\<rparr>"
  by (simp add: vec2_of_xy_def point3_def)

text \<open>The vertex lists of two triangles are permutations of each other: six cases.\<close>

lemma mset3_cases:
  assumes "mset [d, e, f] = mset [a, b, c]"
  shows "[d, e, f] \<in> {[a, b, c], [a, c, b], [b, a, c], [b, c, a], [c, a, b], [c, b, a]}"
  using assms by (auto simp: add_eq_conv_ex)

lemma perm3:
  assumes "mset (elems t') = mset (elems t)"
  shows "t' \<in> {Array3 (el0 t) (el1 t) (el2 t), Array3 (el0 t) (el2 t) (el1 t),
               Array3 (el1 t) (el0 t) (el2 t), Array3 (el1 t) (el2 t) (el0 t),
               Array3 (el2 t) (el0 t) (el1 t), Array3 (el2 t) (el1 t) (el0 t)}"
  using mset3_cases [of "el0 t'" "el1 t'" "el2 t'" "el0 t" "el1 t" "el2 t"] assms
  by (cases t') (auto simp: elems_def)

section \<open>Interior test\<close>

lemma fge_unit: "(fge w (Fin 0) \<and> fle w (Fin 1)) = in_unit_interval w"
  by (cases w) (simp_all add: fge_def)

lemma in_bounds_weights:
  "isBarycentricCoordInBounds b \<longleftrightarrow>
     in_unit_interval (vx b) \<and> in_unit_interval (vy b) \<and> in_unit_interval (vz b)"
  using fge_unit [of "vx b"] fge_unit [of "vy b"] fge_unit [of "vz b"]
  unfolding isBarycentricCoordInBounds_def by blast

text \<open>
  C3. \<^verbatim>\<open>isBarycentricCoordInBounds\<close> returns true if and only if each of the three
  weights lies in the closed interval [0,1]; a NaN or infinite weight lies outside.
\<close>

theorem isBarycentricCoordInBounds_iff:
  "isBarycentricCoordInBounds b =
     (in_unit_interval (vx b) \<and> in_unit_interval (vy b) \<and> in_unit_interval (vz b))"
  by (rule in_bounds_weights)

section \<open>Bounding box\<close>

lemma fmin_Fin: "fmin (Fin a) (Fin b) = Fin (min a b)"
  by (simp add: min_def)

lemma fmax_Fin: "fmax (Fin a) (Fin b) = Fin (max a b)"
  by (simp add: max_def)

lemma getAABB_point3:
  "getAABBForTriangle (Array3 (point3 x0 y0 z0) (point3 x1 y1 z1) (point3 x2 y2 z2)) =
     \<lparr>aabb_min = point3 (min (min x0 x1) x2) (min (min y0 y1) y2) (min (min z0 z1) z2),
      aabb_max = point3 (max (max x0 x1) x2) (max (max y0 y1) y2) (max (max z0 z1) z2)\<rparr>"
  by (simp add: getAABBForTriangle_def point3_def fmin_Fin fmax_Fin del: fmin.simps fmax.simps)

lemma least3: "is_least (Fin (min (min a b) c)) [Fin a, Fin b, Fin c]"
  by (auto simp: is_least_def min_def)

lemma greatest3: "is_greatest (Fin (max (max a b) c)) [Fin a, Fin b, Fin c]"
  by (auto simp: is_greatest_def max_def)

lemma aabb_extremes:
  assumes "finite_tri tri"
  shows "is_least (vx (aabb_min (getAABBForTriangle tri))) (map vx (elems tri))"
    and "is_least (vy (aabb_min (getAABBForTriangle tri))) (map vy (elems tri))"
    and "is_least (vz (aabb_min (getAABBForTriangle tri))) (map vz (elems tri))"
    and "is_greatest (vx (aabb_max (getAABBForTriangle tri))) (map vx (elems tri))"
    and "is_greatest (vy (aabb_max (getAABBForTriangle tri))) (map vy (elems tri))"
    and "is_greatest (vz (aabb_max (getAABBForTriangle tri))) (map vz (elems tri))"
proof -
  from assms obtain x0 y0 z0 x1 y1 z1 x2 y2 z2 where
    t: "tri = Array3 (point3 x0 y0 z0) (point3 x1 y1 z1) (point3 x2 y2 z2)"
    by (rule finite_triE)
  show "is_least (vx (aabb_min (getAABBForTriangle tri))) (map vx (elems tri))"
    "is_least (vy (aabb_min (getAABBForTriangle tri))) (map vy (elems tri))"
    "is_least (vz (aabb_min (getAABBForTriangle tri))) (map vz (elems tri))"
    "is_greatest (vx (aabb_max (getAABBForTriangle tri))) (map vx (elems tri))"
    "is_greatest (vy (aabb_max (getAABBForTriangle tri))) (map vy (elems tri))"
    "is_greatest (vz (aabb_max (getAABBForTriangle tri))) (map vz (elems tri))"
    unfolding t getAABB_point3
    by (simp_all add: elems_def point3_def least3 greatest3)
qed

lemma aabb_ordered:
  assumes "finite_tri tri"
  shows "vec3_le (aabb_min (getAABBForTriangle tri)) (aabb_max (getAABBForTriangle tri))"
proof -
  from assms obtain x0 y0 z0 x1 y1 z1 x2 y2 z2 where
    t: "tri = Array3 (point3 x0 y0 z0) (point3 x1 y1 z1) (point3 x2 y2 z2)"
    by (rule finite_triE)
  show ?thesis
    unfolding t getAABB_point3 by (simp add: vec3_le_def point3_def) linarith
qed

lemma aabb_permuted:
  assumes "finite_tri tri" and "mset (elems tri') = mset (elems tri)"
  shows "getAABBForTriangle tri' = getAABBForTriangle tri"
proof -
  from assms(1) obtain x0 y0 z0 x1 y1 z1 x2 y2 z2 where
    t: "tri = Array3 (point3 x0 y0 z0) (point3 x1 y1 z1) (point3 x2 y2 z2)"
    by (rule finite_triE)
  from perm3 [OF assms(2)] show ?thesis
    unfolding t
    by (auto simp: getAABB_point3 min.commute min.left_commute max.commute max.left_commute
        min.assoc max.assoc)
qed

text \<open>
  C8. For every triangle with finite coordinates, each component of the min corner that
  \<^verbatim>\<open>getAABBForTriangle\<close> returns is the least of that component over the three
  vertices, and each component of the max corner the greatest; the result is the same
  for every permutation of the three vertices, and the min corner is below the max
  corner in each component.
\<close>

theorem getAABBForTriangle_extremes:
  assumes "finite_tri tri"
  shows "is_least (vx (aabb_min (getAABBForTriangle tri))) (map vx (elems tri)) \<and>
         is_least (vy (aabb_min (getAABBForTriangle tri))) (map vy (elems tri)) \<and>
         is_least (vz (aabb_min (getAABBForTriangle tri))) (map vz (elems tri)) \<and>
         is_greatest (vx (aabb_max (getAABBForTriangle tri))) (map vx (elems tri)) \<and>
         is_greatest (vy (aabb_max (getAABBForTriangle tri))) (map vy (elems tri)) \<and>
         is_greatest (vz (aabb_max (getAABBForTriangle tri))) (map vz (elems tri)) \<and>
         (\<forall>tri'. mset (elems tri') = mset (elems tri) \<longrightarrow>
            getAABBForTriangle tri' = getAABBForTriangle tri) \<and>
         vec3_le (aabb_min (getAABBForTriangle tri)) (aabb_max (getAABBForTriangle tri))"
  using aabb_extremes [OF assms] aabb_ordered [OF assms] aabb_permuted [OF assms] by blast

theorem getAABBForTriangle_extremes_witness:
  "getAABBForTriangle (Array3 (point3 0 0 0) (point3 4 0 1) (point3 2 3 2)) =
     \<lparr>aabb_min = point3 0 0 0, aabb_max = point3 4 3 2\<rparr> \<and>
   getAABBForTriangle (Array3 (point3 2 3 2) (point3 0 0 0) (point3 4 0 1)) =
     getAABBForTriangle (Array3 (point3 0 0 0) (point3 4 0 1) (point3 2 3 2)) \<and>
   is_least (Fin 0) [Fin 0, Fin 4, Fin 2] \<and> is_greatest (Fin 3) [Fin 0, Fin 0, Fin 3] \<and>
   vec3_le (point3 0 0 0) (point3 4 3 2)"
proof -
  let ?t = "Array3 (point3 0 0 0) (point3 4 0 1) (point3 2 3 2)"
  have box: "getAABBForTriangle ?t = \<lparr>aabb_min = point3 0 0 0, aabb_max = point3 4 3 2\<rparr>"
    by (simp add: getAABB_point3)
  have m: "mset (elems (Array3 (point3 2 3 2) (point3 0 0 0) (point3 4 0 1))) = mset (elems ?t)"
    by (simp add: elems_def)
  note th = getAABBForTriangle_extremes [OF finite_tri_point3, of 0 0 0 4 0 1 2 3 2]
  from th m have "getAABBForTriangle (Array3 (point3 2 3 2) (point3 0 0 0) (point3 4 0 1)) =
     getAABBForTriangle ?t" by blast
  moreover from th have "is_least (vx (aabb_min (getAABBForTriangle ?t))) (map vx (elems ?t))"
    "is_greatest (vy (aabb_max (getAABBForTriangle ?t))) (map vy (elems ?t))"
    "vec3_le (aabb_min (getAABBForTriangle ?t)) (aabb_max (getAABBForTriangle ?t))"
    by blast+
  ultimately show ?thesis
    unfolding box by (simp add: elems_def point3_def)
qed

section \<open>Signed area\<close>

lemma round32_finite: "\<bar>x\<bar> \<le> 2 powi 127 \<Longrightarrow> isfinite (round32 x)"
proof (cases "0 \<le> x")
  case True
  assume "\<bar>x\<bar> \<le> 2 powi 127"
  with True round32_bound [of x 127] show ?thesis by auto
next
  case False
  assume "\<bar>x\<bar> \<le> 2 powi 127"
  with False round32_bound [of "- x" 127] obtain r where "round32 (- x) = Fin r" by auto
  then have "fneg (round32 x) = Fin r" by (simp add: round32_minus)
  then show ?thesis by (cases "round32 x") simp_all
qed

lemma fabs_fneg [simp]: "fabs (fneg a) = fabs a"
  by (cases a) simp_all

lemma calculateSignedArea_steps:
  assumes "fsub (Fin x2) (Fin x0) = a" "fsub (Fin y1) (Fin y0) = b"
    "fsub (Fin x1) (Fin x0) = c" "fsub (Fin y2) (Fin y0) = d"
    "fmul a b = p" "fmul c d = q" "fsub p q = s" "dmul (Fin (1 / 2)) s = h" "to_float h = r"
  shows "calculateSignedArea (Array3 (point3 x0 y0 z0) (point3 x1 y1 z1) (point3 x2 y2 z2)) = r"
  using assms by (simp add: calculateSignedArea_def point3_def)

lemma calculateSignedArea_xy:
  assumes "vx (el0 t) = Fin x0" "vy (el0 t) = Fin y0" "vx (el1 t) = Fin x1" "vy (el1 t) = Fin y1"
    "vx (el2 t) = Fin x2" "vy (el2 t) = Fin y2"
  shows "calculateSignedArea t =
     to_float (dmul (Fin (1 / 2))
       (fsub (fmul (fsub (Fin x2) (Fin x0)) (fsub (Fin y1) (Fin y0)))
             (fmul (fsub (Fin x1) (Fin x0)) (fsub (Fin y2) (Fin y0)))))"
  using assms by (simp add: calculateSignedArea_def)

lemma calculateSignedArea_z:
  "calculateSignedArea (Array3 ((el0 t)\<lparr>vz := c0\<rparr>) ((el1 t)\<lparr>vz := c1\<rparr>) ((el2 t)\<lparr>vz := c2\<rparr>))
     = calculateSignedArea t"
  by (simp add: calculateSignedArea_def)

lemma fsub_exact: "exact32 (a - b) \<Longrightarrow> fsub (Fin a) (Fin b) = Fin (a - b)"
  by (simp add: fsub_def fadd_def exact32_def)

lemma fmul_exact: "exact32 (a * b) \<Longrightarrow> fmul (Fin a) (Fin b) = Fin (a * b)"
  by (simp add: fmul_def exact32_def)

lemma fadd_exact: "exact32 (a + b) \<Longrightarrow> fadd (Fin a) (Fin b) = Fin (a + b)"
  by (simp add: fadd_def exact32_def)

lemma calculateSignedArea_exact:
  assumes "vx (el0 t) = Fin x0" "vy (el0 t) = Fin y0" "vx (el1 t) = Fin x1" "vy (el1 t) = Fin y1"
    "vx (el2 t) = Fin x2" "vy (el2 t) = Fin y2" and "area_exact x0 y0 x1 y1 x2 y2"
  shows "calculateSignedArea t = Fin (area_xy x0 y0 x1 y1 x2 y2)"
proof -
  from assms(7) have e: "exact32 (x2 - x0)" "exact32 (y1 - y0)" "exact32 (x1 - x0)" "exact32 (y2 - y0)"
    "exact32 ((x2 - x0) * (y1 - y0))" "exact32 ((x1 - x0) * (y2 - y0))"
    "exact32 ((x2 - x0) * (y1 - y0) - (x1 - x0) * (y2 - y0))"
    "exact64 (1 / 2 * ((x2 - x0) * (y1 - y0) - (x1 - x0) * (y2 - y0)))"
    "exact32 (1 / 2 * ((x2 - x0) * (y1 - y0) - (x1 - x0) * (y2 - y0)))"
    by (simp_all add: area_exact_def)
  have h: "dmul (Fin (1 / 2)) (Fin ((x2 - x0) * (y1 - y0) - (x1 - x0) * (y2 - y0))) =
        Fin (1 / 2 * ((x2 - x0) * (y1 - y0) - (x1 - x0) * (y2 - y0)))"
    using e(8) by (simp add: dmul_def exact64_def)
  have f: "to_float (Fin (1 / 2 * ((x2 - x0) * (y1 - y0) - (x1 - x0) * (y2 - y0)))) =
        Fin (1 / 2 * ((x2 - x0) * (y1 - y0) - (x1 - x0) * (y2 - y0)))"
    using e(9) by (simp add: exact32_def)
  show ?thesis
    unfolding calculateSignedArea_xy [OF assms(1-6)]
    by (simp only: fsub_exact [OF e(1)] fsub_exact [OF e(2)] fsub_exact [OF e(3)] fsub_exact [OF e(4)]
        fmul_exact [OF e(5)] fmul_exact [OF e(6)] fsub_exact [OF e(7)] h f) (simp add: area_xy_def)
qed

lemma area_xy_shoelace: "area_xy x0 y0 x1 y1 x2 y2 = shoelace x0 y0 x2 y2 x1 y1"
  by (simp add: area_xy_def shoelace_def algebra_simps)

lemma area_xy_collinear:
  fixes a b :: real
  assumes ab: "a \<noteq> 0 \<or> b \<noteq> 0"
    and l0: "a * x0 + b * y0 = c" and l1: "a * x1 + b * y1 = c" and l2: "a * x2 + b * y2 = c"
  shows "(x2 - x0) * (y1 - y0) = (x1 - x0) * (y2 - y0)"
proof -
  let ?d = "(x2 - x0) * (y1 - y0) - (x1 - x0) * (y2 - y0)"
  have e1: "a * (x1 - x0) = - (b * (y1 - y0))" using l0 l1 by (simp add: algebra_simps)
  have e2: "a * (x2 - x0) = - (b * (y2 - y0))" using l0 l2 by (simp add: algebra_simps)
  have "a * ?d = (a * (x2 - x0)) * (y1 - y0) - (a * (x1 - x0)) * (y2 - y0)"
    by (simp add: algebra_simps)
  also have "\<dots> = 0" unfolding e1 e2 by (simp add: algebra_simps)
  finally have a0: "a * ?d = 0" .
  have f1: "b * (y1 - y0) = - (a * (x1 - x0))" using e1 by simp
  have f2: "b * (y2 - y0) = - (a * (x2 - x0))" using e2 by simp
  have "b * ?d = (x2 - x0) * (b * (y1 - y0)) - (x1 - x0) * (b * (y2 - y0))"
    by (simp add: algebra_simps)
  also have "\<dots> = 0" unfolding f1 f2 by (simp add: algebra_simps)
  finally have b0: "b * ?d = 0" .
  from ab a0 b0 have "?d = 0" by auto
  then show ?thesis by simp
qed

lemma calculateSignedArea_collinear:
  assumes v: "vx (el0 t) = Fin x0" "vy (el0 t) = Fin y0" "vx (el1 t) = Fin x1" "vy (el1 t) = Fin y1"
    "vx (el2 t) = Fin x2" "vy (el2 t) = Fin y2"
    and col: "collinear_xy t"
    and ex: "exact32 (x2 - x0)" "exact32 (y1 - y0)" "exact32 (x1 - x0)" "exact32 (y2 - y0)"
    and nov: "\<bar>(x2 - x0) * (y1 - y0)\<bar> \<le> 2 powi 127"
  shows "calculateSignedArea t = Fin 0"
proof -
  from col v obtain a b c where ab: "a \<noteq> 0 \<or> b \<noteq> 0"
    and l: "a * x0 + b * y0 = c" "a * x1 + b * y1 = c" "a * x2 + b * y2 = c"
    unfolding collinear_xy_def on_line_def by auto
  have eq: "(x2 - x0) * (y1 - y0) = (x1 - x0) * (y2 - y0)"
    using ab l by (rule area_xy_collinear)
  from round32_finite [OF nov] obtain r where r: "round32 ((x2 - x0) * (y1 - y0)) = Fin r"
    by (cases "round32 ((x2 - x0) * (y1 - y0))") simp_all
  have p: "fmul (Fin (x2 - x0)) (Fin (y1 - y0)) = Fin r" using r by (simp add: fmul_def)
  have q: "fmul (Fin (x1 - x0)) (Fin (y2 - y0)) = Fin r" using r eq by (simp add: fmul_def)
  show ?thesis
    unfolding calculateSignedArea_xy [OF v]
    by (simp only: fsub_exact [OF ex(1)] fsub_exact [OF ex(2)] fsub_exact [OF ex(3)]
        fsub_exact [OF ex(4)] p q fsub_self half_zero)
qed

text \<open>
  C5, as amended. \<^verbatim>\<open>calculateSignedArea\<close> reads only the x and y components of the three
  vertices: replacing the three z components by any values leaves the result unchanged.
  It evaluates the shoelace formula in floating point, and returns its exact value (for
  the vertex order V0, V2, V1) when no operation rounds. For a triangle whose three
  (x, y) projections lie on one line it returns exactly zero, a finite value and not an
  error, when the four coordinate differences are computed without rounding error and
  their product does not overflow.
\<close>

theorem calculateSignedArea_xy_only:
  "calculateSignedArea (Array3 ((el0 t)\<lparr>vz := c0\<rparr>) ((el1 t)\<lparr>vz := c1\<rparr>) ((el2 t)\<lparr>vz := c2\<rparr>))
     = calculateSignedArea t \<and>
   (vx (el0 t) = Fin x0 \<and> vy (el0 t) = Fin y0 \<and> vx (el1 t) = Fin x1 \<and> vy (el1 t) = Fin y1 \<and>
    vx (el2 t) = Fin x2 \<and> vy (el2 t) = Fin y2 \<longrightarrow>
      (area_exact x0 y0 x1 y1 x2 y2 \<longrightarrow>
         calculateSignedArea t = Fin (shoelace x0 y0 x2 y2 x1 y1)) \<and>
      (collinear_xy t \<and> exact32 (x2 - x0) \<and> exact32 (y1 - y0) \<and> exact32 (x1 - x0) \<and>
       exact32 (y2 - y0) \<and> \<bar>(x2 - x0) * (y1 - y0)\<bar> \<le> 2 powi 127 \<longrightarrow>
         calculateSignedArea t = Fin 0))"
  using calculateSignedArea_z [where t = t and ?c0.0 = c0 and ?c1.0 = c1 and ?c2.0 = c2]
    calculateSignedArea_exact [of t x0 y0 x1 y1 x2 y2]
    calculateSignedArea_collinear [of t x0 y0 x1 y1 x2 y2]
  by (simp add: area_xy_shoelace)

text \<open>
  A triangle of area -6 with two sets of z components, and three points of the line y = 2x.
\<close>

theorem calculateSignedArea_xy_only_witness:
  "calculateSignedArea (Array3 (point3 0 0 5) (point3 4 0 7) (point3 2 3 9)) = calculateSignedArea (Array3 (point3 0 0 0) (point3 4 0 1) (point3 2 3 2)) \<and>
   calculateSignedArea (Array3 (point3 0 0 0) (point3 4 0 1) (point3 2 3 2)) = Fin (- 6) \<and>
   collinear_xy (Array3 (point3 0 0 5) (point3 1 2 (- 1)) (point3 3 6 7)) \<and>
   calculateSignedArea (Array3 (point3 0 0 5) (point3 1 2 (- 1)) (point3 3 6 7)) = Fin 0"
proof -
  have s1: "area_exact 0 0 4 0 2 3"
    by (unfold area_exact_def, intro conjI, (rule exact32_dyadic [where m = 1 and j = 1]; simp), (rule exact32_dyadic [where m = 0 and j = 0]; simp), (rule exact32_dyadic [where m = 1 and j = 2]; simp), (rule exact32_dyadic [where m = 3 and j = 0]; simp), (rule exact32_dyadic [where m = 0 and j = 0]; simp), (rule exact32_dyadic [where m = 3 and j = 2]; simp), (rule exact32_dyadic [where m = "- 3" and j = 2]; simp), (rule exact64_dyadic [where m = "- 3" and j = 1]; simp), (rule exact32_dyadic [where m = "- 3" and j = 1]; simp))
  have s2: "exact32 (3 - 0)"
    by (rule exact32_dyadic [where m = 3 and j = 0]; simp)
  have s3: "exact32 (2 - 0)"
    by (rule exact32_dyadic [where m = 1 and j = 1]; simp)
  have s4: "exact32 (1 - 0)"
    by (rule exact32_dyadic [where m = 1 and j = 0]; simp)
  have s5: "exact32 (6 - 0)"
    by (rule exact32_dyadic [where m = 3 and j = 1]; simp)
  have s6: "collinear_xy (Array3 (point3 0 0 5) (point3 1 2 (- 1)) (point3 3 6 7))"
    by (unfold collinear_xy_def on_line_def point3_def, intro exI [of _ 2] exI [of _ "- 1"] exI [of _ 0], simp)
  note th1 = calculateSignedArea_xy_only
    [where t = "Array3 (point3 0 0 0) (point3 4 0 1) (point3 2 3 2)" and ?c0.0 = "Fin 5" and ?c1.0 = "Fin 7" and ?c2.0 = "Fin 9"
       and ?x0.0 = 0 and ?y0.0 = 0 and ?x1.0 = 4 and ?y1.0 = 0 and ?x2.0 = 2 and ?y2.0 = 3]
  note th2 = calculateSignedArea_xy_only
    [where t = "Array3 (point3 0 0 5) (point3 1 2 (- 1)) (point3 3 6 7)" and ?c0.0 = "Fin 0" and ?c1.0 = "Fin 0" and ?c2.0 = "Fin 0"
       and ?x0.0 = 0 and ?y0.0 = 0 and ?x1.0 = 1 and ?y1.0 = 2 and ?x2.0 = 3 and ?y2.0 = 6]
  from th1 s1 have a: "calculateSignedArea (Array3 (point3 0 0 5) (point3 4 0 7) (point3 2 3 9)) = calculateSignedArea (Array3 (point3 0 0 0) (point3 4 0 1) (point3 2 3 2))"
      "calculateSignedArea (Array3 (point3 0 0 0) (point3 4 0 1) (point3 2 3 2)) = Fin (- 6)"
    by (simp_all add: point3_def shoelace_def)
  from th2 s2 s3 s4 s5 s6 have b: "calculateSignedArea (Array3 (point3 0 0 5) (point3 1 2 (- 1)) (point3 3 6 7)) = Fin 0"
    by (simp add: point3_def)
  from a b s6 show ?thesis by (intro conjI)
qed

text \<open>
  C5, as stated, fails for the points (-1, -3), (1, 3) and (2^24, 3 * 2^24) of the line
  y = 3x: the differences x2 - x0 and y2 - y0 are rounded, and the result is -4.
\<close>

theorem calculateSignedArea_collinear_counterexample:
  "collinear_xy (Array3 (point3 (- 1) (- 3) 0) (point3 1 3 0) (point3 16777216 50331648 0)) \<and>
   area_xy (- 1) (- 3) 1 3 16777216 50331648 = 0 \<and>
   calculateSignedArea (Array3 (point3 (- 1) (- 3) 0) (point3 1 3 0) (point3 16777216 50331648 0)) = Fin (- 4)"
proof -
  have s1: "fsub (Fin 16777216) (Fin (- 1)) = Fin 16777216"
    by (rule fsub_Fin) (rule round32_pos [where e = 24 and m = 8388608]; simp add: rne_int_def)
  have s2: "fsub (Fin 3) (Fin (- 3)) = Fin 6"
    by (rule fsub_Fin) (rule round32_pos [where e = 2 and m = 12582912]; simp add: rne_int_def)
  have s3: "fsub (Fin 1) (Fin (- 1)) = Fin 2"
    by (rule fsub_Fin) (rule round32_pos [where e = 1 and m = 8388608]; simp add: rne_int_def)
  have s4: "fsub (Fin 50331648) (Fin (- 3)) = Fin 50331652"
    by (rule fsub_Fin) (rule round32_pos [where e = 25 and m = 12582913]; simp add: rne_int_def)
  have s5: "fmul (Fin 16777216) (Fin 6) = Fin 100663296"
    by (rule fmul_Fin) (rule round32_pos [where e = 26 and m = 12582912]; simp add: rne_int_def)
  have s6: "fmul (Fin 2) (Fin 50331652) = Fin 100663304"
    by (rule fmul_Fin) (rule round32_pos [where e = 26 and m = 12582913]; simp add: rne_int_def)
  have s7: "fsub (Fin 100663296) (Fin 100663304) = Fin (- 8)"
    by (rule fsub_Fin) (rule round32_neg [where e = 3 and m = 8388608]; simp add: rne_int_def)
  have s8: "dmul (Fin (1 / 2)) (Fin (- 8)) = Fin (- 4)"
    by (rule dmul_Fin) (rule round64_neg [where e = 2 and m = 4503599627370496]; simp add: rne_int_def)
  have s9: "to_float (Fin (- 4)) = Fin (- 4)"
    by (rule to_float_Fin) (rule round32_neg [where e = 2 and m = 8388608]; simp add: rne_int_def)
  have s10: "calculateSignedArea (Array3 (point3 (- 1) (- 3) 0) (point3 1 3 0) (point3 16777216 50331648 0)) = Fin (- 4)"
    by (rule calculateSignedArea_steps [OF s1 s2 s3 s4 s5 s6 s7 s8 s9])
  show ?thesis
  proof (intro conjI)
    show "collinear_xy (Array3 (point3 (- 1) (- 3) 0) (point3 1 3 0) (point3 16777216 50331648 0))"
      by (unfold collinear_xy_def on_line_def point3_def, intro exI [of _ 3] exI [of _ "- 1"] exI [of _ 0], simp)
    show "area_xy (- 1) (- 3) 1 3 16777216 50331648 = 0"
      by (simp add: area_xy_def)
    show "calculateSignedArea (Array3 (point3 (- 1) (- 3) 0) (point3 1 3 0) (point3 16777216 50331648 0)) = Fin (- 4)"
      by (rule s10)
  qed
qed

lemma calculateSignedArea_swap:
  "calculateSignedArea (Array3 (el0 t) (el2 t) (el1 t)) = fneg (calculateSignedArea t)"
proof -
  define p where "p = fmul (fsub (vx (el2 t)) (vx (el0 t))) (fsub (vy (el1 t)) (vy (el0 t)))"
  define q where "q = fmul (fsub (vx (el1 t)) (vx (el0 t))) (fsub (vy (el2 t)) (vy (el0 t)))"
  have "calculateSignedArea (Array3 (el0 t) (el2 t) (el1 t)) = to_float (dmul (Fin (1 / 2)) (fsub q p))"
    by (simp add: calculateSignedArea_def p_def q_def)
  also have "fsub q p = fneg (fsub p q)" by (rule fsub_swap)
  also have "dmul (Fin (1 / 2)) (fneg (fsub p q)) = fneg (dmul (Fin (1 / 2)) (fsub p q))"
    unfolding dmul_def by (rule mul_with_fneg) (simp_all add: round64_minus)
  also have "to_float (fneg (dmul (Fin (1 / 2)) (fsub p q))) = fneg (to_float (dmul (Fin (1 / 2)) (fsub p q)))"
    by (rule to_float_fneg)
  finally show ?thesis by (simp add: calculateSignedArea_def p_def q_def)
qed

lemma computed_exactly_area:
  assumes "computed_exactly t"
  obtains x0 y0 x1 y1 x2 y2 where
    "vx (el0 t) = Fin x0" "vy (el0 t) = Fin y0" "vx (el1 t) = Fin x1" "vy (el1 t) = Fin y1"
    "vx (el2 t) = Fin x2" "vy (el2 t) = Fin y2"
    "calculateSignedArea t = Fin (area_xy x0 y0 x1 y1 x2 y2)"
proof -
  from assms obtain x0 y0 x1 y1 x2 y2 where
    v: "vx (el0 t) = Fin x0" "vy (el0 t) = Fin y0" "vx (el1 t) = Fin x1" "vy (el1 t) = Fin y1"
    "vx (el2 t) = Fin x2" "vy (el2 t) = Fin y2" and e: "area_exact x0 y0 x1 y1 x2 y2"
    unfolding computed_exactly_def by blast
  from calculateSignedArea_exact [OF v e] v show ?thesis by (rule that [rotated 6])
qed

lemma calculateSignedArea_permuted_exact:
  assumes "mset (elems t') = mset (elems t)" "computed_exactly t" "computed_exactly t'"
  shows "fabs (calculateSignedArea t') = fabs (calculateSignedArea t)"
proof -
  from assms(2) obtain x0 y0 x1 y1 x2 y2 where
    v: "vx (el0 t) = Fin x0" "vy (el0 t) = Fin y0" "vx (el1 t) = Fin x1" "vy (el1 t) = Fin y1"
    "vx (el2 t) = Fin x2" "vy (el2 t) = Fin y2"
    and a: "calculateSignedArea t = Fin (area_xy x0 y0 x1 y1 x2 y2)"
    by (rule computed_exactly_area)
  from assms(3) obtain u0 v0 u1 v1 u2 v2 where
    v': "vx (el0 t') = Fin u0" "vy (el0 t') = Fin v0" "vx (el1 t') = Fin u1" "vy (el1 t') = Fin v1"
    "vx (el2 t') = Fin u2" "vy (el2 t') = Fin v2"
    and a': "calculateSignedArea t' = Fin (area_xy u0 v0 u1 v1 u2 v2)"
    by (rule computed_exactly_area)
  have *: "\<bar>a\<bar> = \<bar>b\<bar>" if "a = b \<or> a = - b" for a b :: real using that by auto
  from perm3 [OF assms(1)] v v' show ?thesis
    unfolding a a'
    by (auto simp: area_xy_def intro!: * ; (simp add: algebra_simps)?)
qed

lemma computed_exactly_point3:
  "area_exact x0 y0 x1 y1 x2 y2 \<Longrightarrow>
   computed_exactly (Array3 (point3 x0 y0 z0) (point3 x1 y1 z1) (point3 x2 y2 z2))"
  unfolding computed_exactly_def by (simp add: point3_def)

text \<open>
  C7, as amended. For every triangle, exchanging V1 and V2 changes the sign of
  \<^verbatim>\<open>calculateSignedArea\<close> and leaves its absolute value unchanged. For every permutation
  of the three vertices the absolute value is the same when the area is computed
  without rounding error in both orders; with rounding the absolute values of two
  orders that start from different vertices can differ.
\<close>

theorem calculateSignedArea_permutation:
  "calculateSignedArea (Array3 (el0 t) (el2 t) (el1 t)) = fneg (calculateSignedArea t) \<and>
   fabs (calculateSignedArea (Array3 (el0 t) (el2 t) (el1 t))) = fabs (calculateSignedArea t) \<and>
   (mset (elems t') = mset (elems t) \<and> computed_exactly t \<and> computed_exactly t' \<longrightarrow>
      fabs (calculateSignedArea t') = fabs (calculateSignedArea t))"
  using calculateSignedArea_swap [of t] calculateSignedArea_permuted_exact [of t' t]
  by simp

text \<open>
  The triangle (0,0), (4,0), (2,3), whose area is computed without rounding error in every order.
\<close>

theorem calculateSignedArea_permutation_witness:
  "calculateSignedArea (Array3 (point3 0 0 0) (point3 2 3 2) (point3 4 0 1)) = fneg (calculateSignedArea (Array3 (point3 0 0 0) (point3 4 0 1) (point3 2 3 2))) \<and>
   fabs (calculateSignedArea (Array3 (point3 0 0 0) (point3 2 3 2) (point3 4 0 1))) = fabs (calculateSignedArea (Array3 (point3 0 0 0) (point3 4 0 1) (point3 2 3 2))) \<and>
   fabs (calculateSignedArea (Array3 (point3 2 3 2) (point3 0 0 0) (point3 4 0 1))) = fabs (calculateSignedArea (Array3 (point3 0 0 0) (point3 4 0 1) (point3 2 3 2)))"
proof -
  have s1: "area_exact 0 0 4 0 2 3"
    by (unfold area_exact_def, intro conjI, (rule exact32_dyadic [where m = 1 and j = 1]; simp), (rule exact32_dyadic [where m = 0 and j = 0]; simp), (rule exact32_dyadic [where m = 1 and j = 2]; simp), (rule exact32_dyadic [where m = 3 and j = 0]; simp), (rule exact32_dyadic [where m = 0 and j = 0]; simp), (rule exact32_dyadic [where m = 3 and j = 2]; simp), (rule exact32_dyadic [where m = "- 3" and j = 2]; simp), (rule exact64_dyadic [where m = "- 3" and j = 1]; simp), (rule exact32_dyadic [where m = "- 3" and j = 1]; simp))
  have s2: "area_exact 2 3 0 0 4 0"
    by (unfold area_exact_def, intro conjI, (rule exact32_dyadic [where m = 1 and j = 1]; simp), (rule exact32_dyadic [where m = "- 3" and j = 0]; simp), (rule exact32_dyadic [where m = "- 1" and j = 1]; simp), (rule exact32_dyadic [where m = "- 3" and j = 0]; simp), (rule exact32_dyadic [where m = "- 3" and j = 1]; simp), (rule exact32_dyadic [where m = 3 and j = 1]; simp), (rule exact32_dyadic [where m = "- 3" and j = 2]; simp), (rule exact64_dyadic [where m = "- 3" and j = 1]; simp), (rule exact32_dyadic [where m = "- 3" and j = 1]; simp))
  have s3: "computed_exactly (Array3 (point3 0 0 0) (point3 4 0 1) (point3 2 3 2))"
    by (rule computed_exactly_point3 [OF s1])
  have s4: "computed_exactly (Array3 (point3 2 3 2) (point3 0 0 0) (point3 4 0 1))"
    by (rule computed_exactly_point3 [OF s2])
  have s5: "mset (elems (Array3 (point3 2 3 2) (point3 0 0 0) (point3 4 0 1))) = mset (elems (Array3 (point3 0 0 0) (point3 4 0 1) (point3 2 3 2)))"
    by (simp add: elems_def)
  note th = calculateSignedArea_permutation
    [where t = "Array3 (point3 0 0 0) (point3 4 0 1) (point3 2 3 2)" and t' = "Array3 (point3 2 3 2) (point3 0 0 0) (point3 4 0 1)", unfolded array3.sel]
  from th s5 s3 s4 show ?thesis by blast
qed

text \<open>
  C7, as stated, fails for the triangle (0, 2.5), (1.3f, 1.8f), (1, 0): the order
  (V2, V0, V1) gives an absolute value one unit in the last place below the one of
  (V0, V1, V2).
\<close>

theorem calculateSignedArea_permutation_counterexample:
  "mset (elems (Array3 (point3 1 0 0) (point3 0 (5 / 2) 0) (point3 (5452595 / 4194304) (7549747 / 4194304) 0))) = mset (elems (Array3 (point3 0 (5 / 2) 0) (point3 (5452595 / 4194304) (7549747 / 4194304) 0) (point3 1 0 0))) \<and>
   calculateSignedArea (Array3 (point3 0 (5 / 2) 0) (point3 (5452595 / 4194304) (7549747 / 4194304) 0) (point3 1 0 0)) = Fin (10695475 / 8388608) \<and>
   calculateSignedArea (Array3 (point3 1 0 0) (point3 0 (5 / 2) 0) (point3 (5452595 / 4194304) (7549747 / 4194304) 0)) = Fin (5347737 / 4194304) \<and>
   fabs (calculateSignedArea (Array3 (point3 1 0 0) (point3 0 (5 / 2) 0) (point3 (5452595 / 4194304) (7549747 / 4194304) 0))) \<noteq> fabs (calculateSignedArea (Array3 (point3 0 (5 / 2) 0) (point3 (5452595 / 4194304) (7549747 / 4194304) 0) (point3 1 0 0)))"
proof -
  have s1: "fsub (Fin 1) (Fin 0) = Fin 1"
    by (rule fsub_Fin) (rule round32_pos [where e = 0 and m = 8388608]; simp add: rne_int_def)
  have s2: "fsub (Fin (7549747 / 4194304)) (Fin (5 / 2)) = Fin (- (2936013 / 4194304))"
    by (rule fsub_Fin) (rule round32_neg [where e = "- 1" and m = 11744052]; simp add: rne_int_def)
  have s3: "fsub (Fin (5452595 / 4194304)) (Fin 0) = Fin (5452595 / 4194304)"
    by (rule fsub_Fin) (rule round32_pos [where e = 0 and m = 10905190]; simp add: rne_int_def)
  have s4: "fsub (Fin 0) (Fin (5 / 2)) = Fin (- (5 / 2))"
    by (rule fsub_Fin) (rule round32_neg [where e = 1 and m = 10485760]; simp add: rne_int_def)
  have s5: "fmul (Fin 1) (Fin (- (2936013 / 4194304))) = Fin (- (2936013 / 4194304))"
    by (rule fmul_Fin) (rule round32_neg [where e = "- 1" and m = 11744052]; simp add: rne_int_def)
  have s6: "fmul (Fin (5452595 / 4194304)) (Fin (- (5 / 2))) = Fin (- (13 / 4))"
    by (rule fmul_Fin) (rule round32_neg [where e = 1 and m = 13631488]; simp add: rne_int_def)
  have s7: "fsub (Fin (- (2936013 / 4194304))) (Fin (- (13 / 4))) = Fin (10695475 / 4194304)"
    by (rule fsub_Fin) (rule round32_pos [where e = 1 and m = 10695475]; simp add: rne_int_def)
  have s8: "dmul (Fin (1 / 2)) (Fin (10695475 / 4194304)) = Fin (10695475 / 8388608)"
    by (rule dmul_Fin) (rule round64_pos [where e = 0 and m = 5742089417523200]; simp add: rne_int_def)
  have s9: "to_float (Fin (10695475 / 8388608)) = Fin (10695475 / 8388608)"
    by (rule to_float_Fin) (rule round32_pos [where e = 0 and m = 10695475]; simp add: rne_int_def)
  have s10: "calculateSignedArea (Array3 (point3 0 (5 / 2) 0) (point3 (5452595 / 4194304) (7549747 / 4194304) 0) (point3 1 0 0)) = Fin (10695475 / 8388608)"
    by (rule calculateSignedArea_steps [OF s1 s2 s3 s4 s5 s6 s7 s8 s9])
  have s11: "fsub (Fin (5452595 / 4194304)) (Fin 1) = Fin (1258291 / 4194304)"
    by (rule fsub_Fin) (rule round32_pos [where e = "- 2" and m = 10066328]; simp add: rne_int_def)
  have s12: "fsub (Fin (5 / 2)) (Fin 0) = Fin (5 / 2)"
    by (rule fsub_Fin) (rule round32_pos [where e = 1 and m = 10485760]; simp add: rne_int_def)
  have s13: "fsub (Fin 0) (Fin 1) = Fin (- 1)"
    by (rule fsub_Fin) (rule round32_neg [where e = 0 and m = 8388608]; simp add: rne_int_def)
  have s14: "fsub (Fin (7549747 / 4194304)) (Fin 0) = Fin (7549747 / 4194304)"
    by (rule fsub_Fin) (rule round32_pos [where e = 0 and m = 15099494]; simp add: rne_int_def)
  have s15: "fmul (Fin (1258291 / 4194304)) (Fin (5 / 2)) = Fin (6291455 / 8388608)"
    by (rule fmul_Fin) (rule round32_pos [where e = "- 1" and m = 12582910]; simp add: rne_int_def)
  have s16: "fmul (Fin (- 1)) (Fin (7549747 / 4194304)) = Fin (- (7549747 / 4194304))"
    by (rule fmul_Fin) (rule round32_neg [where e = 0 and m = 15099494]; simp add: rne_int_def)
  have s17: "fsub (Fin (6291455 / 8388608)) (Fin (- (7549747 / 4194304))) = Fin (5347737 / 2097152)"
    by (rule fsub_Fin) (rule round32_pos [where e = 1 and m = 10695474]; simp add: rne_int_def)
  have s18: "dmul (Fin (1 / 2)) (Fin (5347737 / 2097152)) = Fin (5347737 / 4194304)"
    by (rule dmul_Fin) (rule round64_pos [where e = 0 and m = 5742088880652288]; simp add: rne_int_def)
  have s19: "to_float (Fin (5347737 / 4194304)) = Fin (5347737 / 4194304)"
    by (rule to_float_Fin) (rule round32_pos [where e = 0 and m = 10695474]; simp add: rne_int_def)
  have s20: "calculateSignedArea (Array3 (point3 1 0 0) (point3 0 (5 / 2) 0) (point3 (5452595 / 4194304) (7549747 / 4194304) 0)) = Fin (5347737 / 4194304)"
    by (rule calculateSignedArea_steps [OF s11 s12 s13 s14 s15 s16 s17 s18 s19])
  show ?thesis
  proof (intro conjI)
    show "mset (elems (Array3 (point3 1 0 0) (point3 0 (5 / 2) 0) (point3 (5452595 / 4194304) (7549747 / 4194304) 0))) = mset (elems (Array3 (point3 0 (5 / 2) 0) (point3 (5452595 / 4194304) (7549747 / 4194304) 0) (point3 1 0 0)))"
      by (simp add: elems_def)
    show "calculateSignedArea (Array3 (point3 0 (5 / 2) 0) (point3 (5452595 / 4194304) (7549747 / 4194304) 0) (point3 1 0 0)) = Fin (10695475 / 8388608)"
      by (rule s10)
    show "calculateSignedArea (Array3 (point3 1 0 0) (point3 0 (5 / 2) 0) (point3 (5452595 / 4194304) (7549747 / 4194304) 0)) = Fin (5347737 / 4194304)"
      by (rule s20)
    show "fabs (calculateSignedArea (Array3 (point3 1 0 0) (point3 0 (5 / 2) 0) (point3 (5452595 / 4194304) (7549747 / 4194304) 0))) \<noteq> fabs (calculateSignedArea (Array3 (point3 0 (5 / 2) 0) (point3 (5452595 / 4194304) (7549747 / 4194304) 0) (point3 1 0 0)))"
      by (simp only: s10 s20, simp)
  qed
qed

section \<open>Barycentric coordinates\<close>

lemma bary_unfold:
  "calculateBarycentricCoordinate tri p =
     \<lparr>vx = to_float (dsub (dsub (Fin 1)
             (fdiv (calculateSignedArea (Array3 (el0 tri) (vec3_of_vec2 p c) (el2 tri)))
                   (calculateSignedArea tri)))
             (fdiv (calculateSignedArea (Array3 (el0 tri) (el1 tri) (vec3_of_vec2 p c)))
                   (calculateSignedArea tri))),
      vy = fdiv (calculateSignedArea (Array3 (el0 tri) (vec3_of_vec2 p c) (el2 tri)))
                (calculateSignedArea tri),
      vz = fdiv (calculateSignedArea (Array3 (el0 tri) (el1 tri) (vec3_of_vec2 p c)))
                (calculateSignedArea tri)\<rparr>"
  by (simp add: calculateBarycentricCoordinate_def calculateBarycentricCoordinateValue_def
      calculateSignedArea_def vec3_of_vec2_def Let_def)

lemma isfinite_add_with: "isfinite (add_with rnd a b) \<Longrightarrow> isfinite a \<and> isfinite b"
  by (cases a; cases b) simp_all

lemma isfinite_fneg [simp]: "isfinite (fneg a) = isfinite a"
  by (cases a) simp_all

lemma isfinite_fsub: "isfinite (fsub a b) \<Longrightarrow> isfinite a \<and> isfinite b"
  using isfinite_add_with [of round32 a "fneg b"] by (simp add: fsub_def fadd_def)

lemma isfinite_dsub: "isfinite (dsub a b) \<Longrightarrow> isfinite a \<and> isfinite b"
  using isfinite_add_with [of round64 a "fneg b"] by (simp add: dsub_def dadd_def)

lemma isfinite_mul_with: "isfinite (mul_with rnd a b) \<Longrightarrow> isfinite a \<and> isfinite b"
  by (cases a; cases b) (simp_all add: signed_inf_def split: if_splits)

lemma isfinite_to_float: "isfinite (to_float a) \<Longrightarrow> isfinite a"
  by (cases a) simp_all



lemma alpha_error:
  assumes "to_float (dsub (dsub (Fin 1) (Fin b)) (Fin g)) = Fin a"
  shows "\<bar>a + b + g - 1\<bar> \<le> 2 powi (- 23) * (1 + \<bar>b\<bar> + \<bar>g\<bar>)"
proof -
  from assms have "isfinite (to_float (dsub (dsub (Fin 1) (Fin b)) (Fin g)))" by simp
  then have f2: "isfinite (dsub (dsub (Fin 1) (Fin b)) (Fin g))" by (rule isfinite_to_float)
  then have "isfinite (dsub (Fin 1) (Fin b))" by (blast dest: isfinite_dsub)
  then obtain D1 where D1: "dsub (Fin 1) (Fin b) = Fin D1" unfolding isfinite_conv by blast
  from f2 obtain D2 where D2: "dsub (Fin D1) (Fin g) = Fin D2" unfolding D1 isfinite_conv by blast
  from assms have A: "round32 D2 = Fin a" by (simp add: D1 D2)
  from D1 have r1: "round64 (1 - b) = Fin D1" by (simp add: dsub_def dadd_def)
  from D2 have r2: "round64 (D1 - g) = Fin D2" by (simp add: dsub_def dadd_def)
  define M where "M = 1 + \<bar>b\<bar> + \<bar>g\<bar>"
  define X1 where "X1 = \<bar>D1 - (1 - b)\<bar>"
  define X2 where "X2 = \<bar>D2 - (D1 - g)\<bar>"
  define X3 where "X3 = \<bar>a - D2\<bar>"
  define Y1 where "Y1 = \<bar>1 - b\<bar>"
  define Y2 where "Y2 = \<bar>D1 - g\<bar>"
  define Y3 where "Y3 = \<bar>D2\<bar>"
  define G where "G = \<bar>a + b + g - 1\<bar>"
  have M1: "1 \<le> M" by (simp add: M_def)
  have t1: "Y1 \<le> M" unfolding Y1_def M_def by linarith
  have t2: "Y2 \<le> X1 + M" unfolding Y2_def X1_def M_def by linarith
  have t3: "Y3 \<le> X2 + Y2" unfolding Y3_def X2_def Y2_def by linarith
  have t4: "G \<le> X3 + X2 + X1" unfolding G_def X3_def X2_def X1_def by linarith
  have e1: "X1 \<le> 1 / 9007199254740992 * Y1 + 1 / 1152921504606846976"
    using round64_error [OF r1] by (simp add: X1_def Y1_def)
  have e2: "X2 \<le> 1 / 9007199254740992 * Y2 + 1 / 1152921504606846976"
    using round64_error [OF r2] by (simp add: X2_def Y2_def)
  have e3: "X3 \<le> 1 / 16777216 * Y3 + 1 / 1152921504606846976"
    using round32_error [OF A] by (simp add: X3_def Y3_def)
  have "G \<le> 1 / 8388608 * M"
    using M1 t1 t2 t3 t4 e1 e2 e3 by linarith
  then show ?thesis by (simp add: G_def M_def)
qed

lemma vec3_of_vec2_point: "vec3_of_vec2 \<lparr>px = Fin u, py = Fin v\<rparr> (Fin c) = point3 u v c"
  by (simp add: vec3_of_vec2_def point3_def)

lemma calculateBarycentricCoordinate_steps:
  assumes "calculateSignedArea (Array3 (point3 x0 y0 0) (point3 u v 0) (point3 x2 y2 0)) = n1"
    "calculateSignedArea (Array3 (point3 x0 y0 0) (point3 x1 y1 0) (point3 u v 0)) = n2"
    "calculateSignedArea (Array3 (point3 x0 y0 z0) (point3 x1 y1 z1) (point3 x2 y2 z2)) = d"
    "fdiv n1 d = b" "fdiv n2 d = g" "dsub (Fin 1) b = s" "dsub s g = s'" "to_float s' = a"
  shows "calculateBarycentricCoordinate
           (Array3 (point3 x0 y0 z0) (point3 x1 y1 z1) (point3 x2 y2 z2)) \<lparr>px = Fin u, py = Fin v\<rparr> =
         \<lparr>vx = a, vy = b, vz = g\<rparr>"
  using assms
  by (simp add: calculateBarycentricCoordinate_def calculateBarycentricCoordinateValue_def
      vec3_of_vec2_def point3_def)

text \<open>
  C1, as amended. For every triangle (V0, V1, V2) and every query point P,
  \<^verbatim>\<open>calculateBarycentricCoordinate\<close> returns (alpha, beta, gamma) with
  beta = signedArea(V0, P, V2) / signedArea(V0, V1, V2),
  gamma = signedArea(V0, V1, P) / signedArea(V0, V1, V2), each quotient rounded to
  \<^verbatim>\<open>float\<close>, where P is taken with any z component, and alpha = 1 - beta - gamma,
  the two subtractions rounded to \<^verbatim>\<open>double\<close> and the result to \<^verbatim>\<open>float\<close>. When the
  three weights are finite, alpha + beta + gamma differs from 1 by at most
  2^-23 * (1 + |beta| + |gamma|): the sum is 1 up to rounding error.
\<close>

theorem calculateBarycentricCoordinate_weights:
  "(let beta = fdiv (calculateSignedArea (Array3 (el0 tri) (vec3_of_vec2 p c) (el2 tri)))
                    (calculateSignedArea tri);
        gamma = fdiv (calculateSignedArea (Array3 (el0 tri) (el1 tri) (vec3_of_vec2 p c)))
                     (calculateSignedArea tri);
        alpha = to_float (dsub (dsub (Fin 1) beta) gamma)
    in calculateBarycentricCoordinate tri p = \<lparr>vx = alpha, vy = beta, vz = gamma\<rparr> \<and>
       (alpha = Fin a \<and> beta = Fin b \<and> gamma = Fin g \<longrightarrow>
          \<bar>a + b + g - 1\<bar> \<le> 2 powi (- 23) * (1 + \<bar>b\<bar> + \<bar>g\<bar>)))"
  unfolding Let_def using bary_unfold [of tri p c] alpha_error [of b g a] by auto

text \<open>
  The triangle (0,0), (3,0), (0,3) and the point (1/4, 1/4).
\<close>

theorem calculateBarycentricCoordinate_weights_witness:
  "calculateBarycentricCoordinate (Array3 (point3 0 0 0) (point3 3 0 0) (point3 0 3 0)) \<lparr>px = Fin (1 / 4), py = Fin (1 / 4)\<rparr> = \<lparr>vx = Fin (13981013 / 16777216), vy = Fin (11184811 / 134217728), vz = Fin (11184811 / 134217728)\<rparr> \<and>
   \<bar>13981013 / 16777216 + 11184811 / 134217728 + 11184811 / 134217728 - (1::real)\<bar> \<le> 2 powi (- 23) * (1 + \<bar>11184811 / 134217728\<bar> + \<bar>11184811 / 134217728\<bar>)"
proof -
  have s1: "fsub (Fin 0) (Fin 0) = Fin 0"
    by (rule fsub_Fin) (rule round32_is_zero; simp)
  have s2: "fsub (Fin (1 / 4)) (Fin 0) = Fin (1 / 4)"
    by (rule fsub_Fin) (rule round32_pos [where e = "- 2" and m = 8388608]; simp add: rne_int_def)
  have s3: "fsub (Fin (1 / 4)) (Fin 0) = Fin (1 / 4)"
    by (rule fsub_Fin) (rule round32_pos [where e = "- 2" and m = 8388608]; simp add: rne_int_def)
  have s4: "fsub (Fin 3) (Fin 0) = Fin 3"
    by (rule fsub_Fin) (rule round32_pos [where e = 1 and m = 12582912]; simp add: rne_int_def)
  have s5: "fmul (Fin 0) (Fin (1 / 4)) = Fin 0"
    by (rule fmul_Fin) (rule round32_is_zero; simp)
  have s6: "fmul (Fin (1 / 4)) (Fin 3) = Fin (3 / 4)"
    by (rule fmul_Fin) (rule round32_pos [where e = "- 1" and m = 12582912]; simp add: rne_int_def)
  have s7: "fsub (Fin 0) (Fin (3 / 4)) = Fin (- (3 / 4))"
    by (rule fsub_Fin) (rule round32_neg [where e = "- 1" and m = 12582912]; simp add: rne_int_def)
  have s8: "dmul (Fin (1 / 2)) (Fin (- (3 / 4))) = Fin (- (3 / 8))"
    by (rule dmul_Fin) (rule round64_neg [where e = "- 2" and m = 6755399441055744]; simp add: rne_int_def)
  have s9: "to_float (Fin (- (3 / 8))) = Fin (- (3 / 8))"
    by (rule to_float_Fin) (rule round32_neg [where e = "- 2" and m = 12582912]; simp add: rne_int_def)
  have s10: "calculateSignedArea (Array3 (point3 0 0 0) (point3 (1 / 4) (1 / 4) 0) (point3 0 3 0)) = Fin (- (3 / 8))"
    by (rule calculateSignedArea_steps [OF s1 s2 s3 s4 s5 s6 s7 s8 s9])
  have s11: "fsub (Fin (1 / 4)) (Fin 0) = Fin (1 / 4)"
    by (rule fsub_Fin) (rule round32_pos [where e = "- 2" and m = 8388608]; simp add: rne_int_def)
  have s12: "fsub (Fin 0) (Fin 0) = Fin 0"
    by (rule fsub_Fin) (rule round32_is_zero; simp)
  have s13: "fsub (Fin 3) (Fin 0) = Fin 3"
    by (rule fsub_Fin) (rule round32_pos [where e = 1 and m = 12582912]; simp add: rne_int_def)
  have s14: "fsub (Fin (1 / 4)) (Fin 0) = Fin (1 / 4)"
    by (rule fsub_Fin) (rule round32_pos [where e = "- 2" and m = 8388608]; simp add: rne_int_def)
  have s15: "fmul (Fin (1 / 4)) (Fin 0) = Fin 0"
    by (rule fmul_Fin) (rule round32_is_zero; simp)
  have s16: "fmul (Fin 3) (Fin (1 / 4)) = Fin (3 / 4)"
    by (rule fmul_Fin) (rule round32_pos [where e = "- 1" and m = 12582912]; simp add: rne_int_def)
  have s17: "fsub (Fin 0) (Fin (3 / 4)) = Fin (- (3 / 4))"
    by (rule fsub_Fin) (rule round32_neg [where e = "- 1" and m = 12582912]; simp add: rne_int_def)
  have s18: "dmul (Fin (1 / 2)) (Fin (- (3 / 4))) = Fin (- (3 / 8))"
    by (rule dmul_Fin) (rule round64_neg [where e = "- 2" and m = 6755399441055744]; simp add: rne_int_def)
  have s19: "to_float (Fin (- (3 / 8))) = Fin (- (3 / 8))"
    by (rule to_float_Fin) (rule round32_neg [where e = "- 2" and m = 12582912]; simp add: rne_int_def)
  have s20: "calculateSignedArea (Array3 (point3 0 0 0) (point3 3 0 0) (point3 (1 / 4) (1 / 4) 0)) = Fin (- (3 / 8))"
    by (rule calculateSignedArea_steps [OF s11 s12 s13 s14 s15 s16 s17 s18 s19])
  have s21: "fsub (Fin 0) (Fin 0) = Fin 0"
    by (rule fsub_Fin) (rule round32_is_zero; simp)
  have s22: "fsub (Fin 0) (Fin 0) = Fin 0"
    by (rule fsub_Fin) (rule round32_is_zero; simp)
  have s23: "fsub (Fin 3) (Fin 0) = Fin 3"
    by (rule fsub_Fin) (rule round32_pos [where e = 1 and m = 12582912]; simp add: rne_int_def)
  have s24: "fsub (Fin 3) (Fin 0) = Fin 3"
    by (rule fsub_Fin) (rule round32_pos [where e = 1 and m = 12582912]; simp add: rne_int_def)
  have s25: "fmul (Fin 0) (Fin 0) = Fin 0"
    by (rule fmul_Fin) (rule round32_is_zero; simp)
  have s26: "fmul (Fin 3) (Fin 3) = Fin 9"
    by (rule fmul_Fin) (rule round32_pos [where e = 3 and m = 9437184]; simp add: rne_int_def)
  have s27: "fsub (Fin 0) (Fin 9) = Fin (- 9)"
    by (rule fsub_Fin) (rule round32_neg [where e = 3 and m = 9437184]; simp add: rne_int_def)
  have s28: "dmul (Fin (1 / 2)) (Fin (- 9)) = Fin (- (9 / 2))"
    by (rule dmul_Fin) (rule round64_neg [where e = 2 and m = 5066549580791808]; simp add: rne_int_def)
  have s29: "to_float (Fin (- (9 / 2))) = Fin (- (9 / 2))"
    by (rule to_float_Fin) (rule round32_neg [where e = 2 and m = 9437184]; simp add: rne_int_def)
  have s30: "calculateSignedArea (Array3 (point3 0 0 0) (point3 3 0 0) (point3 0 3 0)) = Fin (- (9 / 2))"
    by (rule calculateSignedArea_steps [OF s21 s22 s23 s24 s25 s26 s27 s28 s29])
  have s31: "fdiv (Fin (- (3 / 8))) (Fin (- (9 / 2))) = Fin (11184811 / 134217728)"
    by (rule fdiv_Fin, simp) (rule round32_pos [where e = "- 4" and m = 11184811]; simp add: rne_int_def)
  have s32: "fdiv (Fin (- (3 / 8))) (Fin (- (9 / 2))) = Fin (11184811 / 134217728)"
    by (rule fdiv_Fin, simp) (rule round32_pos [where e = "- 4" and m = 11184811]; simp add: rne_int_def)
  have s33: "dsub (Fin 1) (Fin (11184811 / 134217728)) = Fin (123032917 / 134217728)"
    by (rule dsub_Fin) (rule round64_pos [where e = "- 1" and m = 8256599294476288]; simp add: rne_int_def)
  have s34: "dsub (Fin (123032917 / 134217728)) (Fin (11184811 / 134217728)) = Fin (55924053 / 67108864)"
    by (rule dsub_Fin) (rule round64_pos [where e = "- 1" and m = 7505999334211584]; simp add: rne_int_def)
  have s35: "to_float (Fin (55924053 / 67108864)) = Fin (13981013 / 16777216)"
    by (rule to_float_Fin) (rule round32_pos [where e = "- 1" and m = 13981013]; simp add: rne_int_def)
  have s36: "calculateBarycentricCoordinate (Array3 (point3 0 0 0) (point3 3 0 0) (point3 0 3 0)) \<lparr>px = Fin (1 / 4), py = Fin (1 / 4)\<rparr> = \<lparr>vx = Fin (13981013 / 16777216), vy = Fin (11184811 / 134217728), vz = Fin (11184811 / 134217728)\<rparr>"
    by (rule calculateBarycentricCoordinate_steps [OF s10 s20 s30 s31 s32 s33 s34 s35])
  note th = calculateBarycentricCoordinate_weights
    [where tri = "Array3 (point3 0 0 0) (point3 3 0 0) (point3 0 3 0)" and p = "\<lparr>px = Fin (1 / 4), py = Fin (1 / 4)\<rparr>" and c = "Fin 0"
       and a = "13981013 / 16777216" and b = "11184811 / 134217728" and g = "11184811 / 134217728",
     unfolded Let_def array3.sel vec3_of_vec2_point s10 s20 s30 s31 s32 s33 s34 s35]
  from th show ?thesis by simp
qed

text \<open>
  C1, as stated, fails at that point: the three weights are finite, their sum is
  1 - 2^-26, and their sum computed on \<^verbatim>\<open>float\<close>s is 1 - 2^-24.
\<close>

theorem barycentric_weights_sum_counterexample:
  "finite_tri (Array3 (point3 0 0 0) (point3 3 0 0) (point3 0 3 0)) \<and>
   calculateSignedArea (Array3 (point3 0 0 0) (point3 3 0 0) (point3 0 3 0)) = Fin (- (9 / 2)) \<and>
   calculateBarycentricCoordinate (Array3 (point3 0 0 0) (point3 3 0 0) (point3 0 3 0)) \<lparr>px = Fin (1 / 4), py = Fin (1 / 4)\<rparr> = \<lparr>vx = Fin (13981013 / 16777216), vy = Fin (11184811 / 134217728), vz = Fin (11184811 / 134217728)\<rparr> \<and>
   13981013 / 16777216 + 11184811 / 134217728 + 11184811 / 134217728 \<noteq> (1::real) \<and>
   fadd (fadd (Fin (13981013 / 16777216)) (Fin (11184811 / 134217728))) (Fin (11184811 / 134217728)) = Fin (16777215 / 16777216)"
proof -
  have s1: "fsub (Fin 0) (Fin 0) = Fin 0"
    by (rule fsub_Fin) (rule round32_is_zero; simp)
  have s2: "fsub (Fin (1 / 4)) (Fin 0) = Fin (1 / 4)"
    by (rule fsub_Fin) (rule round32_pos [where e = "- 2" and m = 8388608]; simp add: rne_int_def)
  have s3: "fsub (Fin (1 / 4)) (Fin 0) = Fin (1 / 4)"
    by (rule fsub_Fin) (rule round32_pos [where e = "- 2" and m = 8388608]; simp add: rne_int_def)
  have s4: "fsub (Fin 3) (Fin 0) = Fin 3"
    by (rule fsub_Fin) (rule round32_pos [where e = 1 and m = 12582912]; simp add: rne_int_def)
  have s5: "fmul (Fin 0) (Fin (1 / 4)) = Fin 0"
    by (rule fmul_Fin) (rule round32_is_zero; simp)
  have s6: "fmul (Fin (1 / 4)) (Fin 3) = Fin (3 / 4)"
    by (rule fmul_Fin) (rule round32_pos [where e = "- 1" and m = 12582912]; simp add: rne_int_def)
  have s7: "fsub (Fin 0) (Fin (3 / 4)) = Fin (- (3 / 4))"
    by (rule fsub_Fin) (rule round32_neg [where e = "- 1" and m = 12582912]; simp add: rne_int_def)
  have s8: "dmul (Fin (1 / 2)) (Fin (- (3 / 4))) = Fin (- (3 / 8))"
    by (rule dmul_Fin) (rule round64_neg [where e = "- 2" and m = 6755399441055744]; simp add: rne_int_def)
  have s9: "to_float (Fin (- (3 / 8))) = Fin (- (3 / 8))"
    by (rule to_float_Fin) (rule round32_neg [where e = "- 2" and m = 12582912]; simp add: rne_int_def)
  have s10: "calculateSignedArea (Array3 (point3 0 0 0) (point3 (1 / 4) (1 / 4) 0) (point3 0 3 0)) = Fin (- (3 / 8))"
    by (rule calculateSignedArea_steps [OF s1 s2 s3 s4 s5 s6 s7 s8 s9])
  have s11: "fsub (Fin (1 / 4)) (Fin 0) = Fin (1 / 4)"
    by (rule fsub_Fin) (rule round32_pos [where e = "- 2" and m = 8388608]; simp add: rne_int_def)
  have s12: "fsub (Fin 0) (Fin 0) = Fin 0"
    by (rule fsub_Fin) (rule round32_is_zero; simp)
  have s13: "fsub (Fin 3) (Fin 0) = Fin 3"
    by (rule fsub_Fin) (rule round32_pos [where e = 1 and m = 12582912]; simp add: rne_int_def)
  have s14: "fsub (Fin (1 / 4)) (Fin 0) = Fin (1 / 4)"
    by (rule fsub_Fin) (rule round32_pos [where e = "- 2" and m = 8388608]; simp add: rne_int_def)
  have s15: "fmul (Fin (1 / 4)) (Fin 0) = Fin 0"
    by (rule fmul_Fin) (rule round32_is_zero; simp)
  have s16: "fmul (Fin 3) (Fin (1 / 4)) = Fin (3 / 4)"
    by (rule fmul_Fin) (rule round32_pos [where e = "- 1" and m = 12582912]; simp add: rne_int_def)
  have s17: "fsub (Fin 0) (Fin (3 / 4)) = Fin (- (3 / 4))"
    by (rule fsub_Fin) (rule round32_neg [where e = "- 1" and m = 12582912]; simp add: rne_int_def)
  have s18: "dmul (Fin (1 / 2)) (Fin (- (3 / 4))) = Fin (- (3 / 8))"
    by (rule dmul_Fin) (rule round64_neg [where e = "- 2" and m = 6755399441055744]; simp add: rne_int_def)
  have s19: "to_float (Fin (- (3 / 8))) = Fin (- (3 / 8))"
    by (rule to_float_Fin) (rule round32_neg [where e = "- 2" and m = 12582912]; simp add: rne_int_def)
  have s20: "calculateSignedArea (Array3 (point3 0 0 0) (point3 3 0 0) (point3 (1 / 4) (1 / 4) 0)) = Fin (- (3 / 8))"
    by (rule calculateSignedArea_steps [OF s11 s12 s13 s14 s15 s16 s17 s18 s19])
  have s21: "fsub (Fin 0) (Fin 0) = Fin 0"
    by (rule fsub_Fin) (rule round32_is_zero; simp)
  have s22: "fsub (Fin 0) (Fin 0) = Fin 0"
    by (rule fsub_Fin) (rule round32_is_zero; simp)
  have s23: "fsub (Fin 3) (Fin 0) = Fin 3"
    by (rule fsub_Fin) (rule round32_pos [where e = 1 and m = 12582912]; simp add: rne_int_def)
  have s24: "fsub (Fin 3) (Fin 0) = Fin 3"
    by (rule fsub_Fin) (rule round32_pos [where e = 1 and m = 12582912]; simp add: rne_int_def)
  have s25: "fmul (Fin 0) (Fin 0) = Fin 0"
    by (rule fmul_Fin) (rule round32_is_zero; simp)
  have s26: "fmul (Fin 3) (Fin 3) = Fin 9"
    by (rule fmul_Fin) (rule round32_pos [where e = 3 and m = 9437184]; simp add: rne_int_def)
  have s27: "fsub (Fin 0) (Fin 9) = Fin (- 9)"
    by (rule fsub_Fin) (rule round32_neg [where e = 3 and m = 9437184]; simp add: rne_int_def)
  have s28: "dmul (Fin (1 / 2)) (Fin (- 9)) = Fin (- (9 / 2))"
    by (rule dmul_Fin) (rule round64_neg [where e = 2 and m = 5066549580791808]; simp add: rne_int_def)
  have s29: "to_float (Fin (- (9 / 2))) = Fin (- (9 / 2))"
    by (rule to_float_Fin) (rule round32_neg [where e = 2 and m = 9437184]; simp add: rne_int_def)
  have s30: "calculateSignedArea (Array3 (point3 0 0 0) (point3 3 0 0) (point3 0 3 0)) = Fin (- (9 / 2))"
    by (rule calculateSignedArea_steps [OF s21 s22 s23 s24 s25 s26 s27 s28 s29])
  have s31: "fdiv (Fin (- (3 / 8))) (Fin (- (9 / 2))) = Fin (11184811 / 134217728)"
    by (rule fdiv_Fin, simp) (rule round32_pos [where e = "- 4" and m = 11184811]; simp add: rne_int_def)
  have s32: "fdiv (Fin (- (3 / 8))) (Fin (- (9 / 2))) = Fin (11184811 / 134217728)"
    by (rule fdiv_Fin, simp) (rule round32_pos [where e = "- 4" and m = 11184811]; simp add: rne_int_def)
  have s33: "dsub (Fin 1) (Fin (11184811 / 134217728)) = Fin (123032917 / 134217728)"
    by (rule dsub_Fin) (rule round64_pos [where e = "- 1" and m = 8256599294476288]; simp add: rne_int_def)
  have s34: "dsub (Fin (123032917 / 134217728)) (Fin (11184811 / 134217728)) = Fin (55924053 / 67108864)"
    by (rule dsub_Fin) (rule round64_pos [where e = "- 1" and m = 7505999334211584]; simp add: rne_int_def)
  have s35: "to_float (Fin (55924053 / 67108864)) = Fin (13981013 / 16777216)"
    by (rule to_float_Fin) (rule round32_pos [where e = "- 1" and m = 13981013]; simp add: rne_int_def)
  have s36: "calculateBarycentricCoordinate (Array3 (point3 0 0 0) (point3 3 0 0) (point3 0 3 0)) \<lparr>px = Fin (1 / 4), py = Fin (1 / 4)\<rparr> = \<lparr>vx = Fin (13981013 / 16777216), vy = Fin (11184811 / 134217728), vz = Fin (11184811 / 134217728)\<rparr>"
    by (rule calculateBarycentricCoordinate_steps [OF s10 s20 s30 s31 s32 s33 s34 s35])
  have s37: "fadd (Fin (13981013 / 16777216)) (Fin (11184811 / 134217728)) = Fin (7689557 / 8388608)"
    by (rule fadd_Fin) (rule round32_pos [where e = "- 1" and m = 15379114]; simp add: rne_int_def)
  have s38: "fadd (Fin (7689557 / 8388608)) (Fin (11184811 / 134217728)) = Fin (16777215 / 16777216)"
    by (rule fadd_Fin) (rule round32_pos [where e = "- 1" and m = 16777215]; simp add: rne_int_def)
  show ?thesis
  proof (intro conjI)
    show "finite_tri (Array3 (point3 0 0 0) (point3 3 0 0) (point3 0 3 0))"
      by (rule finite_tri_point3)
    show "calculateSignedArea (Array3 (point3 0 0 0) (point3 3 0 0) (point3 0 3 0)) = Fin (- (9 / 2))"
      by (rule s30)
    show "calculateBarycentricCoordinate (Array3 (point3 0 0 0) (point3 3 0 0) (point3 0 3 0)) \<lparr>px = Fin (1 / 4), py = Fin (1 / 4)\<rparr> = \<lparr>vx = Fin (13981013 / 16777216), vy = Fin (11184811 / 134217728), vz = Fin (11184811 / 134217728)\<rparr>"
      by (rule s36)
    show "13981013 / 16777216 + 11184811 / 134217728 + 11184811 / 134217728 \<noteq> (1::real)"
      by simp
    show "fadd (fadd (Fin (13981013 / 16777216)) (Fin (11184811 / 134217728))) (Fin (11184811 / 134217728)) = Fin (16777215 / 16777216)"
      by (simp only: s37 s38)
  qed
qed



subsection \<open>Weights at the vertices\<close>

lemma area_finite_coords:
  assumes "calculateSignedArea t = Fin d"
  obtains x0 y0 x1 y1 x2 y2 a1 b1 a2 b2 where
    "vx (el0 t) = Fin x0" "vy (el0 t) = Fin y0" "vx (el1 t) = Fin x1" "vy (el1 t) = Fin y1"
    "vx (el2 t) = Fin x2" "vy (el2 t) = Fin y2"
    "fsub (Fin x1) (Fin x0) = Fin a1" "fsub (Fin y1) (Fin y0) = Fin b1"
    "fsub (Fin x2) (Fin x0) = Fin a2" "fsub (Fin y2) (Fin y0) = Fin b2"
proof -
  let ?p = "fmul (fsub (vx (el2 t)) (vx (el0 t))) (fsub (vy (el1 t)) (vy (el0 t)))"
  let ?q = "fmul (fsub (vx (el1 t)) (vx (el0 t))) (fsub (vy (el2 t)) (vy (el0 t)))"
  from assms have "isfinite (to_float (dmul (Fin (1 / 2)) (fsub ?p ?q)))"
    by (simp add: calculateSignedArea_def)
  then have "isfinite (dmul (Fin (1 / 2)) (fsub ?p ?q))" by (rule isfinite_to_float)
  then have "isfinite (fsub ?p ?q)" unfolding dmul_def by (blast dest: isfinite_mul_with)
  then have "isfinite ?p" "isfinite ?q" by (blast dest: isfinite_fsub)+
  then have d: "isfinite (fsub (vx (el2 t)) (vx (el0 t)))" "isfinite (fsub (vy (el1 t)) (vy (el0 t)))"
    "isfinite (fsub (vx (el1 t)) (vx (el0 t)))" "isfinite (fsub (vy (el2 t)) (vy (el0 t)))"
    unfolding fmul_def by (blast dest: isfinite_mul_with)+
  then have "isfinite (vx (el0 t))" "isfinite (vy (el0 t))" "isfinite (vx (el1 t))"
    "isfinite (vy (el1 t))" "isfinite (vx (el2 t))" "isfinite (vy (el2 t))"
    by (blast dest: isfinite_fsub)+
  then obtain x0 y0 x1 y1 x2 y2 where
    v: "vx (el0 t) = Fin x0" "vy (el0 t) = Fin y0" "vx (el1 t) = Fin x1" "vy (el1 t) = Fin y1"
    "vx (el2 t) = Fin x2" "vy (el2 t) = Fin y2"
    unfolding isfinite_conv by blast
  from d obtain a1 b1 a2 b2 where
    "fsub (Fin x1) (Fin x0) = Fin a1" "fsub (Fin y1) (Fin y0) = Fin b1"
    "fsub (Fin x2) (Fin x0) = Fin a2" "fsub (Fin y2) (Fin y0) = Fin b2"
    unfolding v isfinite_conv by blast
  with v show ?thesis by (rule that)
qed

lemma alpha_values [simp]:
  "to_float (dsub (dsub (Fin 1) (Fin 0)) (Fin 0)) = Fin 1"
  "to_float (dsub (dsub (Fin 1) (Fin 1)) (Fin 0)) = Fin 0"
  "to_float (dsub (dsub (Fin 1) (Fin 0)) (Fin 1)) = Fin 0"
  by (simp_all add: dsub_def dadd_def)

lemma fdiv_self: "d \<noteq> 0 \<Longrightarrow> fdiv (Fin d) (Fin d) = Fin 1"
  by (simp add: fdiv_def)

lemma fdiv_zero: "d \<noteq> 0 \<Longrightarrow> fdiv (Fin 0) (Fin d) = Fin 0"
  by (simp add: fdiv_def)

lemma bary_at_vertices:
  assumes area: "calculateSignedArea tri = Fin d" and nz: "d \<noteq> 0" and pf: "products_finite tri"
  shows "calculateBarycentricCoordinate tri (vec2_of_xy (el0 tri)) = point3 1 0 0"
    and "calculateBarycentricCoordinate tri (vec2_of_xy (el1 tri)) = point3 0 1 0"
    and "calculateBarycentricCoordinate tri (vec2_of_xy (el2 tri)) = point3 0 0 1"
proof -
  from area obtain x0 y0 x1 y1 x2 y2 a1 b1 a2 b2 where
    v: "vx (el0 tri) = Fin x0" "vy (el0 tri) = Fin y0" "vx (el1 tri) = Fin x1" "vy (el1 tri) = Fin y1"
    "vx (el2 tri) = Fin x2" "vy (el2 tri) = Fin y2"
    and s: "fsub (Fin x1) (Fin x0) = Fin a1" "fsub (Fin y1) (Fin y0) = Fin b1"
    "fsub (Fin x2) (Fin x0) = Fin a2" "fsub (Fin y2) (Fin y0) = Fin b2"
    by (rule area_finite_coords)
  from pf obtain r1 r2 where r: "fmul (Fin a1) (Fin b1) = Fin r1" "fmul (Fin a2) (Fin b2) = Fin r2"
    unfolding products_finite_def v s isfinite_conv by blast
  have same1: "calculateSignedArea (Array3 (el0 tri) (vec3_of_vec2 (vec2_of_xy (el1 tri)) (Fin 0)) (el2 tri))
      = calculateSignedArea tri"
    by (simp add: calculateSignedArea_def vec3_of_vec2_def vec2_of_xy_def)
  have same2: "calculateSignedArea (Array3 (el0 tri) (el1 tri) (vec3_of_vec2 (vec2_of_xy (el2 tri)) (Fin 0)))
      = calculateSignedArea tri"
    by (simp add: calculateSignedArea_def vec3_of_vec2_def vec2_of_xy_def)
  have z01: "calculateSignedArea (Array3 (el0 tri) (vec3_of_vec2 (vec2_of_xy (el0 tri)) (Fin 0)) (el2 tri)) = Fin 0"
    by (simp add: calculateSignedArea_def vec3_of_vec2_def vec2_of_xy_def v s)
  have z02: "calculateSignedArea (Array3 (el0 tri) (el1 tri) (vec3_of_vec2 (vec2_of_xy (el0 tri)) (Fin 0))) = Fin 0"
    by (simp add: calculateSignedArea_def vec3_of_vec2_def vec2_of_xy_def v s)
  have z12: "calculateSignedArea (Array3 (el0 tri) (el1 tri) (vec3_of_vec2 (vec2_of_xy (el1 tri)) (Fin 0))) = Fin 0"
    by (simp add: calculateSignedArea_def vec3_of_vec2_def vec2_of_xy_def v s r)
  have z21: "calculateSignedArea (Array3 (el0 tri) (vec3_of_vec2 (vec2_of_xy (el2 tri)) (Fin 0)) (el2 tri)) = Fin 0"
    by (simp add: calculateSignedArea_def vec3_of_vec2_def vec2_of_xy_def v s r)
  show "calculateBarycentricCoordinate tri (vec2_of_xy (el0 tri)) = point3 1 0 0"
    unfolding bary_unfold [of tri _ "Fin 0"] z01 z02 area
    by (simp add: fdiv_zero [OF nz] point3_def)
  show "calculateBarycentricCoordinate tri (vec2_of_xy (el1 tri)) = point3 0 1 0"
    unfolding bary_unfold [of tri _ "Fin 0"] same1 z12 area
    by (simp add: fdiv_zero [OF nz] fdiv_self [OF nz] point3_def)
  show "calculateBarycentricCoordinate tri (vec2_of_xy (el2 tri)) = point3 0 0 1"
    unfolding bary_unfold [of tri _ "Fin 0"] same2 z21 area
    by (simp add: fdiv_zero [OF nz] fdiv_self [OF nz] point3_def)
qed

lemma float_vec3E:
  assumes "float_vec3 v"
  obtains a b c where "v = point3 a b c" "exact32 a" "exact32 b" "exact32 c"
  using assms unfolding float_vec3_def by blast

lemma fmul_one: "exact32 a \<Longrightarrow> fmul (Fin 1) (Fin a) = Fin a"
  by (simp add: fmul_def exact32_def)

lemma fadd_zero:
  "exact32 a \<Longrightarrow> fadd (Fin a) (Fin 0) = Fin a" "exact32 a \<Longrightarrow> fadd (Fin 0) (Fin a) = Fin a"
  by (simp_all add: fadd_def exact32_def)

lemma getZ_unit:
  assumes "float_tri a"
  shows "getZAtCoordinate (point3 1 0 0) a = vz (el0 a)"
    and "getZAtCoordinate (point3 0 1 0) a = vz (el1 a)"
    and "getZAtCoordinate (point3 0 0 1) a = vz (el2 a)"
proof -
  from assms have f: "float_vec3 (el0 a)" "float_vec3 (el1 a)" "float_vec3 (el2 a)"
    by (simp_all add: float_tri_def)
  from f(1) obtain x0 y0 z0 where e0: "el0 a = point3 x0 y0 z0" "exact32 z0"
    by (rule float_vec3E)
  from f(2) obtain x1 y1 z1 where e1: "el1 a = point3 x1 y1 z1" "exact32 z1"
    by (rule float_vec3E)
  from f(3) obtain x2 y2 z2 where e2: "el2 a = point3 x2 y2 z2" "exact32 z2"
    by (rule float_vec3E)
  show "getZAtCoordinate (point3 1 0 0) a = vz (el0 a)"
    "getZAtCoordinate (point3 0 1 0) a = vz (el1 a)"
    "getZAtCoordinate (point3 0 0 1) a = vz (el2 a)"
    unfolding getZAtCoordinate_def e0(1) e1(1) e2(1)
    by (simp_all add: point3_def fmul_one fadd_zero e0(2) e1(2) e2(2))
qed

lemma weighted_sum_point3:
  assumes "exact32 x" "exact32 y" "exact32 z"
  shows "vadd (vadd (scale (Fin 1) (point3 x y z)) (scale (Fin 0) (point3 x1 y1 z1)))
           (scale (Fin 0) (point3 x2 y2 z2)) = point3 x y z"
    and "vadd (vadd (scale (Fin 0) (point3 x1 y1 z1)) (scale (Fin 1) (point3 x y z)))
           (scale (Fin 0) (point3 x2 y2 z2)) = point3 x y z"
    and "vadd (vadd (scale (Fin 0) (point3 x1 y1 z1)) (scale (Fin 0) (point3 x2 y2 z2)))
           (scale (Fin 1) (point3 x y z)) = point3 x y z"
  by (simp_all only: vadd_def scale_def point3_def vec3.simps fmul_zero fmul_one assms fadd_zero
      exact32_0)

lemma weighted_sum_unit:
  assumes "float_tri a"
  shows "vadd (vadd (scale (Fin 1) (el0 a)) (scale (Fin 0) (el1 a))) (scale (Fin 0) (el2 a)) = el0 a"
    and "vadd (vadd (scale (Fin 0) (el0 a)) (scale (Fin 1) (el1 a))) (scale (Fin 0) (el2 a)) = el1 a"
    and "vadd (vadd (scale (Fin 0) (el0 a)) (scale (Fin 0) (el1 a))) (scale (Fin 1) (el2 a)) = el2 a"
proof -
  from assms have f: "float_vec3 (el0 a)" "float_vec3 (el1 a)" "float_vec3 (el2 a)"
    by (simp_all add: float_tri_def)
  from f(1) obtain x0 y0 z0 where e0: "el0 a = point3 x0 y0 z0" "exact32 x0" "exact32 y0" "exact32 z0"
    by (rule float_vec3E)
  from f(2) obtain x1 y1 z1 where e1: "el1 a = point3 x1 y1 z1" "exact32 x1" "exact32 y1" "exact32 z1"
    by (rule float_vec3E)
  from f(3) obtain x2 y2 z2 where e2: "el2 a = point3 x2 y2 z2" "exact32 x2" "exact32 y2" "exact32 z2"
    by (rule float_vec3E)
  show "vadd (vadd (scale (Fin 1) (el0 a)) (scale (Fin 0) (el1 a))) (scale (Fin 0) (el2 a)) = el0 a"
    unfolding e0(1) e1(1) e2(1) by (rule weighted_sum_point3 [OF e0(2,3,4)])
  show "vadd (vadd (scale (Fin 0) (el0 a)) (scale (Fin 1) (el1 a))) (scale (Fin 0) (el2 a)) = el1 a"
    unfolding e0(1) e1(1) e2(1) by (rule weighted_sum_point3 [OF e1(2,3,4)])
  show "vadd (vadd (scale (Fin 0) (el0 a)) (scale (Fin 0) (el1 a))) (scale (Fin 1) (el2 a)) = el2 a"
    unfolding e0(1) e1(1) e2(1) by (rule weighted_sum_point3 [OF e2(2,3,4)])
qed

lemma getNormal_unit:
  assumes "float_tri a"
  shows "getNormalAtCoordinate (point3 1 0 0) a = el0 a"
    and "getNormalAtCoordinate (point3 0 1 0) a = el1 a"
    and "getNormalAtCoordinate (point3 0 0 1) a = el2 a"
  using weighted_sum_unit [OF assms] by (simp_all add: getNormalAtCoordinate_def point3_def)

lemma getColor_unit:
  assumes "float_tri a"
  shows "getColorAtCoordinate (point3 1 0 0) a = el0 a"
    and "getColorAtCoordinate (point3 0 1 0) a = el1 a"
    and "getColorAtCoordinate (point3 0 0 1) a = el2 a"
  using weighted_sum_unit [OF assms] by (simp_all add: getColorAtCoordinate_def point3_def)

lemma products_finite_steps:
  assumes "fsub (Fin x1) (Fin x0) = a" "fsub (Fin y1) (Fin y0) = b" "fmul a b = Fin p"
    "fsub (Fin x2) (Fin x0) = c" "fsub (Fin y2) (Fin y0) = d" "fmul c d = Fin q"
  shows "products_finite (Array3 (point3 x0 y0 z0) (point3 x1 y1 z1) (point3 x2 y2 z2))"
  using assms by (simp add: products_finite_def point3_def)

lemma float_vec3_point3: "exact32 a \<Longrightarrow> exact32 b \<Longrightarrow> exact32 c \<Longrightarrow> float_vec3 (point3 a b c)"
  unfolding float_vec3_def by blast

lemma float_tri_point3:
  "float_vec3 u \<Longrightarrow> float_vec3 v \<Longrightarrow> float_vec3 w \<Longrightarrow> float_tri (Array3 u v w)"
  by (simp add: float_tri_def)

lemma vz_point3: "vz (point3 a b c) = Fin c"
  by (simp add: point3_def)

text \<open>
  C4, as amended. For every triangle whose computed signed area is a non-zero number
  and whose products (x1 - x0) * (y1 - y0) and (x2 - x0) * (y2 - y0) do not overflow,
  \<^verbatim>\<open>calculateBarycentricCoordinate\<close> at the i-th vertex returns the i-th unit triple,
  and \<^verbatim>\<open>getZAtCoordinate\<close>, \<^verbatim>\<open>getNormalAtCoordinate\<close> and
  \<^verbatim>\<open>getColorAtCoordinate\<close> at that coordinate return the i-th value of any attribute
  triple of \<^verbatim>\<open>float\<close> numbers.
\<close>

theorem barycentric_vertex_identity:
  assumes "calculateSignedArea tri = Fin d" and "d \<noteq> 0" and "products_finite tri"
    and "float_tri depth" and "float_tri normal" and "float_tri color"
  shows "calculateBarycentricCoordinate tri (vec2_of_xy (el0 tri)) = \<lparr>vx = Fin 1, vy = Fin 0, vz = Fin 0\<rparr> \<and>
         calculateBarycentricCoordinate tri (vec2_of_xy (el1 tri)) = \<lparr>vx = Fin 0, vy = Fin 1, vz = Fin 0\<rparr> \<and>
         calculateBarycentricCoordinate tri (vec2_of_xy (el2 tri)) = \<lparr>vx = Fin 0, vy = Fin 0, vz = Fin 1\<rparr> \<and>
         getZAtCoordinate (calculateBarycentricCoordinate tri (vec2_of_xy (el0 tri))) depth = vz (el0 depth) \<and>
         getZAtCoordinate (calculateBarycentricCoordinate tri (vec2_of_xy (el1 tri))) depth = vz (el1 depth) \<and>
         getZAtCoordinate (calculateBarycentricCoordinate tri (vec2_of_xy (el2 tri))) depth = vz (el2 depth) \<and>
         getNormalAtCoordinate (calculateBarycentricCoordinate tri (vec2_of_xy (el0 tri))) normal = el0 normal \<and>
         getNormalAtCoordinate (calculateBarycentricCoordinate tri (vec2_of_xy (el1 tri))) normal = el1 normal \<and>
         getNormalAtCoordinate (calculateBarycentricCoordinate tri (vec2_of_xy (el2 tri))) normal = el2 normal \<and>
         getColorAtCoordinate (calculateBarycentricCoordinate tri (vec2_of_xy (el0 tri))) color = el0 color \<and>
         getColorAtCoordinate (calculateBarycentricCoordinate tri (vec2_of_xy (el1 tri))) color = el1 color \<and>
         getColorAtCoordinate (calculateBarycentricCoordinate tri (vec2_of_xy (el2 tri))) color = el2 color"
  unfolding bary_at_vertices [OF assms(1,2,3)] getZ_unit [OF assms(4)] getNormal_unit [OF assms(5)]
    getColor_unit [OF assms(6)]
  by (simp add: point3_def)

text \<open>
  The triangle (0,0), (4,0), (2,3) with a depth, a normal and a colour at each vertex.
\<close>

theorem barycentric_vertex_identity_witness:
  "calculateSignedArea (Array3 (point3 0 0 0) (point3 4 0 1) (point3 2 3 2)) = Fin (- 6) \<and>
   calculateBarycentricCoordinate (Array3 (point3 0 0 0) (point3 4 0 1) (point3 2 3 2)) \<lparr>px = Fin 0, py = Fin 0\<rparr> = \<lparr>vx = Fin 1, vy = Fin 0, vz = Fin 0\<rparr> \<and>
   calculateBarycentricCoordinate (Array3 (point3 0 0 0) (point3 4 0 1) (point3 2 3 2)) \<lparr>px = Fin 4, py = Fin 0\<rparr> = \<lparr>vx = Fin 0, vy = Fin 1, vz = Fin 0\<rparr> \<and>
   calculateBarycentricCoordinate (Array3 (point3 0 0 0) (point3 4 0 1) (point3 2 3 2)) \<lparr>px = Fin 2, py = Fin 3\<rparr> = \<lparr>vx = Fin 0, vy = Fin 0, vz = Fin 1\<rparr> \<and>
   getZAtCoordinate (calculateBarycentricCoordinate (Array3 (point3 0 0 0) (point3 4 0 1) (point3 2 3 2)) \<lparr>px = Fin 0, py = Fin 0\<rparr>) (Array3 (point3 0 0 5) (point3 4 0 7) (point3 2 3 9)) = Fin 5 \<and>
   getZAtCoordinate (calculateBarycentricCoordinate (Array3 (point3 0 0 0) (point3 4 0 1) (point3 2 3 2)) \<lparr>px = Fin 4, py = Fin 0\<rparr>) (Array3 (point3 0 0 5) (point3 4 0 7) (point3 2 3 9)) = Fin 7 \<and>
   getZAtCoordinate (calculateBarycentricCoordinate (Array3 (point3 0 0 0) (point3 4 0 1) (point3 2 3 2)) \<lparr>px = Fin 2, py = Fin 3\<rparr>) (Array3 (point3 0 0 5) (point3 4 0 7) (point3 2 3 9)) = Fin 9 \<and>
   getNormalAtCoordinate (calculateBarycentricCoordinate (Array3 (point3 0 0 0) (point3 4 0 1) (point3 2 3 2)) \<lparr>px = Fin 0, py = Fin 0\<rparr>) (Array3 (point3 0 0 1) (point3 0 1 0) (point3 1 0 0)) = point3 0 0 1 \<and>
   getNormalAtCoordinate (calculateBarycentricCoordinate (Array3 (point3 0 0 0) (point3 4 0 1) (point3 2 3 2)) \<lparr>px = Fin 4, py = Fin 0\<rparr>) (Array3 (point3 0 0 1) (point3 0 1 0) (point3 1 0 0)) = point3 0 1 0 \<and>
   getNormalAtCoordinate (calculateBarycentricCoordinate (Array3 (point3 0 0 0) (point3 4 0 1) (point3 2 3 2)) \<lparr>px = Fin 2, py = Fin 3\<rparr>) (Array3 (point3 0 0 1) (point3 0 1 0) (point3 1 0 0)) = point3 1 0 0 \<and>
   getColorAtCoordinate (calculateBarycentricCoordinate (Array3 (point3 0 0 0) (point3 4 0 1) (point3 2 3 2)) \<lparr>px = Fin 0, py = Fin 0\<rparr>) (Array3 (point3 1 0 0) (point3 (1 / 2) (1 / 4) 1) (point3 0 0 1)) = point3 1 0 0 \<and>
   getColorAtCoordinate (calculateBarycentricCoordinate (Array3 (point3 0 0 0) (point3 4 0 1) (point3 2 3 2)) \<lparr>px = Fin 4, py = Fin 0\<rparr>) (Array3 (point3 1 0 0) (point3 (1 / 2) (1 / 4) 1) (point3 0 0 1)) = point3 (1 / 2) (1 / 4) 1 \<and>
   getColorAtCoordinate (calculateBarycentricCoordinate (Array3 (point3 0 0 0) (point3 4 0 1) (point3 2 3 2)) \<lparr>px = Fin 2, py = Fin 3\<rparr>) (Array3 (point3 1 0 0) (point3 (1 / 2) (1 / 4) 1) (point3 0 0 1)) = point3 0 0 1"
proof -
  have s1: "fsub (Fin 2) (Fin 0) = Fin 2"
    by (rule fsub_Fin) (rule round32_pos [where e = 1 and m = 8388608]; simp add: rne_int_def)
  have s2: "fsub (Fin 0) (Fin 0) = Fin 0"
    by (rule fsub_Fin) (rule round32_is_zero; simp)
  have s3: "fsub (Fin 4) (Fin 0) = Fin 4"
    by (rule fsub_Fin) (rule round32_pos [where e = 2 and m = 8388608]; simp add: rne_int_def)
  have s4: "fsub (Fin 3) (Fin 0) = Fin 3"
    by (rule fsub_Fin) (rule round32_pos [where e = 1 and m = 12582912]; simp add: rne_int_def)
  have s5: "fmul (Fin 2) (Fin 0) = Fin 0"
    by (rule fmul_Fin) (rule round32_is_zero; simp)
  have s6: "fmul (Fin 4) (Fin 3) = Fin 12"
    by (rule fmul_Fin) (rule round32_pos [where e = 3 and m = 12582912]; simp add: rne_int_def)
  have s7: "fsub (Fin 0) (Fin 12) = Fin (- 12)"
    by (rule fsub_Fin) (rule round32_neg [where e = 3 and m = 12582912]; simp add: rne_int_def)
  have s8: "dmul (Fin (1 / 2)) (Fin (- 12)) = Fin (- 6)"
    by (rule dmul_Fin) (rule round64_neg [where e = 2 and m = 6755399441055744]; simp add: rne_int_def)
  have s9: "to_float (Fin (- 6)) = Fin (- 6)"
    by (rule to_float_Fin) (rule round32_neg [where e = 2 and m = 12582912]; simp add: rne_int_def)
  have s10: "calculateSignedArea (Array3 (point3 0 0 0) (point3 4 0 1) (point3 2 3 2)) = Fin (- 6)"
    by (rule calculateSignedArea_steps [OF s1 s2 s3 s4 s5 s6 s7 s8 s9])
  have s11: "fsub (Fin 4) (Fin 0) = Fin 4"
    by (rule fsub_Fin) (rule round32_pos [where e = 2 and m = 8388608]; simp add: rne_int_def)
  have s12: "fsub (Fin 0) (Fin 0) = Fin 0"
    by (rule fsub_Fin) (rule round32_is_zero; simp)
  have s13: "fmul (Fin 4) (Fin 0) = Fin 0"
    by (rule fmul_Fin) (rule round32_is_zero; simp)
  have s14: "fsub (Fin 2) (Fin 0) = Fin 2"
    by (rule fsub_Fin) (rule round32_pos [where e = 1 and m = 8388608]; simp add: rne_int_def)
  have s15: "fsub (Fin 3) (Fin 0) = Fin 3"
    by (rule fsub_Fin) (rule round32_pos [where e = 1 and m = 12582912]; simp add: rne_int_def)
  have s16: "fmul (Fin 2) (Fin 3) = Fin 6"
    by (rule fmul_Fin) (rule round32_pos [where e = 2 and m = 12582912]; simp add: rne_int_def)
  have s17: "products_finite (Array3 (point3 0 0 0) (point3 4 0 1) (point3 2 3 2))"
    by (rule products_finite_steps [OF s11 s12 s13 s14 s15 s16])
  have s18: "float_vec3 (point3 0 0 5)"
    by (rule float_vec3_point3, (rule exact32_dyadic [where m = 0 and j = 0]; simp), (rule exact32_dyadic [where m = 0 and j = 0]; simp), (rule exact32_dyadic [where m = 5 and j = 0]; simp))
  have s19: "float_vec3 (point3 4 0 7)"
    by (rule float_vec3_point3, (rule exact32_dyadic [where m = 1 and j = 2]; simp), (rule exact32_dyadic [where m = 0 and j = 0]; simp), (rule exact32_dyadic [where m = 7 and j = 0]; simp))
  have s20: "float_vec3 (point3 2 3 9)"
    by (rule float_vec3_point3, (rule exact32_dyadic [where m = 1 and j = 1]; simp), (rule exact32_dyadic [where m = 3 and j = 0]; simp), (rule exact32_dyadic [where m = 9 and j = 0]; simp))
  have s21: "float_tri (Array3 (point3 0 0 5) (point3 4 0 7) (point3 2 3 9))"
    by (rule float_tri_point3 [OF s18 s19 s20])
  have s22: "float_vec3 (point3 0 0 1)"
    by (rule float_vec3_point3, (rule exact32_dyadic [where m = 0 and j = 0]; simp), (rule exact32_dyadic [where m = 0 and j = 0]; simp), (rule exact32_dyadic [where m = 1 and j = 0]; simp))
  have s23: "float_vec3 (point3 0 1 0)"
    by (rule float_vec3_point3, (rule exact32_dyadic [where m = 0 and j = 0]; simp), (rule exact32_dyadic [where m = 1 and j = 0]; simp), (rule exact32_dyadic [where m = 0 and j = 0]; simp))
  have s24: "float_vec3 (point3 1 0 0)"
    by (rule float_vec3_point3, (rule exact32_dyadic [where m = 1 and j = 0]; simp), (rule exact32_dyadic [where m = 0 and j = 0]; simp), (rule exact32_dyadic [where m = 0 and j = 0]; simp))
  have s25: "float_tri (Array3 (point3 0 0 1) (point3 0 1 0) (point3 1 0 0))"
    by (rule float_tri_point3 [OF s22 s23 s24])
  have s26: "float_vec3 (point3 1 0 0)"
    by (rule float_vec3_point3, (rule exact32_dyadic [where m = 1 and j = 0]; simp), (rule exact32_dyadic [where m = 0 and j = 0]; simp), (rule exact32_dyadic [where m = 0 and j = 0]; simp))
  have s27: "float_vec3 (point3 (1 / 2) (1 / 4) 1)"
    by (rule float_vec3_point3, (rule exact32_dyadic [where m = 1 and j = "- 1"]; simp), (rule exact32_dyadic [where m = 1 and j = "- 2"]; simp), (rule exact32_dyadic [where m = 1 and j = 0]; simp))
  have s28: "float_vec3 (point3 0 0 1)"
    by (rule float_vec3_point3, (rule exact32_dyadic [where m = 0 and j = 0]; simp), (rule exact32_dyadic [where m = 0 and j = 0]; simp), (rule exact32_dyadic [where m = 1 and j = 0]; simp))
  have s29: "float_tri (Array3 (point3 1 0 0) (point3 (1 / 2) (1 / 4) 1) (point3 0 0 1))"
    by (rule float_tri_point3 [OF s26 s27 s28])
  have nz: "(- 6::real) \<noteq> 0"
    by simp
  note th = barycentric_vertex_identity [OF s10 nz s17 s21 s25 s29,
    unfolded array3.sel vec2_of_xy_point3 vz_point3]
  show ?thesis
    by (rule conjI [OF s10 th])
qed

text \<open>
  C4, as stated, fails for the triangle (0,0), (2^64, 0), (0, 2^64), whose area overflows:
  the weights at V1 are (NaN, NaN, 0). It fails as well for the thin triangle
  (0,0), (1 + 2^-23, 1), (1, 1 - 2^-24), whose area is not zero and is computed as zero:
  the weights at V1 are all NaN.
\<close>

theorem barycentric_vertex_identity_counterexample:
  "finite_tri (Array3 (point3 0 0 0) (point3 18446744073709551616 0 0) (point3 0 18446744073709551616 0)) \<and>
   area_xy 0 0 18446744073709551616 0 0 18446744073709551616 \<noteq> 0 \<and>
   calculateSignedArea (Array3 (point3 0 0 0) (point3 18446744073709551616 0 0) (point3 0 18446744073709551616 0)) = MInf \<and>
   calculateBarycentricCoordinate (Array3 (point3 0 0 0) (point3 18446744073709551616 0 0) (point3 0 18446744073709551616 0)) \<lparr>px = Fin 18446744073709551616, py = Fin 0\<rparr> = \<lparr>vx = NaN, vy = NaN, vz = Fin 0\<rparr> \<and>
   finite_tri (Array3 (point3 0 0 0) (point3 (8388609 / 8388608) 1 0) (point3 1 (16777215 / 16777216) 0)) \<and>
   area_xy 0 0 (8388609 / 8388608) 1 1 (16777215 / 16777216) \<noteq> 0 \<and>
   calculateSignedArea (Array3 (point3 0 0 0) (point3 (8388609 / 8388608) 1 0) (point3 1 (16777215 / 16777216) 0)) = Fin 0 \<and>
   calculateBarycentricCoordinate (Array3 (point3 0 0 0) (point3 (8388609 / 8388608) 1 0) (point3 1 (16777215 / 16777216) 0)) \<lparr>px = Fin (8388609 / 8388608), py = Fin 1\<rparr> = \<lparr>vx = NaN, vy = NaN, vz = NaN\<rparr>"
proof -
  have s1: "fsub (Fin 0) (Fin 0) = Fin 0"
    by (rule fsub_Fin) (rule round32_is_zero; simp)
  have s2: "fsub (Fin 0) (Fin 0) = Fin 0"
    by (rule fsub_Fin) (rule round32_is_zero; simp)
  have s3: "fsub (Fin 18446744073709551616) (Fin 0) = Fin 18446744073709551616"
    by (rule fsub_Fin) (rule round32_pos [where e = 64 and m = 8388608]; simp add: rne_int_def)
  have s4: "fsub (Fin 18446744073709551616) (Fin 0) = Fin 18446744073709551616"
    by (rule fsub_Fin) (rule round32_pos [where e = 64 and m = 8388608]; simp add: rne_int_def)
  have s5: "fmul (Fin 0) (Fin 0) = Fin 0"
    by (rule fmul_Fin) (rule round32_is_zero; simp)
  have s6: "fmul (Fin 18446744073709551616) (Fin 18446744073709551616) = PInf"
    by (rule fmul_Fin) (rule round32_overflow; simp)
  have s7: "fsub (Fin 0) PInf = MInf"
    by (simp add: fsub_def fadd_def signed_inf_def)
  have s8: "dmul (Fin (1 / 2)) MInf = MInf"
    by (simp add: dmul_def signed_inf_def)
  have s9: "to_float MInf = MInf"
    by simp
  have s10: "calculateSignedArea (Array3 (point3 0 0 0) (point3 18446744073709551616 0 0) (point3 0 18446744073709551616 0)) = MInf"
    by (rule calculateSignedArea_steps [OF s1 s2 s3 s4 s5 s6 s7 s8 s9])
  have s11: "fsub (Fin 18446744073709551616) (Fin 0) = Fin 18446744073709551616"
    by (rule fsub_Fin) (rule round32_pos [where e = 64 and m = 8388608]; simp add: rne_int_def)
  have s12: "fsub (Fin 0) (Fin 0) = Fin 0"
    by (rule fsub_Fin) (rule round32_is_zero; simp)
  have s13: "fsub (Fin 18446744073709551616) (Fin 0) = Fin 18446744073709551616"
    by (rule fsub_Fin) (rule round32_pos [where e = 64 and m = 8388608]; simp add: rne_int_def)
  have s14: "fsub (Fin 0) (Fin 0) = Fin 0"
    by (rule fsub_Fin) (rule round32_is_zero; simp)
  have s15: "fmul (Fin 18446744073709551616) (Fin 0) = Fin 0"
    by (rule fmul_Fin) (rule round32_is_zero; simp)
  have s16: "fmul (Fin 18446744073709551616) (Fin 0) = Fin 0"
    by (rule fmul_Fin) (rule round32_is_zero; simp)
  have s17: "fsub (Fin 0) (Fin 0) = Fin 0"
    by (rule fsub_Fin) (rule round32_is_zero; simp)
  have s18: "dmul (Fin (1 / 2)) (Fin 0) = Fin 0"
    by (rule dmul_Fin) (rule round64_is_zero; simp)
  have s19: "to_float (Fin 0) = Fin 0"
    by (rule to_float_Fin) (rule round32_is_zero; simp)
  have s20: "calculateSignedArea (Array3 (point3 0 0 0) (point3 18446744073709551616 0 0) (point3 18446744073709551616 0 0)) = Fin 0"
    by (rule calculateSignedArea_steps [OF s11 s12 s13 s14 s15 s16 s17 s18 s19])
  have s21: "fsub (Fin 0) (Fin 0) = Fin 0"
    by (rule fsub_Fin) (rule round32_is_zero; simp)
  have s22: "fsub (Fin 0) (Fin 0) = Fin 0"
    by (rule fsub_Fin) (rule round32_is_zero; simp)
  have s23: "fsub (Fin 18446744073709551616) (Fin 0) = Fin 18446744073709551616"
    by (rule fsub_Fin) (rule round32_pos [where e = 64 and m = 8388608]; simp add: rne_int_def)
  have s24: "fsub (Fin 18446744073709551616) (Fin 0) = Fin 18446744073709551616"
    by (rule fsub_Fin) (rule round32_pos [where e = 64 and m = 8388608]; simp add: rne_int_def)
  have s25: "fmul (Fin 0) (Fin 0) = Fin 0"
    by (rule fmul_Fin) (rule round32_is_zero; simp)
  have s26: "fmul (Fin 18446744073709551616) (Fin 18446744073709551616) = PInf"
    by (rule fmul_Fin) (rule round32_overflow; simp)
  have s27: "fsub (Fin 0) PInf = MInf"
    by (simp add: fsub_def fadd_def signed_inf_def)
  have s28: "dmul (Fin (1 / 2)) MInf = MInf"
    by (simp add: dmul_def signed_inf_def)
  have s29: "to_float MInf = MInf"
    by simp
  have s30: "calculateSignedArea (Array3 (point3 0 0 0) (point3 18446744073709551616 0 0) (point3 0 18446744073709551616 0)) = MInf"
    by (rule calculateSignedArea_steps [OF s21 s22 s23 s24 s25 s26 s27 s28 s29])
  have s31: "fdiv MInf MInf = NaN"
    by (simp add: fdiv_def signed_inf_def)
  have s32: "fdiv (Fin 0) MInf = Fin 0"
    by (simp add: fdiv_def signed_inf_def)
  have s33: "dsub (Fin 1) NaN = NaN"
    by (simp add: dsub_def dadd_def signed_inf_def)
  have s34: "dsub NaN (Fin 0) = NaN"
    by (simp add: dsub_def dadd_def signed_inf_def)
  have s35: "to_float NaN = NaN"
    by simp
  have s36: "calculateBarycentricCoordinate (Array3 (point3 0 0 0) (point3 18446744073709551616 0 0) (point3 0 18446744073709551616 0)) \<lparr>px = Fin 18446744073709551616, py = Fin 0\<rparr> = \<lparr>vx = NaN, vy = NaN, vz = Fin 0\<rparr>"
    by (rule calculateBarycentricCoordinate_steps [OF s10 s20 s30 s31 s32 s33 s34 s35])
  have s37: "fsub (Fin 1) (Fin 0) = Fin 1"
    by (rule fsub_Fin) (rule round32_pos [where e = 0 and m = 8388608]; simp add: rne_int_def)
  have s38: "fsub (Fin 1) (Fin 0) = Fin 1"
    by (rule fsub_Fin) (rule round32_pos [where e = 0 and m = 8388608]; simp add: rne_int_def)
  have s39: "fsub (Fin (8388609 / 8388608)) (Fin 0) = Fin (8388609 / 8388608)"
    by (rule fsub_Fin) (rule round32_pos [where e = 0 and m = 8388609]; simp add: rne_int_def)
  have s40: "fsub (Fin (16777215 / 16777216)) (Fin 0) = Fin (16777215 / 16777216)"
    by (rule fsub_Fin) (rule round32_pos [where e = "- 1" and m = 16777215]; simp add: rne_int_def)
  have s41: "fmul (Fin 1) (Fin 1) = Fin 1"
    by (rule fmul_Fin) (rule round32_pos [where e = 0 and m = 8388608]; simp add: rne_int_def)
  have s42: "fmul (Fin (8388609 / 8388608)) (Fin (16777215 / 16777216)) = Fin 1"
    by (rule fmul_Fin) (rule round32_pos [where e = 0 and m = 8388608]; simp add: rne_int_def)
  have s43: "fsub (Fin 1) (Fin 1) = Fin 0"
    by (rule fsub_Fin) (rule round32_is_zero; simp)
  have s44: "dmul (Fin (1 / 2)) (Fin 0) = Fin 0"
    by (rule dmul_Fin) (rule round64_is_zero; simp)
  have s45: "to_float (Fin 0) = Fin 0"
    by (rule to_float_Fin) (rule round32_is_zero; simp)
  have s46: "calculateSignedArea (Array3 (point3 0 0 0) (point3 (8388609 / 8388608) 1 0) (point3 1 (16777215 / 16777216) 0)) = Fin 0"
    by (rule calculateSignedArea_steps [OF s37 s38 s39 s40 s41 s42 s43 s44 s45])
  have s47: "fsub (Fin (8388609 / 8388608)) (Fin 0) = Fin (8388609 / 8388608)"
    by (rule fsub_Fin) (rule round32_pos [where e = 0 and m = 8388609]; simp add: rne_int_def)
  have s48: "fsub (Fin 1) (Fin 0) = Fin 1"
    by (rule fsub_Fin) (rule round32_pos [where e = 0 and m = 8388608]; simp add: rne_int_def)
  have s49: "fsub (Fin (8388609 / 8388608)) (Fin 0) = Fin (8388609 / 8388608)"
    by (rule fsub_Fin) (rule round32_pos [where e = 0 and m = 8388609]; simp add: rne_int_def)
  have s50: "fsub (Fin 1) (Fin 0) = Fin 1"
    by (rule fsub_Fin) (rule round32_pos [where e = 0 and m = 8388608]; simp add: rne_int_def)
  have s51: "fmul (Fin (8388609 / 8388608)) (Fin 1) = Fin (8388609 / 8388608)"
    by (rule fmul_Fin) (rule round32_pos [where e = 0 and m = 8388609]; simp add: rne_int_def)
  have s52: "fmul (Fin (8388609 / 8388608)) (Fin 1) = Fin (8388609 / 8388608)"
    by (rule fmul_Fin) (rule round32_pos [where e = 0 and m = 8388609]; simp add: rne_int_def)
  have s53: "fsub (Fin (8388609 / 8388608)) (Fin (8388609 / 8388608)) = Fin 0"
    by (rule fsub_Fin) (rule round32_is_zero; simp)
  have s54: "dmul (Fin (1 / 2)) (Fin 0) = Fin 0"
    by (rule dmul_Fin) (rule round64_is_zero; simp)
  have s55: "to_float (Fin 0) = Fin 0"
    by (rule to_float_Fin) (rule round32_is_zero; simp)
  have s56: "calculateSignedArea (Array3 (point3 0 0 0) (point3 (8388609 / 8388608) 1 0) (point3 (8388609 / 8388608) 1 0)) = Fin 0"
    by (rule calculateSignedArea_steps [OF s47 s48 s49 s50 s51 s52 s53 s54 s55])
  have s57: "fsub (Fin 1) (Fin 0) = Fin 1"
    by (rule fsub_Fin) (rule round32_pos [where e = 0 and m = 8388608]; simp add: rne_int_def)
  have s58: "fsub (Fin 1) (Fin 0) = Fin 1"
    by (rule fsub_Fin) (rule round32_pos [where e = 0 and m = 8388608]; simp add: rne_int_def)
  have s59: "fsub (Fin (8388609 / 8388608)) (Fin 0) = Fin (8388609 / 8388608)"
    by (rule fsub_Fin) (rule round32_pos [where e = 0 and m = 8388609]; simp add: rne_int_def)
  have s60: "fsub (Fin (16777215 / 16777216)) (Fin 0) = Fin (16777215 / 16777216)"
    by (rule fsub_Fin) (rule round32_pos [where e = "- 1" and m = 16777215]; simp add: rne_int_def)
  have s61: "fmul (Fin 1) (Fin 1) = Fin 1"
    by (rule fmul_Fin) (rule round32_pos [where e = 0 and m = 8388608]; simp add: rne_int_def)
  have s62: "fmul (Fin (8388609 / 8388608)) (Fin (16777215 / 16777216)) = Fin 1"
    by (rule fmul_Fin) (rule round32_pos [where e = 0 and m = 8388608]; simp add: rne_int_def)
  have s63: "fsub (Fin 1) (Fin 1) = Fin 0"
    by (rule fsub_Fin) (rule round32_is_zero; simp)
  have s64: "dmul (Fin (1 / 2)) (Fin 0) = Fin 0"
    by (rule dmul_Fin) (rule round64_is_zero; simp)
  have s65: "to_float (Fin 0) = Fin 0"
    by (rule to_float_Fin) (rule round32_is_zero; simp)
  have s66: "calculateSignedArea (Array3 (point3 0 0 0) (point3 (8388609 / 8388608) 1 0) (point3 1 (16777215 / 16777216) 0)) = Fin 0"
    by (rule calculateSignedArea_steps [OF s57 s58 s59 s60 s61 s62 s63 s64 s65])
  have s67: "fdiv (Fin 0) (Fin 0) = NaN"
    by (simp add: fdiv_def signed_inf_def)
  have s68: "fdiv (Fin 0) (Fin 0) = NaN"
    by (simp add: fdiv_def signed_inf_def)
  have s69: "dsub (Fin 1) NaN = NaN"
    by (simp add: dsub_def dadd_def signed_inf_def)
  have s70: "dsub NaN NaN = NaN"
    by (simp add: dsub_def dadd_def signed_inf_def)
  have s71: "to_float NaN = NaN"
    by simp
  have s72: "calculateBarycentricCoordinate (Array3 (point3 0 0 0) (point3 (8388609 / 8388608) 1 0) (point3 1 (16777215 / 16777216) 0)) \<lparr>px = Fin (8388609 / 8388608), py = Fin 1\<rparr> = \<lparr>vx = NaN, vy = NaN, vz = NaN\<rparr>"
    by (rule calculateBarycentricCoordinate_steps [OF s46 s56 s66 s67 s68 s69 s70 s71])
  show ?thesis
  proof (intro conjI)
    show "finite_tri (Array3 (point3 0 0 0) (point3 18446744073709551616 0 0) (point3 0 18446744073709551616 0))"
      by (rule finite_tri_point3)
    show "area_xy 0 0 18446744073709551616 0 0 18446744073709551616 \<noteq> 0"
      by (simp add: area_xy_def)
    show "calculateSignedArea (Array3 (point3 0 0 0) (point3 18446744073709551616 0 0) (point3 0 18446744073709551616 0)) = MInf"
      by (rule s30)
    show "calculateBarycentricCoordinate (Array3 (point3 0 0 0) (point3 18446744073709551616 0 0) (point3 0 18446744073709551616 0)) \<lparr>px = Fin 18446744073709551616, py = Fin 0\<rparr> = \<lparr>vx = NaN, vy = NaN, vz = Fin 0\<rparr>"
      by (rule s36)
    show "finite_tri (Array3 (point3 0 0 0) (point3 (8388609 / 8388608) 1 0) (point3 1 (16777215 / 16777216) 0))"
      by (rule finite_tri_point3)
    show "area_xy 0 0 (8388609 / 8388608) 1 1 (16777215 / 16777216) \<noteq> 0"
      by (simp add: area_xy_def)
    show "calculateSignedArea (Array3 (point3 0 0 0) (point3 (8388609 / 8388608) 1 0) (point3 1 (16777215 / 16777216) 0)) = Fin 0"
      by (rule s66)
    show "calculateBarycentricCoordinate (Array3 (point3 0 0 0) (point3 (8388609 / 8388608) 1 0) (point3 1 (16777215 / 16777216) 0)) \<lparr>px = Fin (8388609 / 8388608), py = Fin 1\<rparr> = \<lparr>vx = NaN, vy = NaN, vz = NaN\<rparr>"
      by (rule s72)
  qed
qed

section \<open>Depth\<close>

lemma round32_error_tight:
  assumes "round32 x = Fin r"
  shows "\<bar>r - x\<bar> \<le> 2 powi (- 24) * \<bar>x\<bar> + 2 powi (- 150)"
  using round_to_error [of 24 127 x r] assms by (simp add: round32_def)

lemma weighted_abs:
  assumes "0 \<le> (a::real)" "\<bar>z\<bar> \<le> M"
  shows "\<bar>a * z\<bar> \<le> a * M"
proof -
  have "\<bar>a * z\<bar> = a * \<bar>z\<bar>" using assms(1) by (simp add: abs_mult)
  also have "\<dots> \<le> a * M" by (rule mult_left_mono [OF assms(2) assms(1)])
  finally show ?thesis .
qed

lemma getZ_parts:
  assumes "getZAtCoordinate \<lparr>vx = Fin a, vy = Fin b, vz = Fin c\<rparr>
             (Array3 (point3 x0 y0 z0) (point3 x1 y1 z1) (point3 x2 y2 z2)) = Fin r"
  obtains P0 P1 P2 S where "round32 (a * z0) = Fin P0" "round32 (b * z1) = Fin P1"
    "round32 (c * z2) = Fin P2" "round32 (P0 + P1) = Fin S" "round32 (S + P2) = Fin r"
proof -
  from assms have R: "fadd (fadd (round32 (a * z0)) (round32 (b * z1))) (round32 (c * z2)) = Fin r"
    by (simp add: getZAtCoordinate_def point3_def fmul_def)
  then have "isfinite (fadd (fadd (round32 (a * z0)) (round32 (b * z1))) (round32 (c * z2)))"
    by simp
  then have f: "isfinite (fadd (round32 (a * z0)) (round32 (b * z1)))" "isfinite (round32 (c * z2))"
    unfolding fadd_def by (blast dest: isfinite_add_with)+
  from f(1) have "isfinite (round32 (a * z0))" "isfinite (round32 (b * z1))"
    unfolding fadd_def by (blast dest: isfinite_add_with)+
  with f(2) obtain P0 P1 P2 where P: "round32 (a * z0) = Fin P0" "round32 (b * z1) = Fin P1"
    "round32 (c * z2) = Fin P2"
    unfolding isfinite_conv by blast
  from f(1) obtain S where S: "round32 (P0 + P1) = Fin S"
    unfolding P isfinite_conv by (auto simp: fadd_def)
  from R have "round32 (S + P2) = Fin r"
    unfolding P by (simp add: fadd_def S)
  with P S show ?thesis by (rule that)
qed

lemma weighted_sum_error:
  assumes w: "0 \<le> a" "0 \<le> b" "0 \<le> c" "a + b + c = 1"
    and m: "\<bar>z0\<bar> \<le> M" "\<bar>z1\<bar> \<le> M" "\<bar>z2\<bar> \<le> M"
    and p: "round32 (a * z0) = Fin P0" "round32 (b * z1) = Fin P1" "round32 (c * z2) = Fin P2"
  shows "\<bar>P0 + P1\<bar> \<le> 16777217 / 16777216 * M + 2 * 2 powi (- 150)"
    and "round32 (P0 + P1) = Fin S \<Longrightarrow>
         \<bar>S + P2\<bar> \<le> 4194305 / 4194304 * M + 5 * 2 powi (- 150)"
    and "round32 (P0 + P1) = Fin S \<Longrightarrow> round32 (S + P2) = Fin r \<Longrightarrow>
         \<bar>r - (a * z0 + b * z1 + c * z2)\<bar> \<le> 2 powi (- 22) * M + 2 powi (- 147)"
proof -
  define E :: real where "E = 2 powi (- 150)"
  define A0 where "A0 = \<bar>a * z0\<bar>"
  define A1 where "A1 = \<bar>b * z1\<bar>"
  define A2 where "A2 = \<bar>c * z2\<bar>"
  define X0 where "X0 = \<bar>P0 - a * z0\<bar>"
  define X1 where "X1 = \<bar>P1 - b * z1\<bar>"
  define X2 where "X2 = \<bar>P2 - c * z2\<bar>"
  define Y1 where "Y1 = \<bar>P0 + P1\<bar>"
  have E0: "0 \<le> E" by (simp add: E_def)
  have "0 \<le> \<bar>z0\<bar>" by simp
  with m(1) have M0: "0 \<le> M" by linarith
  have "A0 \<le> a * M" "A1 \<le> b * M" "A2 \<le> c * M"
    unfolding A0_def A1_def A2_def using w m by (simp_all add: weighted_abs)
  moreover have "a * M + b * M + c * M = M"
    using w(4) by (simp add: distrib_right [symmetric])
  ultimately have A: "A0 + A1 + A2 \<le> M" by linarith
  have An: "0 \<le> A0" "0 \<le> A1" "0 \<le> A2" by (simp_all add: A0_def A1_def A2_def)
  have e0: "X0 \<le> 1 / 16777216 * A0 + E"
    using round32_error_tight [OF p(1)] by (simp add: X0_def A0_def E_def)
  have e1: "X1 \<le> 1 / 16777216 * A1 + E"
    using round32_error_tight [OF p(2)] by (simp add: X1_def A1_def E_def)
  have e2: "X2 \<le> 1 / 16777216 * A2 + E"
    using round32_error_tight [OF p(3)] by (simp add: X2_def A2_def E_def)
  have t1: "Y1 \<le> A0 + X0 + A1 + X1"
    unfolding Y1_def A0_def A1_def X0_def X1_def by linarith
  have y1: "Y1 \<le> 16777217 / 16777216 * M + 2 * E"
    using t1 e0 e1 A An M0 by linarith
  then show "\<bar>P0 + P1\<bar> \<le> 16777217 / 16777216 * M + 2 * 2 powi (- 150)"
    by (simp add: Y1_def E_def)
  {
    assume s: "round32 (P0 + P1) = Fin S"
    define XS where "XS = \<bar>S - (P0 + P1)\<bar>"
    define Y2 where "Y2 = \<bar>S + P2\<bar>"
    have es: "XS \<le> 1 / 16777216 * Y1 + E"
      using round32_error_tight [OF s] by (simp add: XS_def Y1_def E_def)
    have t2: "Y2 \<le> A0 + X0 + A1 + X1 + XS + A2 + X2"
      unfolding Y2_def A0_def A1_def A2_def X0_def X1_def X2_def XS_def by linarith
    have y2: "Y2 \<le> 4194305 / 4194304 * M + 5 * E"
      using t2 es y1 e0 e1 e2 A An M0 E0 by linarith
    then show "\<bar>S + P2\<bar> \<le> 4194305 / 4194304 * M + 5 * 2 powi (- 150)"
      by (simp add: Y2_def E_def)
    {
      assume r: "round32 (S + P2) = Fin r"
      define XR where "XR = \<bar>r - (S + P2)\<bar>"
      define G where "G = \<bar>r - (a * z0 + b * z1 + c * z2)\<bar>"
      have er: "XR \<le> 1 / 16777216 * Y2 + E"
        using round32_error_tight [OF r] by (simp add: XR_def Y2_def E_def)
      have t3: "G \<le> XR + XS + X0 + X1 + X2"
        unfolding G_def XR_def XS_def X0_def X1_def X2_def by linarith
      have "G \<le> 1 / 4194304 * M + 8 * E"
        using t3 er es y1 y2 e0 e1 e2 A An M0 E0 by linarith
      moreover have "8 * E = 2 powi (- 147)"
        unfolding E_def by (simp add: power_int_minus)
      ultimately show "\<bar>r - (a * z0 + b * z1 + c * z2)\<bar> \<le> 2 powi (- 22) * M + 2 powi (- 147)"
        by (simp add: G_def)
    }
  }
qed

lemma weighted_sum_finite:
  assumes w: "0 \<le> a" "0 \<le> b" "0 \<le> c" "a + b + c = 1"
    and m: "\<bar>z0\<bar> \<le> M" "\<bar>z1\<bar> \<le> M" "\<bar>z2\<bar> \<le> M" and M: "M \<le> 2 powi 126"
  shows "isfinite (getZAtCoordinate \<lparr>vx = Fin a, vy = Fin b, vz = Fin c\<rparr>
           (Array3 (point3 x0 y0 z0) (point3 x1 y1 z1) (point3 x2 y2 z2)))"
proof -
  have M': "M \<le> 85070591730234615865843651857942052864"
    using M by simp
  have E: "(2::real) powi (- 150) \<le> 1"
    by (simp add: power_int_minus field_simps)
  have top: "(2::real) powi 127 = 170141183460469231731687303715884105728"
    by simp
  have "0 \<le> \<bar>z0\<bar>" by simp
  with m(1) have M0: "0 \<le> M" by linarith
  have u: "a \<le> 1" "b \<le> 1" "c \<le> 1" using w by linarith+
  have "\<bar>a * z0\<bar> \<le> a * M" "\<bar>b * z1\<bar> \<le> b * M" "\<bar>c * z2\<bar> \<le> c * M"
    using w m by (simp_all add: weighted_abs)
  moreover have "a * M \<le> 1 * M" "b * M \<le> 1 * M" "c * M \<le> 1 * M"
    by (rule mult_right_mono [OF u(1) M0], rule mult_right_mono [OF u(2) M0],
        rule mult_right_mono [OF u(3) M0])
  ultimately have "\<bar>a * z0\<bar> \<le> 2 powi 127" "\<bar>b * z1\<bar> \<le> 2 powi 127" "\<bar>c * z2\<bar> \<le> 2 powi 127"
    unfolding top using M' by linarith+
  then have "isfinite (round32 (a * z0))" "isfinite (round32 (b * z1))" "isfinite (round32 (c * z2))"
    by (simp_all only: round32_finite)
  then obtain P0 P1 P2 where p: "round32 (a * z0) = Fin P0" "round32 (b * z1) = Fin P1"
    "round32 (c * z2) = Fin P2"
    unfolding isfinite_conv by blast
  note err = weighted_sum_error [OF w m p]
  from err(1) have "\<bar>P0 + P1\<bar> \<le> 2 powi 127"
    unfolding top using M' M0 E by linarith
  then have "isfinite (round32 (P0 + P1))" by (rule round32_finite)
  then obtain S where s: "round32 (P0 + P1) = Fin S"
    unfolding isfinite_conv by blast
  from err(2) [OF s] have "\<bar>S + P2\<bar> \<le> 2 powi 127"
    unfolding top using M' M0 E by linarith
  then have "isfinite (round32 (S + P2))" by (rule round32_finite)
  then show ?thesis
    by (simp add: getZAtCoordinate_def point3_def fmul_def fadd_def p s)
qed

lemma convex_combination:
  assumes "0 \<le> (a::real)" "0 \<le> b" "0 \<le> c" "a + b + c = 1"
  shows "min (min z0 z1) z2 \<le> a * z0 + b * z1 + c * z2"
    and "a * z0 + b * z1 + c * z2 \<le> max (max z0 z1) z2"
proof -
  define lo where "lo = min (min z0 z1) z2"
  define hi where "hi = max (max z0 z1) z2"
  have "a * lo \<le> a * z0" "b * lo \<le> b * z1" "c * lo \<le> c * z2"
    using assms by (simp_all add: lo_def mult_left_mono)
  then have "(a + b + c) * lo \<le> a * z0 + b * z1 + c * z2"
    by (simp add: algebra_simps)
  then show "min (min z0 z1) z2 \<le> a * z0 + b * z1 + c * z2"
    by (simp add: assms(4) lo_def)
  have "a * z0 \<le> a * hi" "b * z1 \<le> b * hi" "c * z2 \<le> c * hi"
    using assms by (simp_all add: hi_def mult_left_mono)
  then have "a * z0 + b * z1 + c * z2 \<le> (a + b + c) * hi"
    by (simp add: algebra_simps)
  then show "a * z0 + b * z1 + c * z2 \<le> max (max z0 z1) z2"
    by (simp add: assms(4) hi_def)
qed

lemma depth_range:
  fixes a b c x0 y0 z0 x1 y1 z1 x2 y2 z2 :: real
  assumes w: "0 \<le> a" "0 \<le> b" "0 \<le> c" "a + b + c = 1"
  defines "t \<equiv> Array3 (point3 x0 y0 z0) (point3 x1 y1 z1) (point3 x2 y2 z2)"
  defines "wt \<equiv> \<lparr>vx = Fin a, vy = Fin b, vz = Fin c\<rparr>"
  shows "depth_sum_exact wt t \<Longrightarrow>
           fle (vz (aabb_min (getAABBForTriangle t))) (getZAtCoordinate wt t) \<and>
           fle (getZAtCoordinate wt t) (vz (aabb_max (getAABBForTriangle t)))"
    and "getZAtCoordinate wt t = Fin r \<Longrightarrow>
           fval (vz (aabb_min (getAABBForTriangle t))) - depth_error t \<le> r \<and>
           r \<le> fval (vz (aabb_max (getAABBForTriangle t))) + depth_error t"
    and "depth_magnitude t \<le> 2 powi 126 \<Longrightarrow> isfinite (getZAtCoordinate wt t)"
proof -
  define M where "M = max (max \<bar>z0\<bar> \<bar>z1\<bar>) \<bar>z2\<bar>"
  have m: "\<bar>z0\<bar> \<le> M" "\<bar>z1\<bar> \<le> M" "\<bar>z2\<bar> \<le> M" by (simp_all add: M_def)
  have dm: "depth_magnitude t = M" by (simp add: depth_magnitude_def t_def M_def point3_def)
  have box: "vz (aabb_min (getAABBForTriangle t)) = Fin (min (min z0 z1) z2)"
    "vz (aabb_max (getAABBForTriangle t)) = Fin (max (max z0 z1) z2)"
    unfolding t_def getAABB_point3 by (simp_all add: point3_def)
  note cc = convex_combination [OF w, of z0 z1 z2]
  {
    assume "depth_sum_exact wt t"
    then have e: "exact32 (a * z0)" "exact32 (b * z1)" "exact32 (c * z2)"
      "exact32 (a * z0 + b * z1)" "exact32 (a * z0 + b * z1 + c * z2)"
      by (simp_all add: depth_sum_exact_def Let_def wt_def t_def point3_def)
    have z: "getZAtCoordinate wt t = Fin (a * z0 + b * z1 + c * z2)"
      unfolding getZAtCoordinate_def t_def wt_def
      by (simp add: point3_def fmul_exact [OF e(1)] fmul_exact [OF e(2)] fmul_exact [OF e(3)]
          fadd_exact [OF e(4)] fadd_exact [OF e(5)])
    from cc show "fle (vz (aabb_min (getAABBForTriangle t))) (getZAtCoordinate wt t) \<and>
           fle (getZAtCoordinate wt t) (vz (aabb_max (getAABBForTriangle t)))"
      unfolding z box by simp
  }
  {
    assume "getZAtCoordinate wt t = Fin r"
    then obtain P0 P1 P2 S where p: "round32 (a * z0) = Fin P0" "round32 (b * z1) = Fin P1"
      "round32 (c * z2) = Fin P2" and s: "round32 (P0 + P1) = Fin S" and r: "round32 (S + P2) = Fin r"
      unfolding wt_def t_def by (rule getZ_parts)
    from weighted_sum_error(3) [OF w m p s r]
    have "\<bar>r - (a * z0 + b * z1 + c * z2)\<bar> \<le> depth_error t"
      by (simp add: depth_error_def dm)
    with cc show "fval (vz (aabb_min (getAABBForTriangle t))) - depth_error t \<le> r \<and>
           r \<le> fval (vz (aabb_max (getAABBForTriangle t))) + depth_error t"
      unfolding box fval.simps by linarith
  }
  {
    assume "depth_magnitude t \<le> 2 powi 126"
    then have "M \<le> 2 powi 126" by (simp add: dm)
    from weighted_sum_finite [OF w m this] show "isfinite (getZAtCoordinate wt t)"
      unfolding wt_def t_def .
  }
qed

lemma getZAtCoordinate_steps:
  assumes "fmul a (Fin z0) = p0" "fmul b (Fin z1) = p1" "fmul c (Fin z2) = p2"
    "fadd p0 p1 = s" "fadd s p2 = r"
  shows "getZAtCoordinate \<lparr>vx = a, vy = b, vz = c\<rparr>
           (Array3 (point3 x0 y0 z0) (point3 x1 y1 z1) (point3 x2 y2 z2)) = r"
  using assms by (simp add: getZAtCoordinate_def point3_def)

lemma depth_sum_exact_steps:
  assumes "exact32 (a * z0)" "exact32 (b * z1)" "exact32 (c * z2)" "exact32 (a * z0 + b * z1)"
    "exact32 (a * z0 + b * z1 + c * z2)"
  shows "depth_sum_exact \<lparr>vx = Fin a, vy = Fin b, vz = Fin c\<rparr>
           (Array3 (point3 x0 y0 z0) (point3 x1 y1 z1) (point3 x2 y2 z2))"
  using assms by (simp add: depth_sum_exact_def point3_def)

text \<open>
  C10, as amended. For every triangle with finite coordinates and every barycentric
  coordinate whose three weights lie in [0,1] and sum to 1, \<^verbatim>\<open>getZAtCoordinate\<close>
  returns a value between the z component of the min corner and the z component of the
  max corner of \<^verbatim>\<open>getAABBForTriangle\<close>, which are the least and the greatest of the
  three z components, up to rounding error: a result that is a number lies in that
  interval widened on each side by 2^-22 times the greatest magnitude of the three z
  components plus 2^-147; the result is a number when that magnitude is at most 2^126;
  and it lies in the interval itself when the three products and two sums are computed
  without rounding error.
\<close>

theorem getZAtCoordinate_within_depth_range:
  assumes "isBarycentricCoordInBounds b"
    and "fval (vx b) + fval (vy b) + fval (vz b) = 1"
    and "finite_tri tri"
  shows "is_least (vz (aabb_min (getAABBForTriangle tri))) (map vz (elems tri)) \<and>
         is_greatest (vz (aabb_max (getAABBForTriangle tri))) (map vz (elems tri)) \<and>
         (getZAtCoordinate b tri = Fin r \<longrightarrow>
            fval (vz (aabb_min (getAABBForTriangle tri))) - depth_error tri \<le> r \<and>
            r \<le> fval (vz (aabb_max (getAABBForTriangle tri))) + depth_error tri) \<and>
         (depth_magnitude tri \<le> 2 powi 126 \<longrightarrow> isfinite (getZAtCoordinate b tri)) \<and>
         (depth_sum_exact b tri \<longrightarrow>
            fle (vz (aabb_min (getAABBForTriangle tri))) (getZAtCoordinate b tri) \<and>
            fle (getZAtCoordinate b tri) (vz (aabb_max (getAABBForTriangle tri))))"
proof -
  from assms(3) obtain x0 y0 z0 x1 y1 z1 x2 y2 z2 where
    t: "tri = Array3 (point3 x0 y0 z0) (point3 x1 y1 z1) (point3 x2 y2 z2)"
    by (rule finite_triE)
  from assms(1) have "in_unit_interval (vx b)" "in_unit_interval (vy b)" "in_unit_interval (vz b)"
    by (simp_all add: in_bounds_weights)
  then obtain \<alpha> \<beta> \<gamma> where
    w: "vx b = Fin \<alpha>" "vy b = Fin \<beta>" "vz b = Fin \<gamma>"
    and r: "0 \<le> \<alpha>" "0 \<le> \<beta>" "0 \<le> \<gamma>"
    by (cases "vx b"; cases "vy b"; cases "vz b") simp_all
  from assms(2) have s: "\<alpha> + \<beta> + \<gamma> = 1" by (simp add: w)
  have b: "b = \<lparr>vx = Fin \<alpha>, vy = Fin \<beta>, vz = Fin \<gamma>\<rparr>"
    using w by (cases b) simp
  note d = depth_range [OF r s, where ?x0.0 = x0 and ?y0.0 = y0 and ?z0.0 = z0 and ?x1.0 = x1
    and ?y1.0 = y1 and ?z1.0 = z1 and ?x2.0 = x2 and ?y2.0 = y2 and ?z2.0 = z2, folded t b]
  from d aabb_extremes(3,6) [OF assms(3)] show ?thesis by blast
qed

text \<open>
  The weights (1/4, 1/4, 1/2) and the depths 0, 4 and 8.
\<close>

theorem getZAtCoordinate_within_depth_range_witness:
  "isBarycentricCoordInBounds \<lparr>vx = Fin (1 / 4), vy = Fin (1 / 4), vz = Fin (1 / 2)\<rparr> \<and>
   getZAtCoordinate \<lparr>vx = Fin (1 / 4), vy = Fin (1 / 4), vz = Fin (1 / 2)\<rparr> (Array3 (point3 0 0 0) (point3 4 0 4) (point3 2 3 8)) = Fin 5 \<and>
   vz (aabb_min (getAABBForTriangle (Array3 (point3 0 0 0) (point3 4 0 4) (point3 2 3 8)))) = Fin 0 \<and>
   vz (aabb_max (getAABBForTriangle (Array3 (point3 0 0 0) (point3 4 0 4) (point3 2 3 8)))) = Fin 8 \<and>
   fle (Fin 0) (getZAtCoordinate \<lparr>vx = Fin (1 / 4), vy = Fin (1 / 4), vz = Fin (1 / 2)\<rparr> (Array3 (point3 0 0 0) (point3 4 0 4) (point3 2 3 8))) \<and>
   fle (getZAtCoordinate \<lparr>vx = Fin (1 / 4), vy = Fin (1 / 4), vz = Fin (1 / 2)\<rparr> (Array3 (point3 0 0 0) (point3 4 0 4) (point3 2 3 8))) (Fin 8) \<and>
   isfinite (getZAtCoordinate \<lparr>vx = Fin (1 / 4), vy = Fin (1 / 4), vz = Fin (1 / 2)\<rparr> (Array3 (point3 0 0 0) (point3 4 0 4) (point3 2 3 8))) \<and>
   0 - depth_error (Array3 (point3 0 0 0) (point3 4 0 4) (point3 2 3 8)) \<le> 5 \<and>
   5 \<le> 8 + depth_error (Array3 (point3 0 0 0) (point3 4 0 4) (point3 2 3 8)) \<and>
   getZAtCoordinate \<lparr>vx = Fin (5033165 / 16777216), vy = Fin (1 / 4), vz = Fin (7549747 / 16777216)\<rparr> (Array3 (point3 0 0 (13421773 / 134217728)) (point3 1 0 (13421773 / 134217728)) (point3 0 1 (13421773 / 134217728))) = Fin (3355443 / 33554432) \<and>
   13421773 / 134217728 - depth_error (Array3 (point3 0 0 (13421773 / 134217728)) (point3 1 0 (13421773 / 134217728)) (point3 0 1 (13421773 / 134217728))) \<le> 3355443 / 33554432"
proof -
  have s1: "exact32 ((1 / 4) * 0)"
    by (rule exact32_dyadic [where m = 0 and j = 0]; simp)
  have s2: "exact32 ((1 / 4) * 4)"
    by (rule exact32_dyadic [where m = 1 and j = 0]; simp)
  have s3: "exact32 ((1 / 2) * 8)"
    by (rule exact32_dyadic [where m = 1 and j = 2]; simp)
  have s4: "exact32 ((1 / 4) * 0 + (1 / 4) * 4)"
    by (rule exact32_dyadic [where m = 1 and j = 0]; simp)
  have s5: "exact32 ((1 / 4) * 0 + (1 / 4) * 4 + (1 / 2) * 8)"
    by (rule exact32_dyadic [where m = 5 and j = 0]; simp)
  have s6: "depth_sum_exact \<lparr>vx = Fin (1 / 4), vy = Fin (1 / 4), vz = Fin (1 / 2)\<rparr> (Array3 (point3 0 0 0) (point3 4 0 4) (point3 2 3 8))"
    by (rule depth_sum_exact_steps [OF s1 s2 s3 s4 s5])
  have s7: "isBarycentricCoordInBounds \<lparr>vx = Fin (1 / 4), vy = Fin (1 / 4), vz = Fin (1 / 2)\<rparr>"
    by (simp add: isBarycentricCoordInBounds_def fge_def)
  have s8: "fval (vx \<lparr>vx = Fin (1 / 4), vy = Fin (1 / 4), vz = Fin (1 / 2)\<rparr>) + fval (vy \<lparr>vx = Fin (1 / 4), vy = Fin (1 / 4), vz = Fin (1 / 2)\<rparr>) + fval (vz \<lparr>vx = Fin (1 / 4), vy = Fin (1 / 4), vz = Fin (1 / 2)\<rparr>) = 1"
    by simp
  have s9: "fmul (Fin (1 / 4)) (Fin 0) = Fin 0"
    by (rule fmul_Fin) (rule round32_is_zero; simp)
  have s10: "fmul (Fin (1 / 4)) (Fin 4) = Fin 1"
    by (rule fmul_Fin) (rule round32_pos [where e = 0 and m = 8388608]; simp add: rne_int_def)
  have s11: "fmul (Fin (1 / 2)) (Fin 8) = Fin 4"
    by (rule fmul_Fin) (rule round32_pos [where e = 2 and m = 8388608]; simp add: rne_int_def)
  have s12: "fadd (Fin 0) (Fin 1) = Fin 1"
    by (rule fadd_Fin) (rule round32_pos [where e = 0 and m = 8388608]; simp add: rne_int_def)
  have s13: "fadd (Fin 1) (Fin 4) = Fin 5"
    by (rule fadd_Fin) (rule round32_pos [where e = 2 and m = 10485760]; simp add: rne_int_def)
  have s14: "getZAtCoordinate \<lparr>vx = Fin (1 / 4), vy = Fin (1 / 4), vz = Fin (1 / 2)\<rparr> (Array3 (point3 0 0 0) (point3 4 0 4) (point3 2 3 8)) = Fin 5"
    by (rule getZAtCoordinate_steps [OF s9 s10 s11 s12 s13])
  have s15: "getAABBForTriangle (Array3 (point3 0 0 0) (point3 4 0 4) (point3 2 3 8)) = \<lparr>aabb_min = point3 0 0 0, aabb_max = point3 4 3 8\<rparr>"
    by (simp add: getAABB_point3)
  have s16: "isBarycentricCoordInBounds \<lparr>vx = Fin (5033165 / 16777216), vy = Fin (1 / 4), vz = Fin (7549747 / 16777216)\<rparr>"
    by (simp add: isBarycentricCoordInBounds_def fge_def)
  have s17: "fval (vx \<lparr>vx = Fin (5033165 / 16777216), vy = Fin (1 / 4), vz = Fin (7549747 / 16777216)\<rparr>) + fval (vy \<lparr>vx = Fin (5033165 / 16777216), vy = Fin (1 / 4), vz = Fin (7549747 / 16777216)\<rparr>) + fval (vz \<lparr>vx = Fin (5033165 / 16777216), vy = Fin (1 / 4), vz = Fin (7549747 / 16777216)\<rparr>) = 1"
    by simp
  have s18: "fmul (Fin (5033165 / 16777216)) (Fin (13421773 / 134217728)) = Fin (1006633 / 33554432)"
    by (rule fmul_Fin) (rule round32_pos [where e = "- 6" and m = 16106128]; simp add: rne_int_def)
  have s19: "fmul (Fin (1 / 4)) (Fin (13421773 / 134217728)) = Fin (13421773 / 536870912)"
    by (rule fmul_Fin) (rule round32_pos [where e = "- 6" and m = 13421773]; simp add: rne_int_def)
  have s20: "fmul (Fin (7549747 / 16777216)) (Fin (13421773 / 134217728)) = Fin (12079595 / 268435456)"
    by (rule fmul_Fin) (rule round32_pos [where e = "- 5" and m = 12079595]; simp add: rne_int_def)
  have s21: "fadd (Fin (1006633 / 33554432)) (Fin (13421773 / 536870912)) = Fin (7381975 / 134217728)"
    by (rule fadd_Fin) (rule round32_pos [where e = "- 5" and m = 14763950]; simp add: rne_int_def)
  have s22: "fadd (Fin (7381975 / 134217728)) (Fin (12079595 / 268435456)) = Fin (3355443 / 33554432)"
    by (rule fadd_Fin) (rule round32_pos [where e = "- 4" and m = 13421772]; simp add: rne_int_def)
  have s23: "getZAtCoordinate \<lparr>vx = Fin (5033165 / 16777216), vy = Fin (1 / 4), vz = Fin (7549747 / 16777216)\<rparr> (Array3 (point3 0 0 (13421773 / 134217728)) (point3 1 0 (13421773 / 134217728)) (point3 0 1 (13421773 / 134217728))) = Fin (3355443 / 33554432)"
    by (rule getZAtCoordinate_steps [OF s18 s19 s20 s21 s22])
  have s24: "getAABBForTriangle (Array3 (point3 0 0 (13421773 / 134217728)) (point3 1 0 (13421773 / 134217728)) (point3 0 1 (13421773 / 134217728))) = \<lparr>aabb_min = point3 0 0 (13421773 / 134217728), aabb_max = point3 1 1 (13421773 / 134217728)\<rparr>"
    by (simp add: getAABB_point3)
  have s25: "depth_magnitude (Array3 (point3 0 0 0) (point3 4 0 4) (point3 2 3 8)) = 8"
    by (simp add: depth_magnitude_def point3_def)
  note th = getZAtCoordinate_within_depth_range
    [where tri = "Array3 (point3 0 0 0) (point3 4 0 4) (point3 2 3 8)" and r = 5, OF s7 s8 finite_tri_point3]
  note th2 = getZAtCoordinate_within_depth_range
    [where tri = "Array3 (point3 0 0 (13421773 / 134217728)) (point3 1 0 (13421773 / 134217728)) (point3 0 1 (13421773 / 134217728))" and r = "3355443 / 33554432", OF s16 s17 finite_tri_point3]
  from th s7 s14 s6 s25 have a: "fle (Fin 0) (getZAtCoordinate \<lparr>vx = Fin (1 / 4), vy = Fin (1 / 4), vz = Fin (1 / 2)\<rparr> (Array3 (point3 0 0 0) (point3 4 0 4) (point3 2 3 8)))"
      "fle (getZAtCoordinate \<lparr>vx = Fin (1 / 4), vy = Fin (1 / 4), vz = Fin (1 / 2)\<rparr> (Array3 (point3 0 0 0) (point3 4 0 4) (point3 2 3 8))) (Fin 8)" "isfinite (getZAtCoordinate \<lparr>vx = Fin (1 / 4), vy = Fin (1 / 4), vz = Fin (1 / 2)\<rparr> (Array3 (point3 0 0 0) (point3 4 0 4) (point3 2 3 8)))"
      "0 - depth_error (Array3 (point3 0 0 0) (point3 4 0 4) (point3 2 3 8)) \<le> 5" "5 \<le> 8 + depth_error (Array3 (point3 0 0 0) (point3 4 0 4) (point3 2 3 8))"
    unfolding s15 by (simp_all add: point3_def)
  from th2 s23 have b: "13421773 / 134217728 - depth_error (Array3 (point3 0 0 (13421773 / 134217728)) (point3 1 0 (13421773 / 134217728)) (point3 0 1 (13421773 / 134217728))) \<le> 3355443 / 33554432"
    unfolding s24 by (simp add: point3_def)
  from a b s7 s14 s23 show ?thesis
    unfolding s15 by (simp add: point3_def)
qed

text \<open>
  C10, as stated, fails for the weights (0.3f, 0.25, 0.45f), whose sum is 1, and three
  vertices of depth 0.1f: the result is below 0.1f.
\<close>

theorem getZAtCoordinate_depth_range_counterexample:
  "isBarycentricCoordInBounds \<lparr>vx = Fin (5033165 / 16777216), vy = Fin (1 / 4), vz = Fin (7549747 / 16777216)\<rparr> \<and>
   5033165 / 16777216 + 1 / 4 + 7549747 / 16777216 = (1::real) \<and>
   fadd (fadd (Fin (5033165 / 16777216)) (Fin (1 / 4))) (Fin (7549747 / 16777216)) = Fin 1 \<and>
   finite_tri (Array3 (point3 0 0 (13421773 / 134217728)) (point3 1 0 (13421773 / 134217728)) (point3 0 1 (13421773 / 134217728))) \<and>
   getZAtCoordinate \<lparr>vx = Fin (5033165 / 16777216), vy = Fin (1 / 4), vz = Fin (7549747 / 16777216)\<rparr> (Array3 (point3 0 0 (13421773 / 134217728)) (point3 1 0 (13421773 / 134217728)) (point3 0 1 (13421773 / 134217728))) = Fin (3355443 / 33554432) \<and>
   vz (aabb_min (getAABBForTriangle (Array3 (point3 0 0 (13421773 / 134217728)) (point3 1 0 (13421773 / 134217728)) (point3 0 1 (13421773 / 134217728))))) = Fin (13421773 / 134217728) \<and>
   \<not> fle (vz (aabb_min (getAABBForTriangle (Array3 (point3 0 0 (13421773 / 134217728)) (point3 1 0 (13421773 / 134217728)) (point3 0 1 (13421773 / 134217728)))))) (getZAtCoordinate \<lparr>vx = Fin (5033165 / 16777216), vy = Fin (1 / 4), vz = Fin (7549747 / 16777216)\<rparr> (Array3 (point3 0 0 (13421773 / 134217728)) (point3 1 0 (13421773 / 134217728)) (point3 0 1 (13421773 / 134217728))))"
proof -
  have s1: "fmul (Fin (5033165 / 16777216)) (Fin (13421773 / 134217728)) = Fin (1006633 / 33554432)"
    by (rule fmul_Fin) (rule round32_pos [where e = "- 6" and m = 16106128]; simp add: rne_int_def)
  have s2: "fmul (Fin (1 / 4)) (Fin (13421773 / 134217728)) = Fin (13421773 / 536870912)"
    by (rule fmul_Fin) (rule round32_pos [where e = "- 6" and m = 13421773]; simp add: rne_int_def)
  have s3: "fmul (Fin (7549747 / 16777216)) (Fin (13421773 / 134217728)) = Fin (12079595 / 268435456)"
    by (rule fmul_Fin) (rule round32_pos [where e = "- 5" and m = 12079595]; simp add: rne_int_def)
  have s4: "fadd (Fin (1006633 / 33554432)) (Fin (13421773 / 536870912)) = Fin (7381975 / 134217728)"
    by (rule fadd_Fin) (rule round32_pos [where e = "- 5" and m = 14763950]; simp add: rne_int_def)
  have s5: "fadd (Fin (7381975 / 134217728)) (Fin (12079595 / 268435456)) = Fin (3355443 / 33554432)"
    by (rule fadd_Fin) (rule round32_pos [where e = "- 4" and m = 13421772]; simp add: rne_int_def)
  have s6: "getZAtCoordinate \<lparr>vx = Fin (5033165 / 16777216), vy = Fin (1 / 4), vz = Fin (7549747 / 16777216)\<rparr> (Array3 (point3 0 0 (13421773 / 134217728)) (point3 1 0 (13421773 / 134217728)) (point3 0 1 (13421773 / 134217728))) = Fin (3355443 / 33554432)"
    by (rule getZAtCoordinate_steps [OF s1 s2 s3 s4 s5])
  have s7: "fadd (Fin (5033165 / 16777216)) (Fin (1 / 4)) = Fin (9227469 / 16777216)"
    by (rule fadd_Fin) (rule round32_pos [where e = "- 1" and m = 9227469]; simp add: rne_int_def)
  have s8: "fadd (Fin (9227469 / 16777216)) (Fin (7549747 / 16777216)) = Fin 1"
    by (rule fadd_Fin) (rule round32_pos [where e = 0 and m = 8388608]; simp add: rne_int_def)
  have s9: "vz (aabb_min (getAABBForTriangle (Array3 (point3 0 0 (13421773 / 134217728)) (point3 1 0 (13421773 / 134217728)) (point3 0 1 (13421773 / 134217728))))) = Fin (13421773 / 134217728)"
    by (simp add: getAABB_point3, simp add: point3_def)
  show ?thesis
  proof (intro conjI)
    show "isBarycentricCoordInBounds \<lparr>vx = Fin (5033165 / 16777216), vy = Fin (1 / 4), vz = Fin (7549747 / 16777216)\<rparr>"
      by (simp add: isBarycentricCoordInBounds_def fge_def)
    show "5033165 / 16777216 + 1 / 4 + 7549747 / 16777216 = (1::real)"
      by simp
    show "fadd (fadd (Fin (5033165 / 16777216)) (Fin (1 / 4))) (Fin (7549747 / 16777216)) = Fin 1"
      by (simp only: s7 s8)
    show "finite_tri (Array3 (point3 0 0 (13421773 / 134217728)) (point3 1 0 (13421773 / 134217728)) (point3 0 1 (13421773 / 134217728)))"
      by (rule finite_tri_point3)
    show "getZAtCoordinate \<lparr>vx = Fin (5033165 / 16777216), vy = Fin (1 / 4), vz = Fin (7549747 / 16777216)\<rparr> (Array3 (point3 0 0 (13421773 / 134217728)) (point3 1 0 (13421773 / 134217728)) (point3 0 1 (13421773 / 134217728))) = Fin (3355443 / 33554432)"
      by (rule s6)
    show "vz (aabb_min (getAABBForTriangle (Array3 (point3 0 0 (13421773 / 134217728)) (point3 1 0 (13421773 / 134217728)) (point3 0 1 (13421773 / 134217728))))) = Fin (13421773 / 134217728)"
      by (rule s9)
    show "\<not> fle (vz (aabb_min (getAABBForTriangle (Array3 (point3 0 0 (13421773 / 134217728)) (point3 1 0 (13421773 / 134217728)) (point3 0 1 (13421773 / 134217728)))))) (getZAtCoordinate \<lparr>vx = Fin (5033165 / 16777216), vy = Fin (1 / 4), vz = Fin (7549747 / 16777216)\<rparr> (Array3 (point3 0 0 (13421773 / 134217728)) (point3 1 0 (13421773 / 134217728)) (point3 0 1 (13421773 / 134217728))))"
      by (simp only: s9 s6, simp)
  qed
qed

section \<open>Texture lookup\<close>

lemma int_range_between:
  "0 \<le> k \<Longrightarrow> k \<le> w \<Longrightarrow> w \<le> INT_MAX \<Longrightarrow> INT_MIN \<le> k \<and> k \<le> INT_MAX"
  by (simp add: INT_MIN_def)

lemma smod_nonneg: "0 \<le> (k::int) \<Longrightarrow> 0 < w \<Longrightarrow> k smod w = k mod w"
  by (auto simp: signed_modulo_int_def sgn_if)

lemma float_to_int_nonneg:
  assumes "0 \<le> p" "p \<le> 2 powi 30"
  shows "float_to_int (Fin p) = Inr \<lfloor>p\<rfloor>" and "0 \<le> \<lfloor>p\<rfloor>"
proof -
  have "p \<le> of_int (2 ^ 30)" using assms(2) by simp
  then have "\<lfloor>p\<rfloor> \<le> 2 ^ 30" by (rule floor_mono [of p "of_int (2 ^ 30)", unfolded floor_of_int])
  moreover show k0: "0 \<le> \<lfloor>p\<rfloor>" using assms(1) by simp
  ultimately have rng: "INT_MIN \<le> \<lfloor>p\<rfloor> \<and> \<lfloor>p\<rfloor> \<le> INT_MAX"
    by (simp add: INT_MIN_def INT_MAX_def)
  have tr: "(if 0 \<le> p then \<lfloor>p\<rfloor> else \<lceil>p\<rceil>) = \<lfloor>p\<rfloor>" using assms(1) by simp
  show "float_to_int (Fin p) = Inr \<lfloor>p\<rfloor>"
    unfolding float_to_int_def cfloat.case tr Let_def
    by (simp only: rng if_True simp_thms)
qed

lemma float_product_bounded:
  assumes "0 < w" "w \<le> 2 ^ 30" "0 \<le> u" "u \<le> 1"
  obtains p where "fmul (int_to_float w) (Fin u) = Fin p" "0 \<le> p" "p \<le> 2 powi 30"
proof -
  have "0 \<le> real_of_int w" "real_of_int w \<le> 2 powi 30"
    using assms(1,2) by simp_all
  from round32_bound [OF this] obtain W where W: "round32 (of_int w) = Fin W" "0 \<le> W" "W \<le> 2 powi 30"
    by auto
  have "0 \<le> W * u" using W(2) assms(3) by simp
  moreover have "W * u \<le> 2 powi 30 * 1" using W(2,3) assms(3,4) by (intro mult_mono) simp_all
  ultimately have "0 \<le> W * u" "W * u \<le> 2 powi 30" by simp_all
  from round32_bound [OF this] obtain p where "round32 (W * u) = Fin p" "0 \<le> p" "p \<le> 2 powi 30"
    by auto
  then show ?thesis using W(1) by (intro that [of p]) (simp_all add: int_to_float_def fmul_def)
qed

lemma pixelCoord_floor:
  assumes "0 < w" "w \<le> 2 ^ 30" "0 \<le> u" "u \<le> 1"
  shows "pixelCoord w (Fin u) = Inr (\<lfloor>fval (fmul (int_to_float w) (Fin u))\<rfloor> mod w)"
proof -
  from assms obtain p where p: "fmul (int_to_float w) (Fin u) = Fin p" "0 \<le> p" "p \<le> 2 powi 30"
    by (rule float_product_bounded)
  have k: "float_to_int (Fin p) = Inr \<lfloor>p\<rfloor>" "0 \<le> \<lfloor>p\<rfloor>"
    using p(2,3) by (rule float_to_int_nonneg)+
  have "\<lfloor>p\<rfloor> smod w = \<lfloor>p\<rfloor> mod w" using k(2) assms(1) by (rule smod_nonneg)
  with k assms(1) show ?thesis
    by (simp add: pixelCoord_def p int_rem_def INT_MIN_def)
qed

lemma uchar_to_float_exact: "uchar_to_float b = Fin (real (unat b))"
proof -
  have "uint b < 2 ^ 8" using uint_bounded [of b] by simp
  then have "\<bar>uint b\<bar> \<le> 2 ^ 24" by simp
  then have "exact32 (of_int (uint b))" by (rule exact32_int)
  then show ?thesis by (simp add: uchar_to_float_def int_to_float_def exact32_def)
qed

lemma byte_over_255: "fdiv (uchar_to_float b) (Fin 255) = round32 (real (unat b) / 255)"
  by (simp add: uchar_to_float_exact fdiv_def)

lemma int_range_nonneg: "0 \<le> k \<Longrightarrow> k \<le> INT_MAX \<Longrightarrow> in_int_range k = Inr k"
  by (simp add: in_int_range_def INT_MIN_def)

lemma read_byte_nat: "0 \<le> i \<Longrightarrow> nat i < length buf \<Longrightarrow> read_byte buf i = Inr (buf ! nat i)"
  by (simp add: read_byte_def)

lemma float_to_int_of_int:
  assumes "0 < w" "w \<le> INT_MAX"
  shows "float_to_int (Fin (of_int w)) = Inr w"
proof -
  have tr: "(if 0 \<le> real_of_int w then \<lfloor>real_of_int w\<rfloor> else \<lceil>real_of_int w\<rceil>) = w"
    by simp
  have rng: "INT_MIN \<le> w \<and> w \<le> INT_MAX" using assms by (simp add: INT_MIN_def)
  show ?thesis
    unfolding float_to_int_def cfloat.case tr Let_def
    by (simp only: rng if_True simp_thms)
qed

lemma pixelCoord_one:
  assumes "0 < w" "w \<le> INT_MAX" "w \<le> 2 ^ 24 \<or> exact32 (of_int w)"
  shows "pixelCoord w (Fin 1) = Inr 0"
proof -
  from assms(3) have "exact32 (of_int w)"
  proof
    assume "w \<le> 2 ^ 24"
    with assms(1) have "\<bar>w\<bar> \<le> 2 ^ 24" by simp
    then show ?thesis by (rule exact32_int)
  qed
  then have f: "fmul (int_to_float w) (Fin 1) = Fin (of_int w)"
    by (simp add: int_to_float_def fmul_def exact32_def)
  have "w smod w = 0" using assms(1) by (simp add: smod_nonneg)
  with assms(1) show ?thesis
    by (simp add: pixelCoord_def f float_to_int_of_int [OF assms(1,2)] int_rem_def)
qed

text \<open>
  C6, as amended. Sampling a texture at texcoord (1.0, 1.0) indexes pixel (0,0) when the
  width and the height are positive \<^verbatim>\<open>int\<close>s that convert to \<^verbatim>\<open>float\<close> unchanged, as
  every integer up to 2^24 does: the locals \<^verbatim>\<open>x\<close>, \<^verbatim>\<open>y\<close> and \<^verbatim>\<open>index\<close> of
  \<^verbatim>\<open>getColorFromTextureData\<close> are all 0, and the colour returned is the one of the
  first three bytes of the buffer, each divided by 255 in \<^verbatim>\<open>float\<close>.
\<close>

theorem texture_wraparound:
  assumes "0 < w" "w \<le> INT_MAX" "w \<le> 2 ^ 24 \<or> exact32 (of_int w)"
    and "0 < h" "h \<le> INT_MAX" "h \<le> 2 ^ 24 \<or> exact32 (of_int h)"
  shows "pixelCoord w (Fin 1) = Inr 0 \<and> pixelCoord h (Fin 1) = Inr 0 \<and>
         pixelIndex \<lparr>px = Fin 1, py = Fin 1\<rparr> w h = Inr 0 \<and>
         (3 \<le> length buf \<longrightarrow>
            getColorFromTextureData buf \<lparr>px = Fin 1, py = Fin 1\<rparr> w h stride =
              Inr \<lparr>vx = round32 (real (unat (buf ! 0)) / 255),
                   vy = round32 (real (unat (buf ! 1)) / 255),
                   vz = round32 (real (unat (buf ! 2)) / 255)\<rparr>)"
proof -
  have x: "pixelCoord w (Fin 1) = Inr 0" using assms(1,2,3) by (rule pixelCoord_one)
  have y: "pixelCoord h (Fin 1) = Inr 0" using assms(4,5,6) by (rule pixelCoord_one)
  have i: "pixelIndex \<lparr>px = Fin 1, py = Fin 1\<rparr> w h = Inr 0"
    by (simp add: pixelIndex_def x y int_mul_def int_add_def in_int_range_def INT_MIN_def INT_MAX_def)
  have c: "getColorFromTextureData buf \<lparr>px = Fin 1, py = Fin 1\<rparr> w h stride =
           Inr \<lparr>vx = round32 (real (unat (buf ! 0)) / 255),
                vy = round32 (real (unat (buf ! 1)) / 255),
                vz = round32 (real (unat (buf ! 2)) / 255)\<rparr>" if len: "3 \<le> length buf"
  proof -
    from len have "buf \<noteq> []" by auto
    with len show ?thesis
      by (simp add: getColorFromTextureData_def i int_mul_def int_add_def in_int_range_def
          INT_MIN_def INT_MAX_def read_byte_def byte_over_255)
  qed
  from x y i c show ?thesis by blast
qed

text \<open>
  A texture of two pixels.
\<close>

theorem texture_wraparound_witness:
  "pixelCoord 2 (Fin 1) = Inr 0 \<and> pixelCoord 1 (Fin 1) = Inr 0 \<and>
   pixelIndex \<lparr>px = Fin 1, py = Fin 1\<rparr> 2 1 = Inr 0 \<and>
   getColorFromTextureData [255, 0, 255, 0, 0, 0] \<lparr>px = Fin 1, py = Fin 1\<rparr> 2 1 3 =
     Inr \<lparr>vx = Fin 1, vy = Fin 0, vz = Fin 1\<rparr>"
  using texture_wraparound [where w = 2 and h = 1 and buf = "[255, 0, 255, 0, 0, 0]" and stride = 3]
  by (simp add: INT_MAX_def)

text \<open>
  C6, as stated, fails for the width 16777217 = 2^24 + 1, which converts to the
  \<^verbatim>\<open>float\<close> 2^24: x is 16777216. For the width 2^31 - 1 the product is 2^31, which no
  \<^verbatim>\<open>int\<close> holds.
\<close>

theorem texture_wraparound_counterexample:
  "int_to_float 16777217 = Fin 16777216 \<and>
   pixelCoord 16777217 (Fin 1) = Inr 16777216 \<and>
   pixelCoord 2147483647 (Fin 1) = Inl CastOutOfRange"
proof -
  have s1: "int_to_float 16777217 = Fin 16777216"
    by (unfold int_to_float_def, (rule round32_pos [where e = 24 and m = 8388608]; simp add: rne_int_def))
  have s2: "fmul (Fin 16777216) (Fin 1) = Fin 16777216"
    by (rule fmul_Fin) (rule round32_pos [where e = 24 and m = 8388608]; simp add: rne_int_def)
  have s3: "int_to_float 2147483647 = Fin 2147483648"
    by (unfold int_to_float_def, (rule round32_pos [where e = 30 and m = 16777216]; simp add: rne_int_def))
  have s4: "fmul (Fin 2147483648) (Fin 1) = Fin 2147483648"
    by (rule fmul_Fin) (rule round32_pos [where e = 31 and m = 8388608]; simp add: rne_int_def)
  show ?thesis
  proof (intro conjI)
    show "int_to_float 16777217 = Fin 16777216"
      by (rule s1)
    show "pixelCoord 16777217 (Fin 1) = Inr 16777216"
      by (simp add: pixelCoord_def s1 s2 float_to_int_def int_rem_def INT_MIN_def INT_MAX_def smod_nonneg)
    show "pixelCoord 2147483647 (Fin 1) = Inl CastOutOfRange"
      by (simp add: pixelCoord_def s3 s4 float_to_int_def int_rem_def INT_MIN_def INT_MAX_def smod_nonneg)
  qed
qed

text \<open>
  C2, as amended. For a texture of positive width and height, a stride of at least 3,
  a buffer of at least width * height * stride bytes (a product that fits an
  \<^verbatim>\<open>int\<close>) and a texcoord (u, v) in the unit square, \<^verbatim>\<open>getColorFromTextureData\<close>
  computes x = floor (p) mod w, where p is the \<^verbatim>\<open>float\<close> product of w converted
  to \<^verbatim>\<open>float\<close> and u, likewise y from h and v, and index = x + y * w, and returns the
  three bytes at the offsets index * stride, index * stride + 1 and index * stride + 2,
  each divided by 255 in \<^verbatim>\<open>float\<close>: three bytes whatever the stride is.
\<close>

theorem getColorFromTextureData_texel:
  assumes w: "0 < w" and h: "0 < h" and st: "3 \<le> stride"
    and size: "w * h * stride \<le> INT_MAX" and len: "nat (w * h * stride) \<le> length buf"
    and u: "0 \<le> u" "u \<le> 1" and v: "0 \<le> v" "v \<le> 1"
  shows "(let x = \<lfloor>fval (fmul (int_to_float w) (Fin u))\<rfloor> mod w;
              y = \<lfloor>fval (fmul (int_to_float h) (Fin v))\<rfloor> mod h;
              index = x + y * w; base = nat (index * stride)
          in getColorFromTextureData buf \<lparr>px = Fin u, py = Fin v\<rparr> w h stride =
               Inr \<lparr>vx = round32 (real (unat (buf ! base)) / 255),
                    vy = round32 (real (unat (buf ! (base + 1))) / 255),
                    vz = round32 (real (unat (buf ! (base + 2))) / 255)\<rparr>)"
proof -
  define x where "x = \<lfloor>fval (fmul (int_to_float w) (Fin u))\<rfloor> mod w"
  define y where "y = \<lfloor>fval (fmul (int_to_float h) (Fin v))\<rfloor> mod h"
  define index where "index = x + y * w"
  define base where "base = index * stride"
  have x: "0 \<le> x" "x < w" using w by (simp_all add: x_def)
  have y: "0 \<le> y" "y < h" using h by (simp_all add: y_def)
  have wh: "0 < w * h" using w h by simp
  have "w * 1 \<le> w * h" using w h by (intro mult_left_mono) simp_all
  moreover have "1 * h \<le> w * h" using w h by (intro mult_right_mono) simp_all
  moreover have "(w * h) * 1 \<le> (w * h) * stride" using wh st by (intro mult_left_mono) simp_all
  ultimately have wmax: "w \<le> INT_MAX" and hmax: "h \<le> INT_MAX" and whmax: "w * h \<le> INT_MAX"
    using size by simp_all
  have "(w * h) * 3 \<le> (w * h) * stride" using wh st by (intro mult_left_mono) simp_all
  with size have wh3: "w * h * 3 \<le> INT_MAX" by simp
  have "w * 1 * 3 \<le> w * h * 3" using w h by (intro mult_right_mono mult_left_mono) simp_all
  with wh3 have w30: "w \<le> 2 ^ 30" by (simp add: INT_MAX_def)
  have "1 * h * 3 \<le> w * h * 3" using w h by (intro mult_right_mono) simp_all
  with wh3 have h30: "h \<le> 2 ^ 30" by (simp add: INT_MAX_def)
  have yw0: "0 \<le> y * w" using y w by simp
  have "y * w \<le> (h - 1) * w" using y w by (intro mult_right_mono) simp_all
  then have yw: "y * w \<le> w * h - w" by (simp add: algebra_simps)
  have i0: "0 \<le> index" using x yw0 by (simp add: index_def)
  have i1: "index \<le> w * h - 1" using x yw by (simp add: index_def)
  have b0: "0 \<le> base" using i0 st by (simp add: base_def)
  have "index * stride \<le> (w * h - 1) * stride" using i1 st by (intro mult_right_mono) simp_all
  then have b1: "base + stride \<le> w * h * stride" by (simp add: base_def algebra_simps)
  have px: "pixelCoord w (Fin u) = Inr x"
    unfolding x_def by (rule pixelCoord_floor [OF w w30 u])
  have py: "pixelCoord h (Fin v) = Inr y"
    unfolding y_def by (rule pixelCoord_floor [OF h h30 v])
  have "int_mul y w = Inr (y * w)"
    unfolding int_mul_def using yw0 yw w whmax by (intro int_range_nonneg) simp_all
  moreover have "int_add x (y * w) = Inr index"
    unfolding int_add_def index_def [symmetric] using i0 i1 whmax by (intro int_range_nonneg) simp_all
  ultimately have idx: "pixelIndex \<lparr>px = Fin u, py = Fin v\<rparr> w h = Inr index"
    by (simp add: pixelIndex_def px py)
  have m: "int_mul index stride = Inr base"
    unfolding int_mul_def base_def [symmetric] using b0 b1 st size by (intro int_range_nonneg) simp_all
  have a1: "int_add base 1 = Inr (base + 1)"
    unfolding int_add_def using b0 b1 st size by (intro int_range_nonneg) simp_all
  have a2: "int_add base 2 = Inr (base + 2)"
    unfolding int_add_def using b0 b1 st size by (intro int_range_nonneg) simp_all
  have inb: "nat (base + 2) < length buf" using b0 b1 st len by linarith
  have r0: "read_byte buf base = Inr (buf ! nat base)"
    using b0 inb by (intro read_byte_nat) simp_all
  have r1: "read_byte buf (base + 1) = Inr (buf ! (nat base + 1))"
    using b0 inb read_byte_nat [of "base + 1" buf] by (simp add: nat_add_distrib)
  have r2: "read_byte buf (base + 2) = Inr (buf ! (nat base + 2))"
    using b0 inb read_byte_nat [of "base + 2" buf] by (simp add: nat_add_distrib)
  have "getColorFromTextureData buf \<lparr>px = Fin u, py = Fin v\<rparr> w h stride =
          Inr \<lparr>vx = round32 (real (unat (buf ! nat base)) / 255),
               vy = round32 (real (unat (buf ! (nat base + 1))) / 255),
               vz = round32 (real (unat (buf ! (nat base + 2))) / 255)\<rparr>"
    by (simp add: getColorFromTextureData_def idx m a1 a2 r0 r1 r2 byte_over_255)
  then show ?thesis
    unfolding Let_def x_def y_def index_def base_def .
qed

text \<open>
  A texture of ten pixels in one row, sampled at u = 0.7f: pixel 7.
\<close>

theorem getColorFromTextureData_texel_witness:
  "getColorFromTextureData [0, 0, 0, 0, 0, 0, 0, 0, 0, 0, 0, 0, 0, 0, 0, 0, 0, 0, 0, 0, 0, 255, 255, 255, 0, 0, 0, 0, 0, 0] \<lparr>px = Fin (11744051 / 16777216), py = Fin 0\<rparr> 10 1 3 = Inr \<lparr>vx = Fin 1, vy = Fin 1, vz = Fin 1\<rparr>"
proof -
  have s1: "int_to_float 10 = Fin 10"
    by (unfold int_to_float_def, (rule round32_pos [where e = 3 and m = 10485760]; simp add: rne_int_def))
  have s2: "int_to_float 1 = Fin 1"
    by (unfold int_to_float_def, (rule round32_pos [where e = 0 and m = 8388608]; simp add: rne_int_def))
  have s3: "fmul (Fin 10) (Fin (11744051 / 16777216)) = Fin 7"
    by (rule fmul_Fin) (rule round32_pos [where e = 2 and m = 14680064]; simp add: rne_int_def)
  show ?thesis
    using getColorFromTextureData_texel
      [where w = 10 and h = 1 and stride = 3 and u = "11744051 / 16777216" and v = 0
         and buf = "[0, 0, 0, 0, 0, 0, 0, 0, 0, 0, 0, 0, 0, 0, 0, 0, 0, 0, 0, 0, 0, 255, 255, 255, 0, 0, 0, 0, 0, 0]"]
    by (simp add: INT_MAX_def s1 s2 s3)
qed

text \<open>
  C2, as stated, fails on that texture: 10 * 0.7f is 7 in \<^verbatim>\<open>float\<close>, so the
  function reads pixel 7, while floor (10 * u) of the specification is 6. It fails as
  well for a stride of 4: the specification's reading takes four bytes from the buffer,
  the function returns three.
\<close>

theorem sampleTexture_counterexample:
  "pixelCoord 10 (Fin (11744051 / 16777216)) = Inr 7 \<and>
   \<lfloor>of_int 10 * (11744051 / 16777216::real)\<rfloor> mod 10 = (6::int) \<and>
   getColorFromTextureData [0, 0, 0, 0, 0, 0, 0, 0, 0, 0, 0, 0, 0, 0, 0, 0, 0, 0, 0, 0, 0, 255, 255, 255, 0, 0, 0, 0, 0, 0] \<lparr>px = Fin (11744051 / 16777216), py = Fin 0\<rparr> 10 1 3 = Inr \<lparr>vx = Fin 1, vy = Fin 1, vz = Fin 1\<rparr> \<and>
   sampleTexture_spec [0, 0, 0, 0, 0, 0, 0, 0, 0, 0, 0, 0, 0, 0, 0, 0, 0, 0, 0, 0, 0, 255, 255, 255, 0, 0, 0, 0, 0, 0] (11744051 / 16777216) 0 10 1 3 = [0, 0, 0] \<and>
   getColorFromTextureData [255, 0, 255, 255] \<lparr>px = Fin 0, py = Fin 0\<rparr> 1 1 4 = Inr \<lparr>vx = Fin 1, vy = Fin 0, vz = Fin 1\<rparr> \<and>
   sampleTexture_spec [255, 0, 255, 255] 0 0 1 1 4 = [1, 0, 1, 1]"
proof -
  have s1: "int_to_float 10 = Fin 10"
    by (unfold int_to_float_def, (rule round32_pos [where e = 3 and m = 10485760]; simp add: rne_int_def))
  have s2: "int_to_float 1 = Fin 1"
    by (unfold int_to_float_def, (rule round32_pos [where e = 0 and m = 8388608]; simp add: rne_int_def))
  have s3: "fmul (Fin 10) (Fin (11744051 / 16777216)) = Fin 7"
    by (rule fmul_Fin) (rule round32_pos [where e = 2 and m = 14680064]; simp add: rne_int_def)
  have s4: "pixelCoord 10 (Fin (11744051 / 16777216)) = Inr 7"
    by (simp add: pixelCoord_def s1 s3 float_to_int_def int_rem_def INT_MIN_def INT_MAX_def smod_nonneg)
  have s5: "pixelCoord 1 (Fin 0) = Inr 0"
    by (simp add: pixelCoord_def s2 float_to_int_def int_rem_def INT_MIN_def INT_MAX_def smod_nonneg)
  have s6: "pixelIndex \<lparr>px = Fin (11744051 / 16777216), py = Fin 0\<rparr> 10 1 = Inr 7"
    by (simp add: pixelIndex_def s4 s5 int_mul_def int_add_def in_int_range_def INT_MIN_def INT_MAX_def)
  have s7: "pixelIndex \<lparr>px = Fin 0, py = Fin 0\<rparr> 1 1 = Inr 0"
    by (simp add: pixelIndex_def s5 int_mul_def int_add_def in_int_range_def INT_MIN_def INT_MAX_def)
  show ?thesis
  proof (intro conjI)
    show "pixelCoord 10 (Fin (11744051 / 16777216)) = Inr 7"
      by (rule s4)
    show "\<lfloor>of_int 10 * (11744051 / 16777216::real)\<rfloor> mod 10 = (6::int)"
      by simp
    show "getColorFromTextureData [0, 0, 0, 0, 0, 0, 0, 0, 0, 0, 0, 0, 0, 0, 0, 0, 0, 0, 0, 0, 0, 255, 255, 255, 0, 0, 0, 0, 0, 0] \<lparr>px = Fin (11744051 / 16777216), py = Fin 0\<rparr> 10 1 3 = Inr \<lparr>vx = Fin 1, vy = Fin 1, vz = Fin 1\<rparr>"
      by (simp add: getColorFromTextureData_def s6 int_mul_def int_add_def in_int_range_def INT_MIN_def INT_MAX_def read_byte_def byte_over_255)
    show "sampleTexture_spec [0, 0, 0, 0, 0, 0, 0, 0, 0, 0, 0, 0, 0, 0, 0, 0, 0, 0, 0, 0, 0, 255, 255, 255, 0, 0, 0, 0, 0, 0] (11744051 / 16777216) 0 10 1 3 = [0, 0, 0]"
      by (simp add: sampleTexture_spec_def)
    show "getColorFromTextureData [255, 0, 255, 255] \<lparr>px = Fin 0, py = Fin 0\<rparr> 1 1 4 = Inr \<lparr>vx = Fin 1, vy = Fin 0, vz = Fin 1\<rparr>"
      by (simp add: getColorFromTextureData_def s7 int_mul_def int_add_def in_int_range_def INT_MIN_def INT_MAX_def read_byte_def byte_over_255)
    show "sampleTexture_spec [255, 0, 255, 255] 0 0 1 1 4 = [1, 0, 1, 1]"
      by (simp add: sampleTexture_spec_def)
  qed
qed

end
